theory Spec2Isabelle
  imports Complex_Main "HOL-Library.Log_Nat"
begin

section \<open>The terraforming zone of \<^verbatim>\<open>src/terraforming.ts\<close>\<close>

text \<open>
  A shallow embedding of the class \<^verbatim>\<open>Terraforming\<close> (the variant with spawners, the first
  one of \<^verbatim>\<open>src/terraforming.ts\<close>).

  Numbers. A JavaScript number is an IEEE 754 double. Block coordinates, block ids, sizes
  and millisecond times are integers in every configuration of the repository and are
  modelled as \<^typ>\<open>int\<close>: sums, differences and products of integers below \<open>2\<^sup>5\<^sup>3\<close> in magnitude
  are exact in doubles. Every other finite number is a \<^typ>\<open>real\<close> that is meant to be a double
  (the options \<^verbatim>\<open>elevationSpeed\<close> and \<^verbatim>\<open>spawnerSpreadRadius\<close>, the results of
  \<^verbatim>\<open>Math.random()\<close>), and the operations of the growth step and of the spacing test that
  leave the integers (\<^verbatim>\<open>Math.sqrt\<close>, \<^verbatim>\<open>/\<close>, \<^verbatim>\<open>*\<close>, \<^verbatim>\<open>-\<close>) return the exact result rounded to the
  nearest double, ties to even, as IEEE 754 prescribes (\<open>to_double\<close> below; the exponent
  range is not bounded, no value of the step comes near its ends). The quotient by
  \<^verbatim>\<open>intervalMs\<close>, which may be \<open>0\<close>, and the wave radius computed from it are numbers that may be
  \<^verbatim>\<open>Infinity\<close>, \<^verbatim>\<open>-Infinity\<close> or \<^verbatim>\<open>NaN\<close>. The divisor \<^verbatim>\<open>maxRadius\<close> is at least \<open>1\<close> whenever the
  body of the loop runs (the window is empty otherwise). \<^verbatim>\<open>Math.cos\<close> and \<^verbatim>\<open>Math.sin\<close> are
  approximations left to the implementation; the candidate site of the spreading search
  is computed with the real functions, every general statement about the search holds for
  whatever candidate is proposed, and the examples that evaluate a candidate use the angle
  \<open>0\<close>, where both are exact.

  Effects. The fields of the class, the shared voxel grid, the console and the number of
  \<^verbatim>\<open>Math.random()\<close> results consumed so far are one record that every method takes and
  returns. Target objects are shared by reference between \<^verbatim>\<open>currentTarget\<close> and
  \<^verbatim>\<open>completedTargets\<close> and mutated in place, so they live in an object store addressed by
  references. \<^verbatim>\<open>Date.now()\<close> and the sequence of \<^verbatim>\<open>Math.random()\<close> results are parameters.
  Of the console only \<^verbatim>\<open>console.warn\<close> and \<^verbatim>\<open>console.error\<close> are recorded.
\<close>

subsection \<open>Numbers\<close>

text \<open>The exponent \<open>e\<close> of a non-zero real \<open>x\<close>: \<open>2\<^sup>e \<le> \<bar>x\<bar> < 2\<^sup>e\<^sup>+\<^sup>1\<close>.\<close>

definition float_exponent :: "real \<Rightarrow> int" where
  "float_exponent x =
     (if 1 \<le> \<bar>x\<bar> then bitlen \<lfloor>\<bar>x\<bar>\<rfloor> - 1 else - bitlen (\<lceil>1 / \<bar>x\<bar>\<rceil> - 1))"

definition round_half_even :: "real \<Rightarrow> int" where
  "round_half_even q =
     (let f = \<lfloor>q\<rfloor>; r = q - real_of_int f
      in if r < 1 / 2 then f else if 1 / 2 < r then f + 1 else if even f then f else f + 1)"

text \<open>The double nearest to a real, ties to even: a multiple of \<open>2\<^sup>e\<^sup>-\<^sup>5\<^sup>2\<close> (\<open>53\<close> significant
  bits).\<close>

definition to_double :: "real \<Rightarrow> real" where
  "to_double x =
     (if x = 0 then 0
      else let ulp = 2 powi (float_exponent x - 52)
           in real_of_int (round_half_even (x / ulp)) * ulp)"

text \<open>The operators \<^verbatim>\<open>*\<close>, \<^verbatim>\<open>-\<close>, \<^verbatim>\<open>/\<close> (with a non-zero divisor) and \<^verbatim>\<open>Math.sqrt\<close> (of a
  non-negative number) on finite doubles.\<close>

definition double_times :: "real \<Rightarrow> real \<Rightarrow> real" where
  "double_times a b = to_double (a * b)"

definition double_minus :: "real \<Rightarrow> real \<Rightarrow> real" where
  "double_minus a b = to_double (a - b)"

definition double_divide :: "real \<Rightarrow> real \<Rightarrow> real" where
  "double_divide a b = to_double (a / b)"

definition Math_sqrt :: "real \<Rightarrow> real" where
  "Math_sqrt a = to_double (sqrt a)"

text \<open>A number that need not be finite, and the operations of \<^verbatim>\<open>terraformStep\<close> on it: the
  quotient of two finite numbers, \<^verbatim>\<open>Math.floor\<close>, the product with a finite number, and the
  test \<^verbatim>\<open>a > v\<close> for a finite \<open>a\<close>.\<close>

datatype number = Finite real | PosInfinity | NegInfinity | NaN

definition number_divide :: "real \<Rightarrow> real \<Rightarrow> number" where
  "number_divide a b =
     (if b = 0 then (if 0 < a then PosInfinity else if a < 0 then NegInfinity else NaN)
      else Finite (to_double (a / b)))"

definition Math_floor :: "number \<Rightarrow> number" where
  "Math_floor v = (case v of Finite a \<Rightarrow> Finite (real_of_int \<lfloor>a\<rfloor>) | _ \<Rightarrow> v)"

definition number_times :: "number \<Rightarrow> real \<Rightarrow> number" where
  "number_times v b =
     (case v of
        Finite a \<Rightarrow> Finite (to_double (a * b))
      | PosInfinity \<Rightarrow> if 0 < b then PosInfinity else if b < 0 then NegInfinity else NaN
      | NegInfinity \<Rightarrow> if 0 < b then NegInfinity else if b < 0 then PosInfinity else NaN
      | NaN \<Rightarrow> NaN)"

definition number_greater :: "real \<Rightarrow> number \<Rightarrow> bool" where
  "number_greater a v =
     (case v of Finite b \<Rightarrow> b < a | PosInfinity \<Rightarrow> False | NegInfinity \<Rightarrow> True | NaN \<Rightarrow> False)"

subsection \<open>The voxel grid\<close>

datatype error = GridError

text \<open>What \<^verbatim>\<open>getBlockId\<close> can return: the code tests for \<^verbatim>\<open>undefined\<close>, \<^verbatim>\<open>null\<close> and the
  number \<open>0\<close> (air).\<close>

datatype blockId = Undefined | Null | Id int

text \<open>Modelled from the spec: the voxel grid (\<^verbatim>\<open>world.chunkLattice\<close> of the hytopia SDK) is
  an external collaborator whose code is not part of the repository. It offers ``get block
  type at (x,y,z)'' and ``set block at (x,y,z) to type T'', either of which may fail. A
  read is a lookup that may throw; a write throws at the coordinates in \<open>writeFails\<close> and
  otherwise stores the block id at that coordinate only.\<close>

record world =
  blocks :: "int \<times> int \<times> int \<Rightarrow> error + blockId"
  writeFails :: "int \<times> int \<times> int \<Rightarrow> bool"

definition chunkLattice_getBlockId :: "world \<Rightarrow> int \<times> int \<times> int \<Rightarrow> error + blockId" where
  "chunkLattice_getBlockId w p = blocks w p"

definition chunkLattice_setBlock :: "world \<Rightarrow> int \<times> int \<times> int \<Rightarrow> int \<Rightarrow> error + world" where
  "chunkLattice_setBlock w p b =
     (if writeFails w p then Inl GridError
      else Inr (w\<lparr>blocks := (blocks w)(p := Inr (Id b))\<rparr>))"

subsection \<open>Data model\<close>

text \<open>\<^verbatim>\<open>interface TerraformingTarget\<close>; a position \<^verbatim>\<open>{x, y, z}\<close> is the triple \<open>(x, y, z)\<close>.\<close>

record target =
  t_x :: int
  t_y :: int
  t_z :: int
  startTime :: int
  spawnerPosition :: "(int \<times> int \<times> int) option"
  isActive :: bool

text \<open>The options after the constructor has filled in the defaults (immutable).\<close>

record options =
  centerX :: int
  centerZ :: int
  size_opt :: int
  targetHeight :: int
  intervalMs :: int
  terraformSize :: int
  blockTypeId :: int
  elevationSpeed :: real
  spawnerBlockId :: int
  initialSpawnPoints :: "(int \<times> int) list"
  spawnerSpreadRadius :: real

datatype event =
    WarnOutsideBounds int int
  | WarnNoActiveSpawners
  | ErrorSetBlock int int int

text \<open>The mutable fields of the class. \<open>spawnerPositions\<close> is the \<^verbatim>\<open>Set<string>\<close> of keys
  \<^verbatim>\<open>"x,y,z"\<close> in insertion order; a key is modelled by the triple it serialises, which
  \<^verbatim>\<open>getSpawnerPositions\<close> parses back unchanged. \<open>targets\<close> is the object store and \<open>nextRef\<close>
  the next fresh reference; \<open>randomCalls\<close> counts the \<^verbatim>\<open>Math.random()\<close> results consumed.\<close>

record terraforming =
  world :: world
  targets :: "nat \<Rightarrow> target"
  nextRef :: nat
  currentTarget :: "nat option"
  completedTargets :: "nat list"
  spawnerPositions :: "(int \<times> int \<times> int) list"
  hasInitialSpawners :: bool
  randomCalls :: nat
  console :: "event list"

text \<open>\<^verbatim>\<open>Set.prototype.add\<close> and \<^verbatim>\<open>Set.prototype.delete\<close> on the insertion-ordered key set.\<close>

definition Set_add :: "'a \<Rightarrow> 'a list \<Rightarrow> 'a list" where
  "Set_add k ks = (if k \<in> set ks then ks else ks @ [k])"

definition Set_delete :: "'a \<Rightarrow> 'a list \<Rightarrow> 'a list" where
  "Set_delete k ks = removeAll k ks"

text \<open>An object literal assigned to \<^verbatim>\<open>this.currentTarget\<close>: a fresh object in the store.\<close>

definition newCurrentTarget :: "target \<Rightarrow> terraforming \<Rightarrow> terraforming" where
  "newCurrentTarget t s =
     s\<lparr>targets := (targets s)(nextRef s := t),
       currentTarget := Some (nextRef s),
       nextRef := Suc (nextRef s)\<rparr>"

text \<open>\<^verbatim>\<open>Math.round\<close>: the nearest integer, halves towards \<open>+\<infinity>\<close>.\<close>

definition Math_round :: "real \<Rightarrow> int" where
  "Math_round v = \<lfloor>v + 1 / 2\<rfloor>"

subsection \<open>Bounds and grid access\<close>

definition isWithinBounds :: "options \<Rightarrow> int \<Rightarrow> int \<Rightarrow> bool" where
  "isWithinBounds cfg x z =
     (let halfSize = size_opt cfg div 2;
          minX = centerX cfg - halfSize;
          maxX = centerX cfg + halfSize - 1;
          minZ = centerZ cfg - halfSize;
          maxZ = centerZ cfg + halfSize - 1
      in x \<ge> minX \<and> x \<le> maxX \<and> z \<ge> minZ \<and> z \<le> maxZ)"

definition hasBlockAt :: "world \<Rightarrow> int \<Rightarrow> int \<Rightarrow> int \<Rightarrow> bool" where
  "hasBlockAt w x y z =
     (case chunkLattice_getBlockId w (x, y, z) of
        Inl e \<Rightarrow> False
      | Inr blockId \<Rightarrow> blockId \<noteq> Id 0 \<and> blockId \<noteq> Null \<and> blockId \<noteq> Undefined)"

definition setBlock :: "terraforming \<Rightarrow> int \<Rightarrow> int \<Rightarrow> int \<Rightarrow> int \<Rightarrow> terraforming" where
  "setBlock s x y z b =
     (case chunkLattice_setBlock (world s) (x, y, z) b of
        Inr w' \<Rightarrow> s\<lparr>world := w'\<rparr>
      | Inl e \<Rightarrow> s\<lparr>console := console s @ [ErrorSetBlock x y z]\<rparr>)"

text \<open>The loop of \<^verbatim>\<open>getCurrentHeight\<close>: \<^verbatim>\<open>for (y = ...; y >= 0; y--)\<close>.\<close>

function getCurrentHeight_from :: "world \<Rightarrow> int \<Rightarrow> int \<Rightarrow> int \<Rightarrow> int" where
  "getCurrentHeight_from w x z y =
     (if y \<ge> 0 then (if hasBlockAt w x y z then y else getCurrentHeight_from w x z (y - 1))
      else - 1)"
  by pat_completeness auto
termination
  by (relation "measure (\<lambda>(w, x, z, y). nat (y + 1))") auto

declare getCurrentHeight_from.simps [simp del]

definition getCurrentHeight :: "options \<Rightarrow> world \<Rightarrow> int \<Rightarrow> int \<Rightarrow> int" where
  "getCurrentHeight cfg w x z = getCurrentHeight_from w x z (targetHeight cfg + 10)"

definition isSpawnerBlockPresent :: "options \<Rightarrow> world \<Rightarrow> int \<times> int \<times> int \<Rightarrow> bool" where
  "isSpawnerBlockPresent cfg w position =
     (case chunkLattice_getBlockId w position of
        Inl e \<Rightarrow> False
      | Inr blockId \<Rightarrow> blockId = Id (spawnerBlockId cfg))"

subsection \<open>The spawner registry\<close>

definition getSpawnerPositions :: "terraforming \<Rightarrow> (int \<times> int \<times> int) list" where
  "getSpawnerPositions s = spawnerPositions s"

definition getActiveSpawnerPositions :: "options \<Rightarrow> terraforming \<Rightarrow> (int \<times> int \<times> int) list" where
  "getActiveSpawnerPositions cfg s =
     filter (isSpawnerBlockPresent cfg (world s)) (getSpawnerPositions s)"

definition findSpawnerPositionAt ::
  "options \<Rightarrow> terraforming \<Rightarrow> int \<Rightarrow> int \<Rightarrow> (int \<times> int \<times> int) option" where
  "findSpawnerPositionAt cfg s x z =
     find (\<lambda>(sx, sy, sz). sx = x \<and> sz = z) (getActiveSpawnerPositions cfg s)"

text \<open>\<^verbatim>\<open>Math.sqrt((x - spawner.x) ** 2 + (z - spawner.z) ** 2)\<close>.\<close>

definition spawnerDistance :: "int \<Rightarrow> int \<Rightarrow> int \<times> int \<times> int \<Rightarrow> real" where
  "spawnerDistance x z spawner =
     (case spawner of (sx, sy, sz) \<Rightarrow>
        Math_sqrt (real_of_int ((x - sx)\<^sup>2 + (z - sz)\<^sup>2)))"

definition isValidSpawnerPosition :: "options \<Rightarrow> terraforming \<Rightarrow> int \<Rightarrow> int \<Rightarrow> bool" where
  "isValidSpawnerPosition cfg s x z =
     (if \<not> isWithinBounds cfg x z then False
      else
        let minDistance = 5;
            activeSpawners = getActiveSpawnerPositions cfg s
        in if list_ex (\<lambda>spawner. spawnerDistance x z spawner < minDistance) activeSpawners
           then False
           else list_ex (\<lambda>spawner. spawnerDistance x z spawner \<le> spawnerSpreadRadius cfg)
                  activeSpawners)"

text \<open>The loop of \<^verbatim>\<open>findValidSpawnerPosition\<close>. \<open>i\<close> is the index of the next \<^verbatim>\<open>Math.random()\<close>
  result. The result is the site (if any), the number of attempts made (the final value
  of \<^verbatim>\<open>attempts\<close>, one more when the loop returns from inside) and the next index.\<close>

function findValidSpawnerPosition_loop ::
  "options \<Rightarrow> (nat \<Rightarrow> real) \<Rightarrow> terraforming \<Rightarrow> (int \<times> int \<times> int) list \<Rightarrow> nat \<Rightarrow> nat
     \<Rightarrow> (int \<times> int) option \<times> nat \<times> nat" where
  "findValidSpawnerPosition_loop cfg rnd s activeSpawners attempts i =
     (if attempts < 50 then
        (let k = \<lfloor>rnd i * real (length activeSpawners)\<rfloor> in
         if k < 0 \<or> int (length activeSpawners) \<le> k
         then findValidSpawnerPosition_loop cfg rnd s activeSpawners (attempts + 1) (i + 1)
         else
           let sourceSpawner = activeSpawners ! nat k;
               angle = rnd (i + 1) * pi * 2;
               distance = rnd (i + 2) * spawnerSpreadRadius cfg;
               newX = Math_round (real_of_int (fst sourceSpawner) + cos angle * distance);
               newZ = Math_round (real_of_int (snd (snd sourceSpawner)) + sin angle * distance)
           in if isValidSpawnerPosition cfg s newX newZ
              then (Some (newX, newZ), attempts + 1, i + 3)
              else findValidSpawnerPosition_loop cfg rnd s activeSpawners (attempts + 1) (i + 3))
      else (None, attempts, i))"
  by pat_completeness auto
termination
  by (relation "measure (\<lambda>(cfg, rnd, s, activeSpawners, attempts, i). 50 - attempts)") auto

declare findValidSpawnerPosition_loop.simps [simp del]

definition findValidSpawnerPosition ::
  "options \<Rightarrow> (nat \<Rightarrow> real) \<Rightarrow> terraforming \<Rightarrow> (int \<times> int) option \<times> terraforming" where
  "findValidSpawnerPosition cfg rnd s =
     (let activeSpawners = getActiveSpawnerPositions cfg s in
      if length activeSpawners = 0
      then (None, s\<lparr>console := console s @ [WarnNoActiveSpawners]\<rparr>)
      else
        case findValidSpawnerPosition_loop cfg rnd s activeSpawners 0 (randomCalls s) of
          (site, attempts, i) \<Rightarrow> (site, s\<lparr>randomCalls := i\<rparr>))"

subsection \<open>Target selection\<close>

definition createSpawnerBlock :: "options \<Rightarrow> terraforming \<Rightarrow> terraforming" where
  "createSpawnerBlock cfg s =
     (case currentTarget s of
        None \<Rightarrow> s
      | Some r \<Rightarrow>
          let t = targets s r;
              groundHeight = getCurrentHeight cfg (world s) (t_x t) (t_z t);
              spawnerY = max (groundHeight + 2) 2;
              s1 = setBlock s (t_x t) spawnerY (t_z t) (spawnerBlockId cfg);
              position = (t_x t, spawnerY, t_z t);
              s2 = s1\<lparr>spawnerPositions := Set_add position (spawnerPositions s1)\<rparr>
          in s2\<lparr>targets := (targets s2)
                  (r := (targets s2 r)\<lparr>spawnerPosition := Some position, isActive := True\<rparr>)\<rparr>)"

text \<open>The body of the loop over \<^verbatim>\<open>initialSpawnPoints\<close>. (The local \<^verbatim>\<open>target\<close> object that the
  body builds is never stored anywhere, so it is not put into the object store.)\<close>

definition createInitialSpawner :: "options \<Rightarrow> int \<times> int \<Rightarrow> terraforming \<Rightarrow> terraforming" where
  "createInitialSpawner cfg spawnPoint s =
     (case spawnPoint of (x, z) \<Rightarrow>
        if \<not> isWithinBounds cfg x z
        then s\<lparr>console := console s @ [WarnOutsideBounds x z]\<rparr>
        else
          let groundHeight = getCurrentHeight cfg (world s) x z;
              spawnerY = max (groundHeight + 2) 2;
              s1 = setBlock s x spawnerY z (spawnerBlockId cfg)
          in s1\<lparr>spawnerPositions := Set_add (x, spawnerY, z) (spawnerPositions s1)\<rparr>)"

definition createInitialSpawners :: "options \<Rightarrow> int \<Rightarrow> terraforming \<Rightarrow> terraforming" where
  "createInitialSpawners cfg now s =
     (let s1 = fold (createInitialSpawner cfg) (initialSpawnPoints cfg) s;
          s2 = s1\<lparr>hasInitialSpawners := True\<rparr>
      in case initialSpawnPoints cfg of
           [] \<Rightarrow> s2
         | firstSpawn # rest \<Rightarrow>
             if isWithinBounds cfg (fst firstSpawn) (snd firstSpawn)
             then newCurrentTarget
                    \<lparr>t_x = fst firstSpawn, t_y = targetHeight cfg, t_z = snd firstSpawn,
                     startTime = now,
                     spawnerPosition =
                       findSpawnerPositionAt cfg s2 (fst firstSpawn) (snd firstSpawn),
                     isActive = True\<rparr> s2
             else s2)"

definition selectNewTarget ::
  "options \<Rightarrow> (nat \<Rightarrow> real) \<Rightarrow> int \<Rightarrow> terraforming \<Rightarrow> terraforming" where
  "selectNewTarget cfg rnd now s =
     (if \<not> hasInitialSpawners s then createInitialSpawners cfg now s
      else
        case findValidSpawnerPosition cfg rnd s of
          (None, s1) \<Rightarrow> s1
        | (Some validPosition, s1) \<Rightarrow>
            createSpawnerBlock cfg
              (newCurrentTarget
                 \<lparr>t_x = fst validPosition, t_y = targetHeight cfg, t_z = snd validPosition,
                  startTime = now, spawnerPosition = None, isActive = True\<rparr> s1))"

subsection \<open>Spawner destruction\<close>

definition findTargetByPosition :: "terraforming \<Rightarrow> int \<times> int \<times> int \<Rightarrow> nat option" where
  "findTargetByPosition s position =
     (let inCurrent =
            (case currentTarget s of
               None \<Rightarrow> False
             | Some r \<Rightarrow> spawnerPosition (targets s r) = Some position)
      in if inCurrent then currentTarget s
         else find (\<lambda>r. spawnerPosition (targets s r) = Some position) (completedTargets s))"

definition onSpawnerDestroyed ::
  "options \<Rightarrow> (nat \<Rightarrow> real) \<Rightarrow> int \<Rightarrow> terraforming \<Rightarrow> int \<times> int \<times> int \<Rightarrow> terraforming" where
  "onSpawnerDestroyed cfg rnd now s position =
     (let s2 =
            (case findTargetByPosition s position of
               None \<Rightarrow> s
             | Some r \<Rightarrow>
                 let s1 = s\<lparr>targets := (targets s)
                            (r := (targets s r)\<lparr>spawnerPosition := None, isActive := False\<rparr>)\<rparr>
                 in if currentTarget s1 = Some r then selectNewTarget cfg rnd now s1 else s1)
      in s2\<lparr>spawnerPositions := Set_delete position (spawnerPositions s2)\<rparr>)"

subsection \<open>The growth step\<close>

definition stepsElapsed :: "options \<Rightarrow> target \<Rightarrow> int \<Rightarrow> number" where
  "stepsElapsed cfg t now =
     (let timeElapsed = now - startTime t
      in Math_floor (number_divide (real_of_int timeElapsed) (real_of_int (intervalMs cfg))))"

definition currentWaveRadius :: "options \<Rightarrow> target \<Rightarrow> int \<Rightarrow> number" where
  "currentWaveRadius cfg t now = number_times (stepsElapsed cfg t now) (elevationSpeed cfg)"

definition distanceFromCenter :: "target \<Rightarrow> int \<Rightarrow> int \<Rightarrow> real" where
  "distanceFromCenter t x z =
     (let deltaX = x - t_x t; deltaZ = z - t_z t
      in Math_sqrt (real_of_int (deltaX * deltaX + deltaZ * deltaZ)))"

text \<open>\<^verbatim>\<open>targetHeightForPosition\<close> as a function of the distance; \<open>maxRadius\<close> is
  \<^verbatim>\<open>halfTerraform\<close>.\<close>

definition targetHeightAtDistance :: "options \<Rightarrow> target \<Rightarrow> real \<Rightarrow> int" where
  "targetHeightAtDistance cfg t d =
     (let maxRadius = terraformSize cfg div 2;
          normalizedDistance = double_divide d (real_of_int maxRadius);
          heightMultiplier =
            max 0 (double_minus 1 (double_times normalizedDistance normalizedDistance))
      in \<lfloor>double_times (real_of_int (t_y t)) heightMultiplier\<rfloor>)"

definition targetHeightForPosition :: "options \<Rightarrow> target \<Rightarrow> int \<Rightarrow> int \<Rightarrow> int" where
  "targetHeightForPosition cfg t x z = targetHeightAtDistance cfg t (distanceFromCenter t x z)"

text \<open>The body of the two nested \<^verbatim>\<open>for\<close> statements of \<^verbatim>\<open>terraformStep\<close>, on the state
  \<open>(s, blocksModified, targetComplete)\<close>.\<close>

definition terraformColumn ::
  "options \<Rightarrow> target \<Rightarrow> number \<Rightarrow> int \<times> int \<Rightarrow> terraforming \<times> nat \<times> bool
     \<Rightarrow> terraforming \<times> nat \<times> bool" where
  "terraformColumn cfg t waveRadius column st =
     (case column of (x, z) \<Rightarrow>
      case st of (s, blocksModified, targetComplete) \<Rightarrow>
        if \<not> isWithinBounds cfg x z then (s, blocksModified, targetComplete)
        else if number_greater (distanceFromCenter t x z) waveRadius
        then (s, blocksModified, False)
        else if targetHeightForPosition cfg t x z < 1 then (s, blocksModified, targetComplete)
        else
          let currentHeight = getCurrentHeight cfg (world s) x z in
          if currentHeight < targetHeightForPosition cfg t x z
          then
            let newHeight = min (currentHeight + 1) (targetHeightForPosition cfg t x z)
            in (setBlock s x newHeight z (blockTypeId cfg), blocksModified + 1, False)
          else (s, blocksModified, targetComplete))"

text \<open>The columns of the terraform window in the order in which they are visited:
  \<open>x\<close> outermost, from \<open>target.x - halfTerraform\<close> up to but excluding
  \<open>target.x + halfTerraform\<close>, and \<open>z\<close> likewise.\<close>

definition terraformWindow :: "options \<Rightarrow> target \<Rightarrow> (int \<times> int) list" where
  "terraformWindow cfg t =
     (let halfTerraform = terraformSize cfg div 2
      in List.product [t_x t - halfTerraform .. t_x t + halfTerraform - 1]
                      [t_z t - halfTerraform .. t_z t + halfTerraform - 1])"

definition terraformLoop ::
  "options \<Rightarrow> target \<Rightarrow> int \<Rightarrow> terraforming \<Rightarrow> terraforming \<times> nat \<times> bool" where
  "terraformLoop cfg t now s =
     fold (terraformColumn cfg t (currentWaveRadius cfg t now)) (terraformWindow cfg t)
       (s, 0, True)"

text \<open>The test \<^verbatim>\<open>spawnerPosition && !isSpawnerBlockPresent(spawnerPosition)\<close> on the target
  object \<open>r\<close>: the bound position when its block is gone, nothing otherwise.\<close>

definition destroyedSpawner ::
  "options \<Rightarrow> terraforming \<Rightarrow> nat \<Rightarrow> (int \<times> int \<times> int) option" where
  "destroyedSpawner cfg s r =
     (case spawnerPosition (targets s r) of
        None \<Rightarrow> None
      | Some position \<Rightarrow>
          if \<not> isSpawnerBlockPresent cfg (world s) position then Some position else None)"

definition terraformStep ::
  "options \<Rightarrow> (nat \<Rightarrow> real) \<Rightarrow> int \<Rightarrow> terraforming \<Rightarrow> terraforming" where
  "terraformStep cfg rnd now s =
     (case currentTarget s of
        None \<Rightarrow> selectNewTarget cfg rnd now s
      | Some r \<Rightarrow>
          if \<not> isActive (targets s r) then selectNewTarget cfg rnd now s
          else
            (case destroyedSpawner cfg s r of
               Some position \<Rightarrow>
                 (let s1 = s\<lparr>targets := (targets s)(r := (targets s r)\<lparr>isActive := False\<rparr>)\<rparr>;
                      s2 = onSpawnerDestroyed cfg rnd now s1 position
                  in selectNewTarget cfg rnd now s2)
             | None \<Rightarrow>
                 (case terraformLoop cfg (targets s r) now s of
                    (s1, blocksModified, targetComplete) \<Rightarrow>
                      if targetComplete
                      then selectNewTarget cfg rnd now
                             (s1\<lparr>completedTargets := completedTargets s1 @ [r]\<rparr>)
                      else s1)))"

subsection \<open>Auxiliary notions for the statements\<close>

text \<open>The cells of the column \<open>(x, z)\<close>, by level.\<close>

definition column :: "world \<Rightarrow> int \<Rightarrow> int \<Rightarrow> int \<Rightarrow> error + blockId" where
  "column w x z = (\<lambda>y. blocks w (x, y, z))"

text \<open>Column \<open>(x, z)\<close> of \<open>w\<close> is column \<open>(x, z)\<close> of \<open>w0\<close> raised by the growth loop: the column
  was in bounds, reached by the wave, below a target height of at least \<open>1\<close>, and the fill
  block was written one level above its highest block.\<close>

definition raisedColumn ::
  "options \<Rightarrow> target \<Rightarrow> number \<Rightarrow> world \<Rightarrow> world \<Rightarrow> int \<Rightarrow> int \<Rightarrow> bool" where
  "raisedColumn cfg t r w0 w x z =
     (isWithinBounds cfg x z \<and> \<not> number_greater (distanceFromCenter t x z) r \<and>
      1 \<le> targetHeightForPosition cfg t x z \<and>
      getCurrentHeight cfg w0 x z < targetHeightForPosition cfg t x z \<and>
      column w x z =
        (column w0 x z)(getCurrentHeight cfg w0 x z + 1 := Inr (Id (blockTypeId cfg))))"

text \<open>The state \<open>s\<close> with the target object \<open>r\<close> marked inactive and its spawner binding
  cleared.\<close>

definition deactivated :: "terraforming \<Rightarrow> nat \<Rightarrow> terraforming" where
  "deactivated s r =
     s\<lparr>targets := (targets s)(r := (targets s r)\<lparr>spawnerPosition := None, isActive := False\<rparr>)\<rparr>"

subsection \<open>Example configurations and states\<close>

text \<open>Zones 1 and 3 of \<^verbatim>\<open>src/index.ts\<close>, with the constructor's defaults for the options they
  leave out.\<close>

definition zone1 :: options where
  "zone1 = \<lparr>centerX = 60, centerZ = 60, size_opt = 25, targetHeight = 4, intervalMs = 2500,
     terraformSize = 12, blockTypeId = 19, elevationSpeed = to_double (8 / 10),
     spawnerBlockId = 19,
     initialSpawnPoints = [(60, 60)], spawnerSpreadRadius = 10\<rparr>"

definition zone3 :: options where
  "zone3 = \<lparr>centerX = - 40, centerZ = 80, size_opt = 30, targetHeight = 3, intervalMs = 3500,
     terraformSize = 8, blockTypeId = 4, elevationSpeed = 1, spawnerBlockId = 19,
     initialSpawnPoints = [(- 40, 80)], spawnerSpreadRadius = 10\<rparr>"

text \<open>A grid in which every column is filled up to level \<open>3\<close> with block \<open>4\<close> and that holds a
  spawner block (id \<open>19\<close>) at one coordinate; no access fails.\<close>

definition plateauWorld :: "int \<times> int \<times> int \<Rightarrow> world" where
  "plateauWorld marker =
     \<lparr>blocks = (\<lambda>(x, y, z). Inr (Id (if (x, y, z) = marker then 19
                                       else if 0 \<le> y \<and> y \<le> 3 then 4 else 0))),
      writeFails = (\<lambda>p. False)\<rparr>"

text \<open>A zone of configuration \<open>zone3\<close> on that grid whose current target (object \<open>0\<close>, created at
  time \<open>0\<close>) is the column \<open>c\<close>, bound to the spawner at level \<open>2\<close> of that column.\<close>

definition hillState :: "int \<times> int \<Rightarrow> terraforming" where
  "hillState c =
     \<lparr>world = plateauWorld (fst c, 2, snd c),
      targets = (\<lambda>r. \<lparr>t_x = fst c, t_y = 3, t_z = snd c, startTime = 0,
                       spawnerPosition = Some (fst c, 2, snd c), isActive = True\<rparr>),
      nextRef = 1, currentTarget = Some 0, completedTargets = [],
      spawnerPositions = [(fst c, 2, snd c)], hasInitialSpawners = True,
      randomCalls = 0, console = []\<rparr>"

text \<open>A sequence of \<^verbatim>\<open>Math.random()\<close> results: every attempt picks the first live spawner,
  the angle \<open>0\<close> and six tenths of the spread radius.\<close>

definition rndEast :: "nat \<Rightarrow> real" where
  "rndEast i = (if i mod 3 = 2 then 6 / 10 else 0)"

text \<open>The flat clay ground of the map (block \<open>2\<close> at level \<open>0\<close>) with one spawner block, and
  a zone of configuration \<open>zone3\<close> on it whose current target is the column \<open>c\<close>, bound to the
  spawner two levels above the ground.\<close>

definition flatWorld :: "int \<times> int \<times> int \<Rightarrow> world" where
  "flatWorld marker =
     \<lparr>blocks = (\<lambda>(x, y, z). Inr (Id (if (x, y, z) = marker then 19
                                       else if y = 0 then 2 else 0))),
      writeFails = (\<lambda>p. False)\<rparr>"

definition freshState :: "int \<times> int \<Rightarrow> terraforming" where
  "freshState c = (hillState c)\<lparr>world := flatWorld (fst c, 2, snd c)\<rparr>"

text \<open>The flat ground with the spawner block of the column \<open>(-40, 80)\<close>, and a grid that
  throws on reading \<open>(-41, 1, 80)\<close> and on every write into the column \<open>(-41, 80)\<close>; a zone
  of configuration \<open>zone3\<close> on it whose current target is the column \<open>(-40, 80)\<close>.\<close>

definition faultyWorld :: world where
  "faultyWorld =
     \<lparr>blocks = (\<lambda>(x, y, z). if (x, y, z) = (- 41, 1, 80) then Inl GridError
                            else Inr (Id (if (x, y, z) = (- 40, 2, 80) then 19
                                          else if y = 0 then 2 else 0))),
      writeFails = (\<lambda>(x, y, z). (x, z) = (- 41, 80))\<rparr>"

definition faultyState :: terraforming where
  "faultyState = (hillState (- 40, 80))\<lparr>world := faultyWorld\<rparr>"

text \<open>The same grid, with a zone whose current target is bound to a marker at the coordinate
  that cannot be read.\<close>

definition unreadableState :: terraforming where
  "unreadableState =
     faultyState\<lparr>targets := (\<lambda>r. \<lparr>t_x = - 41, t_y = 3, t_z = 80, startTime = 0,
                                     spawnerPosition = Some (- 41, 1, 80), isActive = True\<rparr>),
                  spawnerPositions := [(- 41, 1, 80)]\<rparr>"

text \<open>A sequence of \<^verbatim>\<open>Math.random()\<close> results that are all \<open>0\<close>: every attempt proposes the
  site of the first live spawner itself.\<close>

definition rndZero :: "nat \<Rightarrow> real" where
  "rndZero i = 0"

text \<open>The state of a freshly constructed zone on the grid \<open>w\<close>, the bare flat ground, and
  zone 3 configured with two initial spawn points of which the first is outside the zone.\<close>

definition initialState :: "world \<Rightarrow> terraforming" where
  "initialState w =
     \<lparr>world = w,
      targets = (\<lambda>r. \<lparr>t_x = 0, t_y = 0, t_z = 0, startTime = 0,
                       spawnerPosition = None, isActive = False\<rparr>),
      nextRef = 0, currentTarget = None, completedTargets = [],
      spawnerPositions = [], hasInitialSpawners = False,
      randomCalls = 0, console = []\<rparr>"

definition groundWorld :: world where
  "groundWorld =
     \<lparr>blocks = (\<lambda>(x, y, z). Inr (Id (if y = 0 then 2 else 0))),
      writeFails = (\<lambda>p. False)\<rparr>"

definition zone3TwoPoints :: options where
  "zone3TwoPoints = zone3\<lparr>initialSpawnPoints := [(100, 100), (- 40, 80)]\<rparr>"

text \<open>A zone of configuration \<open>zone3\<close> with two registered spawners, \<open>(-40, 2, 80)\<close> and
  \<open>(-34, 2, 80)\<close>. Object \<open>0\<close> is the completed target of the first spawner; the current
  target, object \<open>2\<close>, is bound to the second spawner, whose block has been removed from
  the grid (object \<open>1\<close> is no longer referenced).\<close>

definition destroyedState :: terraforming where
  "destroyedState =
     \<lparr>world = flatWorld (- 40, 2, 80),
      targets = (\<lambda>r. if r = 0
                     then \<lparr>t_x = - 40, t_y = 3, t_z = 80, startTime = 0,
                           spawnerPosition = Some (- 40, 2, 80), isActive = True\<rparr>
                     else \<lparr>t_x = - 34, t_y = 3, t_z = 80, startTime = 0,
                           spawnerPosition = Some (- 34, 2, 80), isActive = True\<rparr>),
      nextRef = 3, currentTarget = Some 2, completedTargets = [0],
      spawnerPositions = [(- 40, 2, 80), (- 34, 2, 80)], hasInitialSpawners = True,
      randomCalls = 0, console = []\<rparr>"

text \<open>A sequence of \<^verbatim>\<open>Math.random()\<close> results: the first attempt goes six blocks west of the
  first live spawner (angle \<open>\<pi>\<close>), the second attempt six blocks north (angle \<open>\<pi> / 2\<close>).\<close>

definition rndWestNorth :: "nat \<Rightarrow> real" where
  "rndWestNorth i =
     (if i = 1 then 1 / 2 else if i = 4 then 1 / 4 else if i mod 3 = 2 then 6 / 10 else 0)"

text \<open>A sequence of \<^verbatim>\<open>Math.random()\<close> results: fifty attempts that propose the site of the
  first live spawner itself (\<open>150\<close> results \<open>0\<close>), then an attempt that goes six blocks east
  of it.\<close>

definition rndLateEast :: "nat \<Rightarrow> real" where
  "rndLateEast i = (if i = 152 then 6 / 10 else 0)"

text \<open>A zone with the defaults of the constructor for every option it may leave out, and a
  target at its centre.\<close>

definition defaultZone :: options where
  "defaultZone = \<lparr>centerX = 0, centerZ = 0, size_opt = 20, targetHeight = 5, intervalMs = 10000,
     terraformSize = 10, blockTypeId = 2, elevationSpeed = 1 / 2, spawnerBlockId = 19,
     initialSpawnPoints = [(0, 0)], spawnerSpreadRadius = 10\<rparr>"

definition defaultTarget :: target where
  "defaultTarget = \<lparr>t_x = 0, t_y = 5, t_z = 0, startTime = 0,
                    spawnerPosition = Some (0, 2, 0), isActive = True\<rparr>"
section \<open>Rounding to doubles\<close>

lemma float_exponent_bounds:
  assumes "x \<noteq> 0"
  shows "2 powi (float_exponent x) \<le> \<bar>x\<bar> \<and> \<bar>x\<bar> < 2 powi (float_exponent x + 1)"
proof (cases "1 \<le> \<bar>x\<bar>")
  case True
  let ?m = "\<lfloor>\<bar>x\<bar>\<rfloor>"
  have m: "0 < ?m" using True by linarith
  have b1: "1 \<le> bitlen ?m" using m bitlen_eq_zero_iff[of ?m] bitlen_nonneg[of ?m] by linarith
  from bitlen_bounds[OF m] have lo: "(2::int) ^ nat (bitlen ?m - 1) \<le> ?m" and hi: "?m < 2 ^ nat (bitlen ?m)"
    by simp_all
  have e: "float_exponent x = bitlen ?m - 1" using True by (simp add: float_exponent_def)
  have "real_of_int (2 ^ nat (bitlen ?m - 1)) \<le> \<bar>x\<bar>" using lo by (simp only: le_floor_iff)
  then have l: "2 powi (bitlen ?m - 1) \<le> \<bar>x\<bar>"
    using b1 by (simp add: power_int_nonneg_exp)
  have "\<bar>x\<bar> < real_of_int (2 ^ nat (bitlen ?m))" using hi by (simp only: floor_less_iff)
  then have "\<bar>x\<bar> < 2 powi (bitlen ?m)"
    using b1 by (simp add: power_int_nonneg_exp)
  with l e show ?thesis by simp
next
  case False
  let ?y = "1 / \<bar>x\<bar>"
  let ?m = "\<lceil>?y\<rceil>"
  let ?k = "bitlen (?m - 1)"
  have xpos: "0 < \<bar>x\<bar>" using assms by simp
  have y1: "1 < ?y" using False xpos by simp
  have m2: "0 < ?m - 1" using y1 by linarith
  have k1: "1 \<le> ?k" using m2 bitlen_eq_zero_iff[of "?m - 1"] bitlen_nonneg[of "?m - 1"] by linarith
  from bitlen_bounds[OF m2] have lo: "(2::int) ^ nat (?k - 1) \<le> ?m - 1" and hi: "?m - 1 < 2 ^ nat ?k"
    by simp_all
  have e: "float_exponent x = - ?k" using False by (simp add: float_exponent_def)
  have "?m \<le> 2 ^ nat ?k" using hi by simp
  then have "?y \<le> real_of_int (2 ^ nat ?k)" by (simp only: ceiling_le_iff)
  then have "?y \<le> 2 ^ nat ?k" by simp
  then have "1 \<le> 2 ^ nat ?k * \<bar>x\<bar>" using xpos by (simp add: field_simps)
  moreover have "(2::real) powi (- ?k) = 1 / 2 ^ nat ?k"
    using k1 by (simp add: power_int_minus_divide power_int_nonneg_exp)
  ultimately have l: "2 powi (- ?k) \<le> \<bar>x\<bar>"
    by (simp only: divide_le_eq) (simp add: mult.commute)
  have "2 ^ nat (?k - 1) < ?m" using lo by simp
  then have "real_of_int (2 ^ nat (?k - 1)) < ?y" by (simp only: less_ceiling_iff)
  then have "2 ^ nat (?k - 1) < ?y" by simp
  then have "2 ^ nat (?k - 1) * \<bar>x\<bar> < 1" using xpos by (simp add: field_simps)
  moreover have "(2::real) powi (- ?k + 1) = 1 / 2 ^ nat (?k - 1)"
  proof -
    have "- ?k + 1 = - (?k - 1)" by simp
    then have "(2::real) powi (- ?k + 1) = 2 powi (- (?k - 1))" by simp
    also have "\<dots> = 1 / 2 powi (?k - 1)" by (simp only: power_int_minus_divide)
    also have "\<dots> = 1 / 2 ^ nat (?k - 1)" using k1 by (simp add: power_int_nonneg_exp)
    finally show ?thesis .
  qed
  ultimately have "\<bar>x\<bar> < 2 powi (- ?k + 1)"
    by (simp only: less_divide_eq) (simp add: mult.commute)
  with l e show ?thesis by simp
qed

lemma two_powi_less_iff: "(2::real) powi a < 2 powi b \<longleftrightarrow> a < b"
  using power_int_strict_increasing[of a b "2::real"] power_int_increasing[of b a "2::real"]
  by (cases "a < b") auto

lemma two_powi_le_iff: "(2::real) powi a \<le> 2 powi b \<longleftrightarrow> a \<le> b"
  using power_int_strict_increasing[of b a "2::real"] power_int_increasing[of a b "2::real"]
  by (cases "a \<le> b") auto

lemma float_exponent_unique:
  assumes "2 powi e \<le> \<bar>x\<bar>" and "\<bar>x\<bar> < 2 powi (e + 1)"
  shows "float_exponent x = e"
proof -
  have "0 < (2::real) powi e" by simp
  with assms(1) have "0 < \<bar>x\<bar>" by linarith
  then have "x \<noteq> 0" by simp
  from float_exponent_bounds[OF this]
  have b: "2 powi (float_exponent x) \<le> \<bar>x\<bar>" "\<bar>x\<bar> < 2 powi (float_exponent x + 1)" by simp_all
  have "(2::real) powi e < 2 powi (float_exponent x + 1)" using assms(1) b(2) by linarith
  then have 1: "e < float_exponent x + 1" by (simp add: two_powi_less_iff) 
  have "(2::real) powi (float_exponent x) < 2 powi (e + 1)" using assms(2) b(1) by linarith
  then have 2: "float_exponent x < e + 1" by (simp add: two_powi_less_iff)
  from 1 2 show ?thesis by simp
qed

lemma round_half_even_bounds:
  "real_of_int (round_half_even q) - 1 / 2 \<le> q \<and> q \<le> real_of_int (round_half_even q) + 1 / 2"
  unfolding round_half_even_def Let_def by (auto; linarith)

lemma round_half_even_eqI:
  "real_of_int m - 1 / 2 < q \<Longrightarrow> q < real_of_int m + 1 / 2 \<Longrightarrow> round_half_even q = m"
  using round_half_even_bounds[of q] by linarith

lemma round_half_even_of_int [simp]: "round_half_even (real_of_int m) = m"
  by (rule round_half_even_eqI) simp_all

lemma round_half_even_mono:
  assumes "p \<le> q"
  shows "round_half_even p \<le> round_half_even q"
proof (rule ccontr)
  assume "\<not> round_half_even p \<le> round_half_even q"
  then have lt: "round_half_even q + 1 \<le> round_half_even p" by simp
  then have r: "real_of_int (round_half_even q) + 1 \<le> real_of_int (round_half_even p)" by linarith
  from round_half_even_bounds[of p] round_half_even_bounds[of q] assms r
  have pq: "p = q" and pv: "p = real_of_int (round_half_even p) - 1 / 2" by linarith+
  with lt show False by simp
qed

lemma round_half_even_minus: "round_half_even (- q) = - round_half_even q"
proof (cases "q = real_of_int \<lfloor>q\<rfloor>")
  case True
  then obtain k where "q = real_of_int k" ..
  then show ?thesis by (simp flip: of_int_minus)
next
  case False
  then have c: "\<lceil>q\<rceil> = \<lfloor>q\<rfloor> + 1" by (simp add: ceiling_altdef)
  have f: "\<lfloor>- q\<rfloor> = - \<lfloor>q\<rfloor> - 1" using c by (simp add: ceiling_def)
  show ?thesis
    unfolding round_half_even_def Let_def f by (auto; linarith?)
qed


lemma to_double_0 [simp]: "to_double 0 = 0"
  by (simp add: to_double_def)

lemma float_exponent_minus [simp]: "float_exponent (- x) = float_exponent x"
  by (simp add: float_exponent_def)

lemma to_double_minus: "to_double (- x) = - to_double x"
  by (simp add: to_double_def Let_def round_half_even_minus)

lemma to_double_eqI:
  assumes "2 powi e \<le> \<bar>x\<bar>" and "\<bar>x\<bar> < 2 powi (e + 1)"
      and "round_half_even (x / 2 powi (e - 52)) = m"
  shows "to_double x = real_of_int m * 2 powi (e - 52)"
proof -
  have "0 < (2::real) powi e" by simp
  with assms(1) have "0 < \<bar>x\<bar>" by linarith
  then have "x \<noteq> 0" by simp
  then show ?thesis
    using float_exponent_unique[OF assms(1,2)] assms(3) by (simp add: to_double_def)
qed

lemma to_double_range:
  assumes "0 < x"
  shows "2 powi (float_exponent x) \<le> to_double x \<and> to_double x \<le> 2 powi (float_exponent x + 1)"
proof -
  let ?e = "float_exponent x"
  let ?u = "(2::real) powi (?e - 52)"
  have u: "0 < ?u" by simp
  from float_exponent_bounds[of x] assms
  have b: "2 powi ?e \<le> x" "x < 2 powi (?e + 1)" by simp_all
  have p1: "(2::real) powi ?e = 2 ^ 52 * ?u"
  proof -
    have "(2::real) powi ?e = 2 powi (52 + (?e - 52))" by simp
    also have "\<dots> = 2 powi 52 * ?u" by (rule power_int_add) simp
    finally show ?thesis by simp
  qed
  have p2: "(2::real) powi (?e + 1) = 2 ^ 53 * ?u"
  proof -
    have "?e + 1 = 53 + (?e - 52)" by simp
    then have "(2::real) powi (?e + 1) = 2 powi (53 + (?e - 52))" by (rule arg_cong)
    also have "\<dots> = 2 powi 53 * ?u" by (rule power_int_add) simp
    finally show ?thesis by simp
  qed
  have "real_of_int (2 ^ 52) \<le> x / ?u" using b(1) u unfolding p1 by (simp add: le_divide_eq)
  from round_half_even_mono[OF this] have lo: "2 ^ 52 \<le> round_half_even (x / ?u)"
    by (simp only: round_half_even_of_int)
  have "x / ?u \<le> real_of_int (2 ^ 53)" using b(2) u unfolding p2 by (simp add: divide_le_eq)
  from round_half_even_mono[OF this] have hi: "round_half_even (x / ?u) \<le> 2 ^ 53"
    by (simp only: round_half_even_of_int)
  have d: "to_double x = real_of_int (round_half_even (x / ?u)) * ?u"
    using assms by (simp add: to_double_def Let_def)
  have "real_of_int (2 ^ 52) \<le> real_of_int (round_half_even (x / ?u))"
    using lo by (simp only: of_int_le_iff)
  then have "real_of_int (2 ^ 52) * ?u \<le> real_of_int (round_half_even (x / ?u)) * ?u"
    using u by (intro mult_right_mono) simp_all
  moreover have "real_of_int (round_half_even (x / ?u)) \<le> real_of_int (2 ^ 53)"
    using hi by (simp only: of_int_le_iff)
  then have "real_of_int (round_half_even (x / ?u)) * ?u \<le> real_of_int (2 ^ 53) * ?u"
    using u by (intro mult_right_mono) simp_all
  ultimately show ?thesis unfolding d p1 p2 by simp
qed

lemma to_double_mono_pos:
  assumes "0 < x" and "x \<le> y"
  shows "to_double x \<le> to_double y"
proof -
  have y: "0 < y" using assms by simp
  let ?ex = "float_exponent x" and ?ey = "float_exponent y"
  from float_exponent_bounds[of x] float_exponent_bounds[of y] assms y
  have bx: "2 powi ?ex \<le> x" and by': "y < 2 powi (?ey + 1)" by simp_all
  then have "(2::real) powi ?ex < 2 powi (?ey + 1)" using assms(2) by linarith
  then have le: "?ex \<le> ?ey" by (simp add: two_powi_less_iff)
  show ?thesis
  proof (cases "?ex = ?ey")
    case True
    let ?u = "(2::real) powi (?ey - 52)"
    have u: "0 < ?u" by simp
    have "x / ?u \<le> y / ?u" using assms(2) u by (simp add: divide_right_mono)
    from round_half_even_mono[OF this]
    have "real_of_int (round_half_even (x / ?u)) * ?u \<le> real_of_int (round_half_even (y / ?u)) * ?u"
      using u by (intro mult_right_mono) simp_all
    then show ?thesis using assms y True by (simp add: to_double_def Let_def)
  next
    case False
    with le have "?ex + 1 \<le> ?ey" by simp
    then have "(2::real) powi (?ex + 1) \<le> 2 powi ?ey" by (simp add: two_powi_le_iff)
    with to_double_range[OF assms(1)] to_double_range[OF y] show ?thesis by linarith
  qed
qed

lemma to_double_nonneg: "0 \<le> x \<Longrightarrow> 0 \<le> to_double x"
proof (cases "x = 0")
  case False
  assume "0 \<le> x"
  with False have "0 < x" by simp
  from to_double_range[OF this] have "2 powi (float_exponent x) \<le> to_double x" by simp
  moreover have "0 < (2::real) powi (float_exponent x)" by simp
  ultimately show ?thesis by linarith
qed simp

lemma to_double_mono:
  assumes "x \<le> y"
  shows "to_double x \<le> to_double y"
proof -
  consider "0 < x" | "x \<le> 0" "0 \<le> y" | "y < 0" by linarith
  then show ?thesis
  proof cases
    case 1
    then show ?thesis using assms by (rule to_double_mono_pos)
  next
    case 2
    have "0 \<le> to_double (- x)" using 2(1) by (intro to_double_nonneg) simp
    then have "to_double x \<le> 0" by (simp add: to_double_minus)
    with to_double_nonneg[OF 2(2)] show ?thesis by linarith
  next
    case 3
    have "to_double (- y) \<le> to_double (- x)" using 3 assms by (intro to_double_mono_pos) simp_all
    then show ?thesis by (simp add: to_double_minus)
  qed
qed

lemma to_double_dyadic_pos:
  assumes "0 < m" and "m < 2 ^ 53"
  shows "to_double (real_of_int m * 2 powi j) = real_of_int m * 2 powi j"
proof -
  let ?b = "bitlen m"
  have b1: "1 \<le> ?b" using assms(1) bitlen_eq_zero_iff[of m] bitlen_nonneg[of m] by linarith
  have b53: "?b \<le> 53" using assms(2) by (simp add: bitlen_le_iff_power)
  from bitlen_bounds[OF assms(1)] have lo: "(2::int) ^ nat (?b - 1) \<le> m" and hi: "m < 2 ^ nat ?b"
    by simp_all
  let ?x = "real_of_int m * 2 powi j"
  have pj: "0 < (2::real) powi j" by simp
  have "real_of_int (2 ^ nat (?b - 1)) \<le> real_of_int m" using lo by (simp only: of_int_le_iff)
  then have "2 powi (?b - 1) \<le> real_of_int m" using b1 by (simp add: power_int_nonneg_exp)
  then have "2 powi (?b - 1) * 2 powi j \<le> ?x" using pj by (intro mult_right_mono) simp_all
  then have l: "2 powi (?b - 1 + j) \<le> \<bar>?x\<bar>" using assms(1) by (simp add: power_int_add)
  have "real_of_int m < real_of_int (2 ^ nat ?b)" using hi by (simp only: of_int_less_iff)
  then have "real_of_int m < 2 powi ?b" using b1 by (simp add: power_int_nonneg_exp)
  then have "?x < 2 powi ?b * 2 powi j" using pj by (intro mult_strict_right_mono) simp_all
  then have h: "\<bar>?x\<bar> < 2 powi (?b - 1 + j + 1)" using assms(1) by (simp add: power_int_add)
  have q: "?x / 2 powi (?b - 1 + j - 52) = real_of_int (m * 2 ^ nat (53 - ?b))"
  proof -
    have "?x / 2 powi (?b - 1 + j - 52) = real_of_int m * (2 powi j / 2 powi (?b - 1 + j - 52))"
      by simp
    also have "2 powi j / 2 powi (?b - 1 + j - 52) = (2::real) powi (j - (?b - 1 + j - 52))"
      by (rule power_int_diff[symmetric]) simp
    also have "j - (?b - 1 + j - 52) = 53 - ?b" by simp
    also have "(2::real) powi (53 - ?b) = 2 ^ nat (53 - ?b)"
      using b53 by (simp add: power_int_nonneg_exp)
    finally show ?thesis by simp
  qed
  have "round_half_even (?x / 2 powi (?b - 1 + j - 52)) = m * 2 ^ nat (53 - ?b)"
    unfolding q by (rule round_half_even_of_int)
  from to_double_eqI[OF l h this]
  have "to_double ?x = real_of_int (m * 2 ^ nat (53 - ?b)) * 2 powi (?b - 1 + j - 52)" .
  also have "\<dots> = ?x / 2 powi (?b - 1 + j - 52) * 2 powi (?b - 1 + j - 52)"
    by (simp only: q)
  also have "\<dots> = ?x" by simp
  finally show ?thesis .
qed

lemma to_double_dyadic:
  assumes "\<bar>m\<bar> < 2 ^ 53"
  shows "to_double (real_of_int m * 2 powi j) = real_of_int m * 2 powi j"
proof -
  consider "0 < m" | "m = 0" | "m < 0" by linarith
  then show ?thesis
  proof cases
    case 1
    then show ?thesis using assms by (intro to_double_dyadic_pos) simp_all
  next
    case 2
    then show ?thesis by simp
  next
    case 3
    then have "to_double (real_of_int (- m) * 2 powi j) = real_of_int (- m) * 2 powi j"
      using assms by (intro to_double_dyadic_pos) simp_all
    then have "to_double (- (real_of_int m * 2 powi j)) = - (real_of_int m * 2 powi j)"
      by simp
    then show ?thesis by (simp only: to_double_minus neg_equal_iff_equal)
  qed
qed

lemma to_double_of_int: "\<bar>m\<bar> < 2 ^ 53 \<Longrightarrow> to_double (real_of_int m) = real_of_int m"
  using to_double_dyadic[of m 0] by simp

lemma to_double_1 [simp]: "to_double 1 = 1"
  using to_double_of_int[of 1] by simp

lemma to_double_eqI2:
  assumes "2 powi e \<le> \<bar>x\<bar>" and "\<bar>x\<bar> < 2 powi (e + 1)"
      and "(real_of_int m - 1 / 2) * 2 powi (e - 52) < x"
      and "x < (real_of_int m + 1 / 2) * 2 powi (e - 52)"
  shows "to_double x = real_of_int m * 2 powi (e - 52)"
proof -
  have u: "0 < (2::real) powi (e - 52)" by simp
  have "round_half_even (x / 2 powi (e - 52)) = m"
    using assms(3,4) u by (intro round_half_even_eqI) (simp_all add: less_divide_eq divide_less_eq)
  with assms(1,2) show ?thesis by (rule to_double_eqI)
qed

lemma to_double_dyadic_nat:
  "\<bar>m\<bar> < 2 ^ 53 \<Longrightarrow> to_double (real_of_int m / 2 ^ j) = real_of_int m / 2 ^ j"
  using to_double_dyadic[of m "- int j"] by (simp add: power_int_minus_divide)

lemma to_double_numeral:
  "(numeral n :: int) < 2 ^ 53 \<Longrightarrow> to_double (numeral n) = numeral n"
  using to_double_of_int[of "numeral n"] by simp

lemma to_double_le_int:
  assumes "\<bar>k\<bar> < 2 ^ 53" and "x \<le> real_of_int k"
  shows "to_double x \<le> real_of_int k"
  using to_double_mono[OF assms(2)] to_double_of_int[OF assms(1)] by simp

lemma to_double_ge_int:
  assumes "\<bar>k\<bar> < 2 ^ 53" and "real_of_int k \<le> x"
  shows "real_of_int k \<le> to_double x"
  using to_double_mono[OF assms(2)] to_double_of_int[OF assms(1)] by simp

lemma Math_sqrt_0 [simp]: "Math_sqrt 0 = 0"
  by (simp add: Math_sqrt_def)

text \<open>Comparing the computed square root of an integer with a small integer is exact.\<close>

lemma Math_sqrt_le_int:
  assumes "0 \<le> k" and "k < 2 ^ 25"
  shows "Math_sqrt (real_of_int n) \<le> real_of_int k \<longleftrightarrow> n \<le> k * k"
proof
  assume le: "n \<le> k * k"
  then have "real_of_int n \<le> (real_of_int k)\<^sup>2"
    by (metis of_int_le_iff of_int_mult power2_eq_square)
  then have "sqrt (real_of_int n) \<le> real_of_int k"
    using assms(1) by (simp add: real_le_lsqrt)
  moreover have "\<bar>k\<bar> < 2 ^ 53" using assms by simp
  ultimately show "Math_sqrt (real_of_int n) \<le> real_of_int k"
    unfolding Math_sqrt_def by (intro to_double_le_int)
next
  assume c: "Math_sqrt (real_of_int n) \<le> real_of_int k"
  show "n \<le> k * k"
  proof (rule ccontr)
    assume "\<not> n \<le> k * k"
    then have n: "k * k + 1 \<le> n" by simp
    let ?v = "real_of_int (k * 2 ^ 27 + 1) / 2 ^ 27"
    have v: "?v = real_of_int k + 1 / 2 ^ 27" by (simp add: field_simps)
    have kr: "real_of_int k \<le> 2 ^ 25" using assms(2) by (metis less_imp_le of_int_le_iff of_int_numeral of_int_power)
    have k0: "0 \<le> real_of_int k" using assms(1) by simp
    have "?v\<^sup>2 = (real_of_int k)\<^sup>2 + 2 * real_of_int k / 2 ^ 27 + 1 / 2 ^ 54"
      unfolding v by (simp add: power2_eq_square field_simps)
    also have "\<dots> \<le> (real_of_int k)\<^sup>2 + 1"
      using kr by simp
    also have "\<dots> = real_of_int (k * k + 1)" by (simp add: power2_eq_square)
    also have "\<dots> \<le> real_of_int n" using n by (simp only: of_int_le_iff)
    finally have "?v \<le> sqrt (real_of_int n)"
      by (rule real_le_rsqrt)
    then have "to_double ?v \<le> Math_sqrt (real_of_int n)"
      unfolding Math_sqrt_def by (rule to_double_mono)
    moreover have "\<bar>k * 2 ^ 27 + 1\<bar> < 2 ^ 53" using assms by simp
    then have "to_double ?v = ?v" by (rule to_double_dyadic_nat)
    ultimately have "?v \<le> real_of_int k" using c by linarith
    then show False unfolding v by simp
  qed
qed

lemma Math_sqrt_less_int:
  assumes "0 < k" and "k < 2 ^ 25"
  shows "Math_sqrt (real_of_int n) < real_of_int k \<longleftrightarrow> n < k * k"
proof
  assume c: "Math_sqrt (real_of_int n) < real_of_int k"
  have k53: "\<bar>k\<bar> < 2 ^ 53" using assms by simp
  show "n < k * k"
  proof (rule ccontr)
    assume "\<not> n < k * k"
    then have "(real_of_int k)\<^sup>2 \<le> real_of_int n"
      by (metis not_less of_int_le_iff of_int_mult power2_eq_square)
    then have "real_of_int k \<le> sqrt (real_of_int n)" by (rule real_le_rsqrt)
    from to_double_ge_int[OF k53 this] c show False by (simp add: Math_sqrt_def)
  qed
next
  assume "n < k * k"
  with assms(1) have a: "0 < k \<and> n < k * k" by simp
  then have n: "n \<le> k * k - 1" by simp
  let ?v = "real_of_int (k * 2 ^ 27 - 1) / 2 ^ 27"
  have v: "?v = real_of_int k - 1 / 2 ^ 27" by (simp add: field_simps)
  have kr: "real_of_int k \<le> 2 ^ 25" using assms(2) by (metis less_imp_le of_int_le_iff of_int_numeral of_int_power)
  have k1: "1 \<le> real_of_int k" using a by simp
  have v0: "0 \<le> ?v" unfolding v using k1 by simp
  have "real_of_int n \<le> real_of_int (k * k - 1)" using n by (simp only: of_int_le_iff)
  also have "\<dots> = (real_of_int k)\<^sup>2 - 1" by (simp add: power2_eq_square)
  also have "\<dots> \<le> (real_of_int k)\<^sup>2 - 2 * real_of_int k / 2 ^ 27 + 1 / 2 ^ 54"
    using kr by simp
  also have "\<dots> = ?v\<^sup>2" unfolding v by (simp add: power2_eq_square field_simps)
  finally have "real_of_int n \<le> ?v\<^sup>2" .
  then have "sqrt (real_of_int n) \<le> ?v" by (rule real_le_lsqrt[OF v0])
  then have "Math_sqrt (real_of_int n) \<le> to_double ?v"
    unfolding Math_sqrt_def by (rule to_double_mono)
  moreover have "\<bar>k * 2 ^ 27 - 1\<bar> < 2 ^ 53" using assms a by simp
  then have "to_double ?v = ?v" by (rule to_double_dyadic_nat)
  ultimately show "Math_sqrt (real_of_int n) < real_of_int k" unfolding v by simp
qed

lemma number_greater_simps [simp]:
  "number_greater a (Finite b) \<longleftrightarrow> b < a"
  "\<not> number_greater a PosInfinity" "number_greater a NegInfinity" "\<not> number_greater a NaN"
  by (simp_all add: number_greater_def)


section \<open>Bounds\<close>

lemma isWithinBounds_iff:
  "isWithinBounds cfg x z \<longleftrightarrow>
     (centerX cfg - size_opt cfg div 2 \<le> x \<and> x \<le> centerX cfg + size_opt cfg div 2 - 1 \<and>
      centerZ cfg - size_opt cfg div 2 \<le> z \<and> z \<le> centerZ cfg + size_opt cfg div 2 - 1)"
  by (simp add: isWithinBounds_def Let_def)

lemma withinBounds_set:
  "{(x, z). isWithinBounds cfg x z} =
     {centerX cfg - size_opt cfg div 2 .. centerX cfg + size_opt cfg div 2 - 1} \<times>
     {centerZ cfg - size_opt cfg div 2 .. centerZ cfg + size_opt cfg div 2 - 1}"
  by (auto simp: isWithinBounds_iff)

lemma card_withinBounds:
  "0 < size_opt cfg \<Longrightarrow>
     card {(x, z). isWithinBounds cfg x z}
       = nat ((2 * (size_opt cfg div 2)) * (2 * (size_opt cfg div 2)))"
  by (simp add: withinBounds_set card_cartesian_product nat_mult_distrib)

lemma isWithinBounds_shift:
  "isWithinBounds (cfg\<lparr>centerX := centerX cfg + dx, centerZ := centerZ cfg + dz\<rparr>) x z
     = isWithinBounds cfg (x - dx) (z - dz)"
  by (auto simp: isWithinBounds_iff)

lemma withinBounds_translate:
  "{(x, z). isWithinBounds (cfg\<lparr>centerX := centerX cfg + dx, centerZ := centerZ cfg + dz\<rparr>) x z}
     = (\<lambda>(x, z). (x + dx, z + dz)) ` {(x, z). isWithinBounds cfg x z}"
  apply (auto simp: isWithinBounds_shift)
  subgoal for a b by (rule image_eqI[where x="(a - dx, b - dz)"]) auto
  done

text \<open>C8. \<^verbatim>\<open>isWithinBounds(x, z)\<close> holds exactly when
  \<open>centerX - half \<le> x \<le> centerX + half - 1\<close> and \<open>centerZ - half \<le> z \<le> centerZ + half - 1\<close>
  with \<open>half = \<lfloor>size / 2\<rfloor>\<close>. It is a function of the options and the column alone: it
  reads no mutable field and changes none, so it is deterministic and free of effects.\<close>

theorem isWithinBounds_spec:
  "isWithinBounds cfg x z \<longleftrightarrow>
     (centerX cfg - \<lfloor>real_of_int (size_opt cfg) / 2\<rfloor> \<le> x \<and>
      x \<le> centerX cfg + \<lfloor>real_of_int (size_opt cfg) / 2\<rfloor> - 1 \<and>
      centerZ cfg - \<lfloor>real_of_int (size_opt cfg) / 2\<rfloor> \<le> z \<and>
      z \<le> centerZ cfg + \<lfloor>real_of_int (size_opt cfg) / 2\<rfloor> - 1)"
  by (simp add: isWithinBounds_iff floor_divide_of_int_eq[of _ 2, simplified])

text \<open>C7, as stated, fails for an odd size: zone 1 of \<^verbatim>\<open>src/index.ts\<close> has size \<open>25\<close>, and
  its footprint has \<open>24 \<times> 24 = 576\<close> columns, not \<open>25 \<times> 25 = 625\<close>.\<close>

theorem withinBounds_count_odd_size:
  "0 < size_opt zone1 \<and> card {(x, z). isWithinBounds zone1 x z} = 576 \<and>
   nat (size_opt zone1 * size_opt zone1) = 625"
  using card_withinBounds[of zone1] by (simp add: zone1_def)

text \<open>C7, amended. For every center and every positive integer size, the set of columns
  accepted by \<^verbatim>\<open>isWithinBounds\<close> has exactly \<open>(2 * \<lfloor>size / 2\<rfloor>)\<^sup>2\<close> columns, which is
  \<open>size \<times> size\<close> when the size is even, and moving the center by \<open>(dx, dz)\<close> translates the
  set by exactly \<open>(dx, dz)\<close>.\<close>

theorem withinBounds_window:
  "0 < size_opt cfg \<Longrightarrow>
     card {(x, z). isWithinBounds cfg x z}
       = nat ((2 * (size_opt cfg div 2)) * (2 * (size_opt cfg div 2))) \<and>
     (even (size_opt cfg) \<longrightarrow>
        card {(x, z). isWithinBounds cfg x z} = nat (size_opt cfg * size_opt cfg)) \<and>
     {(x, z). isWithinBounds (cfg\<lparr>centerX := centerX cfg + dx, centerZ := centerZ cfg + dz\<rparr>) x z}
       = (\<lambda>(x, z). (x + dx, z + dz)) ` {(x, z). isWithinBounds cfg x z}"
proof -
  assume pos: "0 < size_opt cfg"
  let ?W = "{(x, z). isWithinBounds cfg x z}"
  have c: "card ?W = nat ((2 * (size_opt cfg div 2)) * (2 * (size_opt cfg div 2)))"
    by (rule card_withinBounds[OF pos])
  have e: "card ?W = nat (size_opt cfg * size_opt cfg)" if "even (size_opt cfg)"
  proof -
    from that have "2 * (size_opt cfg div 2) = size_opt cfg" by simp
    with c show ?thesis by metis
  qed
  show ?thesis
    using c e withinBounds_translate[where cfg=cfg and dx=dx and dz=dz] by blast
qed

theorem withinBounds_window_witness:
  "0 < size_opt zone3 \<and> card {(x, z). isWithinBounds zone3 x z} = 900 \<and>
   nat (size_opt zone3 * size_opt zone3) = 900 \<and>
   {(x, z). isWithinBounds (zone3\<lparr>centerX := centerX zone3 + 5, centerZ := centerZ zone3 + (- 3)\<rparr>) x z}
       = (\<lambda>(x, z). (x + 5, z + (- 3))) ` {(x, z). isWithinBounds zone3 x z}"
  using withinBounds_window[where cfg=zone3 and dx=5 and dz="- 3"] by (simp add: zone3_def)

section \<open>Reading the height of a column\<close>

lemma hasBlockAt_write:
  "hasBlockAt (w\<lparr>blocks := (blocks w)(p := Inr (Id b))\<rparr>) x y z
     = (if (x, y, z) = p then b \<noteq> 0 else hasBlockAt w x y z)"
  by (simp add: hasBlockAt_def chunkLattice_getBlockId_def)

lemma height_from_cong:
  "(\<And>y'. 0 \<le> y' \<Longrightarrow> y' \<le> y \<Longrightarrow> hasBlockAt w' x y' z = hasBlockAt w x y' z)
     \<Longrightarrow> getCurrentHeight_from w' x z y = getCurrentHeight_from w x z y"
proof (induction w x z y rule: getCurrentHeight_from.induct)
  case (1 w x z y)
  show ?case
  proof (cases "y \<ge> 0")
    case True
    have same: "hasBlockAt w' x y z = hasBlockAt w x y z" using True "1.prems" by simp
    show ?thesis
    proof (cases "hasBlockAt w x y z")
      case True
      with \<open>y \<ge> 0\<close> same show ?thesis
        by (simp add: getCurrentHeight_from.simps[of w x z y] getCurrentHeight_from.simps[of w' x z y])
    next
      case False
      have "getCurrentHeight_from w' x z (y - 1) = getCurrentHeight_from w x z (y - 1)"
        using "1.IH"[OF \<open>y \<ge> 0\<close> False] "1.prems" by simp
      with \<open>y \<ge> 0\<close> same False show ?thesis
        by (simp add: getCurrentHeight_from.simps[of w x z y] getCurrentHeight_from.simps[of w' x z y])
    qed
  next
    case False
    then show ?thesis
      by (simp add: getCurrentHeight_from.simps[of w x z y] getCurrentHeight_from.simps[of w' x z y])
  qed
qed

lemma height_from_bounds:
  "- 1 \<le> getCurrentHeight_from w x z y \<and> getCurrentHeight_from w x z y \<le> max y (- 1)"
  by (induction w x z y rule: getCurrentHeight_from.induct)
     (subst getCurrentHeight_from.simps, subst (2) getCurrentHeight_from.simps, auto)

lemma height_from_hit:
  "0 \<le> getCurrentHeight_from w x z y
     \<Longrightarrow> hasBlockAt w x (getCurrentHeight_from w x z y) z"
  by (induction w x z y rule: getCurrentHeight_from.induct)
     (subst getCurrentHeight_from.simps, subst (asm) (3) getCurrentHeight_from.simps, auto)

lemma height_from_above:
  "getCurrentHeight_from w x z y < y' \<Longrightarrow> y' \<le> y \<Longrightarrow> \<not> hasBlockAt w x y' z"
proof (induction w x z y rule: getCurrentHeight_from.induct)
  case (1 w x z y)
  have ge: "- 1 \<le> getCurrentHeight_from w x z y" using height_from_bounds by blast
  with "1.prems" have y0: "0 \<le> y" by linarith
  show ?case
  proof (cases "hasBlockAt w x y z")
    case True
    with y0 have "getCurrentHeight_from w x z y = y"
      by (simp add: getCurrentHeight_from.simps[of w x z y])
    with "1.prems" show ?thesis by simp
  next
    case False
    with y0 have eq: "getCurrentHeight_from w x z y = getCurrentHeight_from w x z (y - 1)"
      by (simp add: getCurrentHeight_from.simps[of w x z y])
    show ?thesis
    proof (cases "y' = y")
      case True
      with False show ?thesis by simp
    next
      case False
      with "1.prems" eq "1.IH"[OF y0 \<open>\<not> hasBlockAt w x y z\<close>] show ?thesis by simp
    qed
  qed
qed

lemma height_from_eqI:
  "0 \<le> h \<Longrightarrow> h \<le> y \<Longrightarrow> hasBlockAt w x h z
     \<Longrightarrow> (\<And>y'. h < y' \<Longrightarrow> y' \<le> y \<Longrightarrow> \<not> hasBlockAt w x y' z)
     \<Longrightarrow> getCurrentHeight_from w x z y = h"
proof (induction w x z y rule: getCurrentHeight_from.induct)
  case (1 w x z y)
  then have y0: "0 \<le> y" by linarith
  show ?case
  proof (cases "h = y")
    case True
    with "1.prems" y0 show ?thesis by (simp add: getCurrentHeight_from.simps[of w x z y])
  next
    case False
    with "1.prems" have nb: "\<not> hasBlockAt w x y z" by simp
    have "getCurrentHeight_from w x z (y - 1) = h"
      using "1.IH"[OF y0 nb] "1.prems" False by simp
    with y0 nb show ?thesis by (simp add: getCurrentHeight_from.simps[of w x z y])
  qed
qed

section \<open>The growth loop\<close>

lemma hasBlockAt_column:
  "column w' x z = column w x z \<Longrightarrow> hasBlockAt w' x y z = hasBlockAt w x y z"
  by (simp add: hasBlockAt_def chunkLattice_getBlockId_def column_def fun_eq_iff)

lemma getCurrentHeight_column:
  "column w' x z = column w x z \<Longrightarrow> getCurrentHeight cfg w' x z = getCurrentHeight cfg w x z"
  unfolding getCurrentHeight_def by (rule height_from_cong) (rule hasBlockAt_column)

lemma column_write_other:
  "(x', z') \<noteq> (x, z) \<Longrightarrow>
     column (w\<lparr>blocks := (blocks w)((x', y', z') := v)\<rparr>) x z = column w x z"
  by (auto simp: column_def fun_eq_iff)

lemma getCurrentHeight_bounds:
  "- 1 \<le> getCurrentHeight cfg w x z \<and> getCurrentHeight cfg w x z \<le> max (targetHeight cfg + 10) (- 1)"
  unfolding getCurrentHeight_def by (rule height_from_bounds)

lemma getCurrentHeight_raise:
  assumes h: "h = getCurrentHeight cfg w x z"
  shows "getCurrentHeight cfg (w\<lparr>blocks := (blocks w)((x, h + 1, z) := Inr (Id b))\<rparr>) x z
           = (if b \<noteq> 0 \<and> h + 1 \<le> targetHeight cfg + 10 then h + 1 else h)"
proof -
  let ?top = "targetHeight cfg + 10"
  let ?w' = "w\<lparr>blocks := (blocks w)((x, h + 1, z) := Inr (Id b))\<rparr>"
  have hf: "h = getCurrentHeight_from w x z ?top" using h by (simp add: getCurrentHeight_def)
  have ge: "- 1 \<le> h" using hf height_from_bounds[of w x z ?top] by simp
  have above: "\<not> hasBlockAt w x y' z" if "h < y'" "y' \<le> ?top" for y'
    using height_from_above[of w x z ?top y'] that hf by simp
  show ?thesis
  proof (cases "b \<noteq> 0 \<and> h + 1 \<le> ?top")
    case True
    have "getCurrentHeight_from ?w' x z ?top = h + 1"
    proof (rule height_from_eqI)
      show "0 \<le> h + 1" using ge by simp
      show "h + 1 \<le> ?top" using True by simp
      show "hasBlockAt ?w' x (h + 1) z" using True by (simp add: hasBlockAt_write)
      show "\<not> hasBlockAt ?w' x y' z" if "h + 1 < y'" "y' \<le> ?top" for y'
        using that above[of y'] by (simp add: hasBlockAt_write)
    qed
    with True show ?thesis by (simp add: getCurrentHeight_def)
  next
    case False
    have "getCurrentHeight_from ?w' x z ?top = getCurrentHeight_from w x z ?top"
    proof (rule height_from_cong)
      fix y' assume y': "0 \<le> y'" "y' \<le> ?top"
      show "hasBlockAt ?w' x y' z = hasBlockAt w x y' z"
      proof (cases "y' = h + 1")
        case True
        with y' False have "b = 0" by auto
        moreover have "\<not> hasBlockAt w x y' z" using above[of y'] True y' by simp
        ultimately show ?thesis using True by (simp add: hasBlockAt_write)
      next
        case False
        then show ?thesis by (simp add: hasBlockAt_write)
      qed
    qed
    with False hf show ?thesis by (simp add: getCurrentHeight_def)
  qed
qed

text \<open>What one visit of a column does to the grid.\<close>

lemma setBlock_world:
  "world (setBlock s x y z b) = world s \<or>
   world (setBlock s x y z b) = (world s)\<lparr>blocks := (blocks (world s))((x, y, z) := Inr (Id b))\<rparr>"
  by (simp add: setBlock_def chunkLattice_setBlock_def)

lemma terraformColumn_world:
  assumes "terraformColumn cfg t r (x, z) (s, m, c) = (s', m', c')"
  shows "world s' = world s \<or>
         (isWithinBounds cfg x z \<and> \<not> number_greater (distanceFromCenter t x z) r \<and>
          1 \<le> targetHeightForPosition cfg t x z \<and>
          getCurrentHeight cfg (world s) x z < targetHeightForPosition cfg t x z \<and>
          world s' = (world s)\<lparr>blocks := (blocks (world s))
             ((x, getCurrentHeight cfg (world s) x z + 1, z) := Inr (Id (blockTypeId cfg)))\<rparr>)"
  using assms setBlock_world[of s x "getCurrentHeight cfg (world s) x z + 1" z "blockTypeId cfg"]
  by (auto simp: terraformColumn_def Let_def min_def split: if_splits)

lemma terraformColumn_complete:
  "snd (snd (terraformColumn cfg t r (x, z) (s, m, c))) =
     (c \<and> (isWithinBounds cfg x z \<longrightarrow>
            \<not> number_greater (distanceFromCenter t x z) r \<and>
            (targetHeightForPosition cfg t x z < 1 \<or>
             targetHeightForPosition cfg t x z \<le> getCurrentHeight cfg (world s) x z)))"
  by (auto simp: terraformColumn_def Let_def)

lemma terraformColumn_other_column:
  assumes "terraformColumn cfg t r (x, z) (s, m, c) = (s', m', c')" and "(x', z') \<noteq> (x, z)"
  shows "column (world s') x' z' = column (world s) x' z'"
  using terraformColumn_world[OF assms(1)] assms(2)
  by (auto simp: column_write_other)

lemma column_write_same:
  "column (w\<lparr>blocks := (blocks w)((x, y, z) := v)\<rparr>) x z = (column w x z)(y := v)"
  by (auto simp: column_def fun_eq_iff)

lemma terraformColumn_same_column:
  assumes step: "terraformColumn cfg t r (x, z) (s, m, c) = (s', m', c')"
      and same: "column (world s) x z = column w0 x z"
  shows "column (world s') x z = column w0 x z \<or> raisedColumn cfg t r w0 (world s') x z"
proof -
  have h: "getCurrentHeight cfg (world s) x z = getCurrentHeight cfg w0 x z"
    by (rule getCurrentHeight_column[OF same])
  from terraformColumn_world[OF step] show ?thesis
  proof
    assume "world s' = world s"
    with same show ?thesis by simp
  next
    assume "isWithinBounds cfg x z \<and> \<not> number_greater (distanceFromCenter t x z) r \<and>
          1 \<le> targetHeightForPosition cfg t x z \<and>
          getCurrentHeight cfg (world s) x z < targetHeightForPosition cfg t x z \<and>
          world s' = (world s)\<lparr>blocks := (blocks (world s))
             ((x, getCurrentHeight cfg (world s) x z + 1, z) := Inr (Id (blockTypeId cfg)))\<rparr>"
    then have "raisedColumn cfg t r w0 (world s') x z"
      using same h by (simp add: raisedColumn_def column_write_same)
    then show ?thesis ..
  qed
qed

lemma fold_terraformColumn_untouched:
  "(x, z) \<notin> set cols \<Longrightarrow>
     column (world (fst (fold (terraformColumn cfg t r) cols (s, m, c)))) x z = column (world s) x z"
proof (induction cols arbitrary: s m c)
  case Nil
  then show ?case by simp
next
  case (Cons a cols)
  obtain xa za where a: "a = (xa, za)" by (cases a)
  obtain s1 m1 c1 where step: "terraformColumn cfg t r (xa, za) (s, m, c) = (s1, m1, c1)"
    by (cases "terraformColumn cfg t r (xa, za) (s, m, c)")
  from Cons.prems a have ne: "(x, z) \<noteq> (xa, za)" and notin: "(x, z) \<notin> set cols" by auto
  have "column (world s1) x z = column (world s) x z"
    by (rule terraformColumn_other_column[OF step ne])
  with Cons.IH[OF notin, of s1 m1 c1] a step show ?case by simp
qed

lemma fold_terraformColumn_columns:
  assumes "distinct cols"
      and "\<forall>(xa, za) \<in> set cols. column (world s) xa za = column w0 xa za"
      and "column (world s) x z = column w0 x z \<or> raisedColumn cfg t r w0 (world s) x z"
  shows "column (world (fst (fold (terraformColumn cfg t r) cols (s, m, c)))) x z = column w0 x z \<or>
         raisedColumn cfg t r w0 (world (fst (fold (terraformColumn cfg t r) cols (s, m, c)))) x z"
  using assms
proof (induction cols arbitrary: s m c)
  case Nil
  then show ?case by simp
next
  case (Cons a cols)
  obtain xa za where a: "a = (xa, za)" by (cases a)
  obtain s1 m1 c1 where step: "terraformColumn cfg t r (xa, za) (s, m, c) = (s1, m1, c1)"
    by (cases "terraformColumn cfg t r (xa, za) (s, m, c)")
  from Cons.prems(1) a have notin: "(xa, za) \<notin> set cols" and dist: "distinct cols" by auto
  have rest: "\<forall>(xb, zb) \<in> set cols. column (world s1) xb zb = column w0 xb zb"
  proof (clarify)
    fix xb zb assume b: "(xb, zb) \<in> set cols"
    with notin have "(xb, zb) \<noteq> (xa, za)" by auto
    from terraformColumn_other_column[OF step this] Cons.prems(2) b
    show "column (world s1) xb zb = column w0 xb zb" by auto
  qed
  have here: "column (world s1) x z = column w0 x z \<or> raisedColumn cfg t r w0 (world s1) x z"
  proof (cases "(x, z) = (xa, za)")
    case True
    with Cons.prems(2) a have "column (world s) xa za = column w0 xa za" by auto
    from terraformColumn_same_column[OF step this] True show ?thesis by simp
  next
    case False
    from terraformColumn_other_column[OF step False]
    have "column (world s1) x z = column (world s) x z" .
    with Cons.prems(3) show ?thesis by (simp add: raisedColumn_def)
  qed
  from Cons.IH[OF dist rest here, of m1 c1] a step show ?case by simp
qed

lemma fold_terraformColumn_complete:
  assumes "distinct cols"
      and "\<forall>(xa, za) \<in> set cols. column (world s) xa za = column w0 xa za"
  shows "snd (snd (fold (terraformColumn cfg t r) cols (s, m, c))) =
           (c \<and> (\<forall>(x, z) \<in> set cols. isWithinBounds cfg x z \<longrightarrow>
                   \<not> number_greater (distanceFromCenter t x z) r \<and>
                   (targetHeightForPosition cfg t x z < 1 \<or>
                    targetHeightForPosition cfg t x z \<le> getCurrentHeight cfg w0 x z)))"
  using assms
proof (induction cols arbitrary: s m c)
  case Nil
  then show ?case by simp
next
  case (Cons a cols)
  obtain xa za where a: "a = (xa, za)" by (cases a)
  obtain s1 m1 c1 where step: "terraformColumn cfg t r (xa, za) (s, m, c) = (s1, m1, c1)"
    by (cases "terraformColumn cfg t r (xa, za) (s, m, c)")
  from Cons.prems(1) a have notin: "(xa, za) \<notin> set cols" and dist: "distinct cols" by auto
  have rest: "\<forall>(xb, zb) \<in> set cols. column (world s1) xb zb = column w0 xb zb"
  proof (clarify)
    fix xb zb assume b: "(xb, zb) \<in> set cols"
    with notin have "(xb, zb) \<noteq> (xa, za)" by auto
    from terraformColumn_other_column[OF step this] Cons.prems(2) b
    show "column (world s1) xb zb = column w0 xb zb" by auto
  qed
  from Cons.prems(2) a have "column (world s) xa za = column w0 xa za" by auto
  then have h: "getCurrentHeight cfg (world s) xa za = getCurrentHeight cfg w0 xa za"
    by (rule getCurrentHeight_column)
  have c1: "c1 = (c \<and> (isWithinBounds cfg xa za \<longrightarrow>
            \<not> number_greater (distanceFromCenter t xa za) r \<and>
            (targetHeightForPosition cfg t xa za < 1 \<or>
             targetHeightForPosition cfg t xa za \<le> getCurrentHeight cfg w0 xa za)))"
    using terraformColumn_complete[of cfg t r xa za s m c] step h by simp
  from Cons.IH[OF dist rest, of m1 c1] a step c1 show ?case by auto
qed

lemma distinct_terraformWindow: "distinct (terraformWindow cfg t)"
  by (simp add: terraformWindow_def Let_def distinct_product)

lemma terraformColumn_frame:
  "\<exists>w' l'. fst (terraformColumn cfg t r col (s, m, c)) = s\<lparr>world := w', console := l'\<rparr>"
proof -
  obtain x z where col: "col = (x, z)" by (cases col)
  have keep: "\<exists>w' l'. s = s\<lparr>world := w', console := l'\<rparr>"
    by (rule exI[of _ "world s"], rule exI[of _ "console s"]) simp
  have sb: "\<exists>w' l'. setBlock s x y z b = s\<lparr>world := w', console := l'\<rparr>" for y b
  proof (cases "chunkLattice_setBlock (world s) (x, y, z) b")
    case (Inl e)
    then have "setBlock s x y z b = s\<lparr>world := world s, console := console s @ [ErrorSetBlock x y z]\<rparr>"
      by (simp add: setBlock_def)
    then show ?thesis by blast
  next
    case (Inr w')
    then have "setBlock s x y z b = s\<lparr>world := w', console := console s\<rparr>"
      by (simp add: setBlock_def)
    then show ?thesis by blast
  qed
  show ?thesis
    unfolding col terraformColumn_def Let_def using keep sb by (simp split: if_splits)
qed

lemma fold_terraformColumn_frame:
  "\<exists>w' l'. fst (fold (terraformColumn cfg t r) cols (s, m, c)) = s\<lparr>world := w', console := l'\<rparr>"
proof (induction cols arbitrary: s m c)
  case Nil
  show ?case by (rule exI[of _ "world s"], rule exI[of _ "console s"]) simp
next
  case (Cons a cols)
  obtain s1 m1 c1 where step: "terraformColumn cfg t r a (s, m, c) = (s1, m1, c1)"
    by (cases "terraformColumn cfg t r a (s, m, c)")
  from terraformColumn_frame[of cfg t r a s m c] step
  obtain w1 l1 where s1: "s1 = s\<lparr>world := w1, console := l1\<rparr>" by auto
  from Cons.IH[of s1 m1 c1] obtain w' l' where
    "fst (fold (terraformColumn cfg t r) cols (s1, m1, c1)) = s1\<lparr>world := w', console := l'\<rparr>"
    by blast
  then have "fst (fold (terraformColumn cfg t r) (a # cols) (s, m, c)) = s\<lparr>world := w', console := l'\<rparr>"
    using step s1 by simp
  then show ?case by blast
qed

lemma terraformLoop_frame:
  assumes "terraformLoop cfg t now s = (s1, m, c)"
  shows "\<exists>w' l'. s1 = s\<lparr>world := w', console := l'\<rparr>"
  using fold_terraformColumn_frame[of cfg t "currentWaveRadius cfg t now" "terraformWindow cfg t" s 0 True]
    assms by (simp add: terraformLoop_def)

lemma terraformLoop_complete_iff:
  assumes "terraformLoop cfg t now s = (s1, m, c)"
  shows "c = (\<forall>(x, z) \<in> set (terraformWindow cfg t). isWithinBounds cfg x z \<longrightarrow>
               \<not> number_greater (distanceFromCenter t x z) (currentWaveRadius cfg t now) \<and>
               (targetHeightForPosition cfg t x z < 1 \<or>
                targetHeightForPosition cfg t x z \<le> getCurrentHeight cfg (world s) x z))"
  using fold_terraformColumn_complete[OF distinct_terraformWindow, of cfg t s "world s" cfg t
      "currentWaveRadius cfg t now" 0 True] assms
  by (simp add: terraformLoop_def)

lemma terraformStep_growth:
  assumes "currentTarget s = Some r" "isActive (targets s r)" "destroyedSpawner cfg s r = None"
      and "terraformLoop cfg (targets s r) now s = (s1, m, c)"
  shows "terraformStep cfg rnd now s =
           (if c then selectNewTarget cfg rnd now (s1\<lparr>completedTargets := completedTargets s1 @ [r]\<rparr>)
            else s1)"
  using assms by (simp add: terraformStep_def)


section \<open>Evaluating the model on the examples\<close>

lemma to_double_numeral_simp [simp]:
  "(numeral n :: int) < 9007199254740992 \<Longrightarrow> to_double (numeral n) = numeral n"
  using to_double_numeral[of n] by simp

lemma distance_le_int:
  assumes "0 \<le> k" and "k < 2 ^ 25"
  shows "distanceFromCenter t x z \<le> real_of_int k \<longleftrightarrow>
           (x - t_x t) * (x - t_x t) + (z - t_z t) * (z - t_z t) \<le> k * k"
  unfolding distanceFromCenter_def Let_def by (rule Math_sqrt_le_int[OF assms])

lemma distanceFromCenter_gt:
  assumes "(numeral k :: int) < 33554432"
  shows "numeral k < distanceFromCenter t x z \<longleftrightarrow>
       numeral k * numeral k < (x - t_x t) * (x - t_x t) + (z - t_z t) * (z - t_z t)"
proof -
  have "distanceFromCenter t x z \<le> real_of_int (numeral k) \<longleftrightarrow>
          (x - t_x t) * (x - t_x t) + (z - t_z t) * (z - t_z t) \<le> numeral k * numeral k"
    by (rule distance_le_int) (use assms in simp_all)
  then have "distanceFromCenter t x z \<le> numeral k \<longleftrightarrow>
          (x - t_x t) * (x - t_x t) + (z - t_z t) * (z - t_z t) \<le> numeral k * numeral k"
    by simp
  then show ?thesis unfolding not_le[symmetric] by (rule arg_cong[where f=Not])
qed

lemma distanceFromCenter_gt_0:
  "0 < distanceFromCenter t x z \<longleftrightarrow>
     0 < (x - t_x t) * (x - t_x t) + (z - t_z t) * (z - t_z t)"
proof -
  have "distanceFromCenter t x z \<le> real_of_int 0 \<longleftrightarrow>
          (x - t_x t) * (x - t_x t) + (z - t_z t) * (z - t_z t) \<le> 0 * 0"
    by (rule distance_le_int) simp_all
  then have "distanceFromCenter t x z \<le> 0 \<longleftrightarrow>
          (x - t_x t) * (x - t_x t) + (z - t_z t) * (z - t_z t) \<le> 0"
    by simp
  then show ?thesis unfolding not_le[symmetric] by (rule arg_cong[where f=Not])
qed

lemma distanceFromCenter_gt_1:
  "1 < distanceFromCenter t x z \<longleftrightarrow>
     1 < (x - t_x t) * (x - t_x t) + (z - t_z t) * (z - t_z t)"
proof -
  have "distanceFromCenter t x z \<le> real_of_int 1 \<longleftrightarrow>
          (x - t_x t) * (x - t_x t) + (z - t_z t) * (z - t_z t) \<le> 1 * 1"
    by (rule distance_le_int) simp_all
  then have "distanceFromCenter t x z \<le> 1 \<longleftrightarrow>
          (x - t_x t) * (x - t_x t) + (z - t_z t) * (z - t_z t) \<le> 1"
    by simp
  then show ?thesis unfolding not_le[symmetric] by (rule arg_cong[where f=Not])
qed

lemma distanceFromCenter_ge:
  assumes "(numeral k :: int) < 33554432"
  shows "numeral k \<le> distanceFromCenter t x z \<longleftrightarrow>
       numeral k * numeral k \<le> (x - t_x t) * (x - t_x t) + (z - t_z t) * (z - t_z t)"
proof -
  have "Math_sqrt (real_of_int ((x - t_x t) * (x - t_x t) + (z - t_z t) * (z - t_z t)))
          < real_of_int (numeral k) \<longleftrightarrow>
        (x - t_x t) * (x - t_x t) + (z - t_z t) * (z - t_z t) < numeral k * numeral k"
    by (rule Math_sqrt_less_int) (use assms in simp_all)
  then have "distanceFromCenter t x z < numeral k \<longleftrightarrow>
          (x - t_x t) * (x - t_x t) + (z - t_z t) * (z - t_z t) < numeral k * numeral k"
    by (simp add: distanceFromCenter_def Let_def del: of_int_add of_int_mult)
  then show ?thesis unfolding not_less[symmetric] by (rule arg_cong[where f=Not])
qed

lemma spawnerDistance_less:
  assumes "(numeral k :: int) < 33554432"
  shows "spawnerDistance x z (sx, sy, sz) < numeral k \<longleftrightarrow>
           (x - sx) * (x - sx) + (z - sz) * (z - sz) < numeral k * numeral k"
proof -
  have "Math_sqrt (real_of_int ((x - sx)\<^sup>2 + (z - sz)\<^sup>2)) < real_of_int (numeral k) \<longleftrightarrow>
          (x - sx)\<^sup>2 + (z - sz)\<^sup>2 < numeral k * numeral k"
    by (rule Math_sqrt_less_int) (use assms in simp_all)
  then show ?thesis by (simp add: spawnerDistance_def power2_eq_square)
qed

lemma spawnerDistance_le:
  assumes "(numeral k :: int) < 33554432"
  shows "spawnerDistance x z (sx, sy, sz) \<le> numeral k \<longleftrightarrow>
           (x - sx) * (x - sx) + (z - sz) * (z - sz) \<le> numeral k * numeral k"
proof -
  have "Math_sqrt (real_of_int ((x - sx)\<^sup>2 + (z - sz)\<^sup>2)) \<le> real_of_int (numeral k) \<longleftrightarrow>
          (x - sx)\<^sup>2 + (z - sz)\<^sup>2 \<le> numeral k * numeral k"
    by (rule Math_sqrt_le_int) (use assms in simp_all)
  then show ?thesis by (simp add: spawnerDistance_def power2_eq_square)
qed

lemma heightMultiplier_le_1: "max 0 (double_minus 1 (double_times a a)) \<le> 1"
proof -
  have "0 \<le> double_times a a" unfolding double_times_def by (rule to_double_nonneg) simp
  then have "1 - double_times a a \<le> real_of_int 1" by simp
  then have "double_minus 1 (double_times a a) \<le> real_of_int 1"
    unfolding double_minus_def by (intro to_double_le_int) simp_all
  then show ?thesis by simp
qed

lemma targetHeightAtDistance_le:
  assumes "0 \<le> t_y t" and "t_y t < 2 ^ 53"
  shows "targetHeightAtDistance cfg t d \<le> t_y t"
proof -
  let ?n = "double_divide d (real_of_int (terraformSize cfg div 2))"
  let ?hm = "max 0 (double_minus 1 (double_times ?n ?n))"
  have "real_of_int (t_y t) * ?hm \<le> real_of_int (t_y t) * 1"
    using assms(1) heightMultiplier_le_1[of ?n] by (intro mult_left_mono) simp_all
  then have "real_of_int (t_y t) * ?hm \<le> real_of_int (t_y t)" by simp
  then have "double_times (real_of_int (t_y t)) ?hm \<le> real_of_int (t_y t)"
    unfolding double_times_def by (intro to_double_le_int) (use assms in simp_all)
  then have "\<lfloor>double_times (real_of_int (t_y t)) ?hm\<rfloor> \<le> t_y t"
    by (simp add: floor_le_iff)
  then show ?thesis by (simp add: targetHeightAtDistance_def Let_def)
qed

lemma currentWaveRadius_finite:
  "intervalMs cfg \<noteq> 0 \<Longrightarrow>
     currentWaveRadius cfg t now =
       Finite (to_double (real_of_int
          \<lfloor>to_double (real_of_int (now - startTime t) / real_of_int (intervalMs cfg))\<rfloor>
            * elevationSpeed cfg))"
  by (simp add: currentWaveRadius_def stepsElapsed_def number_divide_def Math_floor_def
      number_times_def Let_def)

lemma fold_terraformColumn_mono:
  "snd (snd (fold (terraformColumn cfg t r) cols (s, m, c))) \<Longrightarrow> c"
proof (induction cols arbitrary: s m c)
  case Nil
  then show ?case by simp
next
  case (Cons a cols)
  obtain x z where a: "a = (x, z)" by (cases a)
  obtain s1 m1 c1 where step: "terraformColumn cfg t r (x, z) (s, m, c) = (s1, m1, c1)"
    by (cases "terraformColumn cfg t r (x, z) (s, m, c)")
  from Cons.prems a step have "snd (snd (fold (terraformColumn cfg t r) cols (s1, m1, c1)))"
    by simp
  then have "c1" by (rule Cons.IH)
  moreover have "c1 = snd (snd (terraformColumn cfg t r (x, z) (s, m, c)))" using step by simp
  ultimately show ?case by (simp add: terraformColumn_complete)
qed

lemma terraformColumn_complete_unchanged:
  "snd (snd (terraformColumn cfg t r (x, z) (s, m, c)))
     \<Longrightarrow> terraformColumn cfg t r (x, z) (s, m, c) = (s, m, True)"
  by (auto simp: terraformColumn_def Let_def split: if_splits)

lemma fold_terraformColumn_complete_unchanged:
  "snd (snd (fold (terraformColumn cfg t r) cols (s, m, c)))
     \<Longrightarrow> fold (terraformColumn cfg t r) cols (s, m, c) = (s, m, True)"
proof (induction cols arbitrary: s m c)
  case Nil
  then show ?case by simp
next
  case (Cons a cols)
  obtain x z where a: "a = (x, z)" by (cases a)
  obtain s1 m1 c1 where step: "terraformColumn cfg t r (x, z) (s, m, c) = (s1, m1, c1)"
    by (cases "terraformColumn cfg t r (x, z) (s, m, c)")
  from Cons.prems a step have fin: "snd (snd (fold (terraformColumn cfg t r) cols (s1, m1, c1)))"
    by simp
  then have "c1" by (rule fold_terraformColumn_mono)
  with step have "snd (snd (terraformColumn cfg t r (x, z) (s, m, c)))" by simp
  from terraformColumn_complete_unchanged[OF this] step
  have eq: "s1 = s" "m1 = m" "c1 = True" by simp_all
  from Cons.IH[OF fin] a step eq show ?case by simp
qed

lemma terraformLoop_completeI:
  assumes "\<forall>(x, z) \<in> set (terraformWindow cfg t). isWithinBounds cfg x z \<longrightarrow>
               \<not> number_greater (distanceFromCenter t x z) (currentWaveRadius cfg t now) \<and>
               (targetHeightForPosition cfg t x z < 1 \<or>
                targetHeightForPosition cfg t x z \<le> getCurrentHeight cfg (world s) x z)"
  shows "terraformLoop cfg t now s = (s, 0, True)"
proof -
  obtain s1 m c where l: "terraformLoop cfg t now s = (s1, m, c)"
    by (cases "terraformLoop cfg t now s")
  from terraformLoop_complete_iff[OF l] assms have "c" by simp
  with l have "snd (snd (fold (terraformColumn cfg t (currentWaveRadius cfg t now))
                  (terraformWindow cfg t) (s, 0, True)))"
    by (simp add: terraformLoop_def)
  from fold_terraformColumn_complete_unchanged[OF this] show ?thesis
    by (simp add: terraformLoop_def)
qed

text \<open>The example grid\<close>

lemma hasBlockAt_plateau:
  "hasBlockAt (plateauWorld mk) x y z \<longleftrightarrow> (x, y, z) = mk \<or> (0 \<le> y \<and> y \<le> 3)"
  by (simp add: hasBlockAt_def chunkLattice_getBlockId_def plateauWorld_def)

lemma getCurrentHeight_plateau:
  "getCurrentHeight zone3 (plateauWorld (mx, 2, mz)) x z = 3"
  unfolding getCurrentHeight_def
  by (rule height_from_eqI) (auto simp: hasBlockAt_plateau zone3_def)

lemma square_bound: "- k \<le> a \<Longrightarrow> a \<le> k \<Longrightarrow> a * a \<le> k * (k::int)"
proof -
  assume "- k \<le> a" "a \<le> k"
  then have "\<bar>a\<bar> \<le> k" by simp
  then have "\<bar>a\<bar> * \<bar>a\<bar> \<le> k * k" by (intro mult_mono) auto
  then show ?thesis by simp
qed

lemma zone3_simps:
  "centerX zone3 = - 40" "centerZ zone3 = 80" "size_opt zone3 = 30" "targetHeight zone3 = 3"
  "intervalMs zone3 = 3500" "terraformSize zone3 = 8" "blockTypeId zone3 = 4"
  "elevationSpeed zone3 = 1" "spawnerBlockId zone3 = 19"
  "initialSpawnPoints zone3 = [(- 40, 80)]" "spawnerSpreadRadius zone3 = 10"
  by (simp_all add: zone3_def)

lemma hillState_simps:
  "world (hillState c) = plateauWorld (fst c, 2, snd c)"
  "targets (hillState c) r = \<lparr>t_x = fst c, t_y = 3, t_z = snd c, startTime = 0,
                       spawnerPosition = Some (fst c, 2, snd c), isActive = True\<rparr>"
  "nextRef (hillState c) = 1" "currentTarget (hillState c) = Some 0"
  "completedTargets (hillState c) = []" "spawnerPositions (hillState c) = [(fst c, 2, snd c)]"
  "hasInitialSpawners (hillState c)" "randomCalls (hillState c) = 0" "console (hillState c) = []"
  by (simp_all add: hillState_def)

lemma isSpawnerBlockPresent_plateau:
  "isSpawnerBlockPresent zone3 (plateauWorld mk) p \<longleftrightarrow> p = mk"
  by (cases p) (simp add: isSpawnerBlockPresent_def chunkLattice_getBlockId_def plateauWorld_def zone3_def)

lemma hill_not_destroyed: "destroyedSpawner zone3 (hillState c) 0 = None"
  by (simp add: destroyedSpawner_def hillState_simps isSpawnerBlockPresent_plateau)

lemma hill_loop_complete:
  "terraformLoop zone3 (targets (hillState (- 40, 80)) 0) 21000 (hillState (- 40, 80))
     = (hillState (- 40, 80), 0, True)"
proof (rule terraformLoop_completeI, clarify)
  fix x z
  let ?t = "targets (hillState (- 40, 80)) 0"
  assume "(x, z) \<in> set (terraformWindow zone3 ?t)"
  then have x: "- 4 \<le> x + 40" "x + 40 \<le> 4" and z: "- 4 \<le> z - 80" "z - 80 \<le> 4"
    by (auto simp: terraformWindow_def hillState_simps zone3_def)
  have "(x + 40) * (x + 40) \<le> 4 * 4" "(z - 80) * (z - 80) \<le> 4 * 4"
    using square_bound[OF x] square_bound[OF z] by simp_all
  then have le: "(x + 40) * (x + 40) + (z - 80) * (z - 80) \<le> 36" by simp
  have r: "currentWaveRadius zone3 ?t 21000 = Finite 6"
    by (simp add: currentWaveRadius_finite hillState_simps zone3_simps)
  have d: "\<not> number_greater (distanceFromCenter ?t x z) (currentWaveRadius zone3 ?t 21000)"
    using le unfolding r by (simp add: distanceFromCenter_gt hillState_simps)
  have "targetHeightForPosition zone3 ?t x z \<le> 3"
    using targetHeightAtDistance_le[of ?t zone3 "distanceFromCenter ?t x z"]
    by (simp add: targetHeightForPosition_def hillState_simps)
  then have "targetHeightForPosition zone3 ?t x z
               \<le> getCurrentHeight zone3 (world (hillState (- 40, 80))) x z"
    by (simp add: hillState_simps getCurrentHeight_plateau)
  with d show "\<not> number_greater (distanceFromCenter ?t x z) (currentWaveRadius zone3 ?t 21000) \<and>
       (targetHeightForPosition zone3 ?t x z < 1 \<or>
        targetHeightForPosition zone3 ?t x z \<le> getCurrentHeight zone3 (world (hillState (- 40, 80))) x z)"
    by simp
qed

lemma rndEast_simps: "rndEast 0 = 0" "rndEast (Suc 0) = 0" "rndEast 1 = 0" "rndEast 2 = 6 / 10"
  "rndEast (Suc (Suc 0)) = 6 / 10"
  "rndEast 3 = 0" "rndEast 4 = 0" "rndEast 5 = 6 / 10"
  by (simp_all add: rndEast_def)

lemma Math_round_of_int: "Math_round (real_of_int n) = n"
  by (simp add: Math_round_def)

lemma findValid_east:
  assumes "world S = plateauWorld (- 40, 2, 80)" "spawnerPositions S = [(- 40, 2, 80)]"
      and "randomCalls S = 0"
  shows "findValidSpawnerPosition zone3 rndEast S = (Some (- 34, 80), S\<lparr>randomCalls := 3\<rparr>)"
proof -
  have act: "getActiveSpawnerPositions zone3 S = [(- 40, 2, 80)]"
    by (simp add: getActiveSpawnerPositions_def getSpawnerPositions_def assms
        isSpawnerBlockPresent_plateau)
  have valid: "isValidSpawnerPosition zone3 S (- 34) 80"
    by (simp add: isValidSpawnerPosition_def act isWithinBounds_iff spawnerDistance_less
        spawnerDistance_le zone3_simps)
  have "Math_round (real_of_int (- 40) + 6) = - 34" "Math_round (real_of_int 80) = 80"
    using Math_round_of_int[of "- 34"] Math_round_of_int[of 80] by simp_all
  then have "findValidSpawnerPosition_loop zone3 rndEast S [(- 40, 2, 80)] 0 0
               = (Some (- 34, 80), 1, 3)"
    using valid
    by (subst findValidSpawnerPosition_loop.simps)
       (simp add: rndEast_simps zone3_simps Let_def)
  then show ?thesis
    by (simp add: findValidSpawnerPosition_def act assms)
qed

lemma writeFails_plateau: "\<not> writeFails (plateauWorld mk) p"
  by (simp add: plateauWorld_def)

lemma select_east:
  assumes w: "world S = plateauWorld (- 40, 2, 80)" and reg: "spawnerPositions S = [(- 40, 2, 80)]"
      and rc: "randomCalls S = 0" and ini: "hasInitialSpawners S"
  shows "world (selectNewTarget zone3 rndEast now S) =
           (plateauWorld (- 40, 2, 80))\<lparr>blocks :=
              (blocks (plateauWorld (- 40, 2, 80)))((- 34, 5, 80) := Inr (Id 19))\<rparr>"
    and "spawnerPositions (selectNewTarget zone3 rndEast now S) = [(- 40, 2, 80), (- 34, 5, 80)]"
    and "currentTarget (selectNewTarget zone3 rndEast now S) = Some (nextRef S)"
    and "targets (selectNewTarget zone3 rndEast now S) (nextRef S) =
           \<lparr>t_x = - 34, t_y = 3, t_z = 80, startTime = now,
            spawnerPosition = Some (- 34, 5, 80), isActive = True\<rparr>"
    and "completedTargets (selectNewTarget zone3 rndEast now S) = completedTargets S"
proof -
  have sel: "selectNewTarget zone3 rndEast now S =
      createSpawnerBlock zone3
        (newCurrentTarget \<lparr>t_x = - 34, t_y = 3, t_z = 80, startTime = now,
            spawnerPosition = None, isActive = True\<rparr> (S\<lparr>randomCalls := 3\<rparr>))"
    using ini by (simp add: selectNewTarget_def findValid_east[OF w reg rc] zone3_simps)
  show "world (selectNewTarget zone3 rndEast now S) =
           (plateauWorld (- 40, 2, 80))\<lparr>blocks :=
              (blocks (plateauWorld (- 40, 2, 80)))((- 34, 5, 80) := Inr (Id 19))\<rparr>"
    unfolding sel
    by (simp add: createSpawnerBlock_def newCurrentTarget_def Let_def w getCurrentHeight_plateau
        setBlock_def chunkLattice_setBlock_def zone3_simps writeFails_plateau)
  show "spawnerPositions (selectNewTarget zone3 rndEast now S) = [(- 40, 2, 80), (- 34, 5, 80)]"
    unfolding sel
    by (simp add: createSpawnerBlock_def newCurrentTarget_def Let_def w getCurrentHeight_plateau
        setBlock_def chunkLattice_setBlock_def zone3_simps reg Set_add_def writeFails_plateau)
  show "currentTarget (selectNewTarget zone3 rndEast now S) = Some (nextRef S)"
    unfolding sel
    by (simp add: createSpawnerBlock_def newCurrentTarget_def Let_def setBlock_def
        split: sum.splits)
  show "targets (selectNewTarget zone3 rndEast now S) (nextRef S) =
           \<lparr>t_x = - 34, t_y = 3, t_z = 80, startTime = now,
            spawnerPosition = Some (- 34, 5, 80), isActive = True\<rparr>"
    unfolding sel
    by (simp add: createSpawnerBlock_def newCurrentTarget_def Let_def w getCurrentHeight_plateau
        setBlock_def zone3_simps split: sum.splits)
  show "completedTargets (selectNewTarget zone3 rndEast now S) = completedTargets S"
    unfolding sel
    by (simp add: createSpawnerBlock_def newCurrentTarget_def Let_def setBlock_def
        split: sum.splits)
qed

lemma freshState_simps:
  "world (freshState c) = flatWorld (fst c, 2, snd c)"
  "targets (freshState c) r = \<lparr>t_x = fst c, t_y = 3, t_z = snd c, startTime = 0,
                       spawnerPosition = Some (fst c, 2, snd c), isActive = True\<rparr>"
  "nextRef (freshState c) = 1" "currentTarget (freshState c) = Some 0"
  "completedTargets (freshState c) = []" "spawnerPositions (freshState c) = [(fst c, 2, snd c)]"
  "hasInitialSpawners (freshState c)" "randomCalls (freshState c) = 0" "console (freshState c) = []"
  by (simp_all add: freshState_def hillState_def)

lemma hasBlockAt_flat:
  "hasBlockAt (flatWorld mk) x y z \<longleftrightarrow> (x, y, z) = mk \<or> y = 0"
  by (simp add: hasBlockAt_def chunkLattice_getBlockId_def flatWorld_def)

lemma writeFails_flat: "\<not> writeFails (flatWorld mk) p"
  by (simp add: flatWorld_def)

lemma getCurrentHeight_flat:
  "getCurrentHeight zone3 (flatWorld (mx, 2, mz)) x z = (if (x, z) = (mx, mz) then 2 else 0)"
  unfolding getCurrentHeight_def
  by (rule height_from_eqI) (auto simp: hasBlockAt_flat zone3_simps split: if_splits)

lemma distanceFromCenter_gt0:
  "distanceFromCenter t x z > 0 \<longleftrightarrow> (x, z) \<noteq> (t_x t, t_z t)"
proof -
  have "0 < (x - t_x t) * (x - t_x t) + (z - t_z t) * (z - t_z t) \<longleftrightarrow> (x, z) \<noteq> (t_x t, t_z t)"
    using sum_squares_gt_zero_iff[of "x - t_x t" "z - t_z t"] by auto
  then show ?thesis by (simp only: distanceFromCenter_gt_0)
qed

lemma distanceFromCenter_center [simp]: "distanceFromCenter t (t_x t) (t_z t) = 0"
  by (simp add: distanceFromCenter_def)

lemma targetHeightAtDistance_center:
  "\<bar>t_y t\<bar> < 2 ^ 53 \<Longrightarrow> targetHeightAtDistance cfg t 0 = t_y t"
  by (simp add: targetHeightAtDistance_def Let_def double_divide_def double_times_def
      double_minus_def to_double_of_int)

lemma targetHeightAtDistance_outside:
  assumes "1 \<le> terraformSize cfg div 2" and "real_of_int (terraformSize cfg div 2) \<le> d"
  shows "targetHeightAtDistance cfg t d = 0"
proof -
  let ?h = "real_of_int (terraformSize cfg div 2)"
  let ?n = "double_divide d ?h"
  have hpos: "0 < ?h" using assms(1) by simp
  then have "real_of_int 1 \<le> d / ?h" using assms(2) by (simp add: le_divide_eq)
  then have n1: "1 \<le> ?n"
    unfolding double_divide_def using to_double_ge_int[of 1 "d / ?h"] by simp
  then have "1 * 1 \<le> ?n * ?n" by (intro mult_mono) simp_all
  then have "real_of_int 1 \<le> ?n * ?n" by simp
  then have "1 \<le> double_times ?n ?n"
    unfolding double_times_def using to_double_ge_int[of 1 "?n * ?n"] by simp
  then have "1 - double_times ?n ?n \<le> real_of_int 0" by simp
  then have "double_minus 1 (double_times ?n ?n) \<le> real_of_int 0"
    unfolding double_minus_def by (intro to_double_le_int) simp_all
  then have "max 0 (double_minus 1 (double_times ?n ?n)) = 0" by simp
  then show ?thesis by (simp add: targetHeightAtDistance_def Let_def double_times_def)
qed

lemma fresh_radius: "currentWaveRadius zone3 (targets (freshState c) 0) 0 = Finite 0"
  by (simp add: currentWaveRadius_finite freshState_simps zone3_simps)

lemma fresh_center_distance:
  "distanceFromCenter (targets (freshState (- 40, 80)) 0) (- 40) 80 = 0"
  using distanceFromCenter_center[of "targets (freshState (- 40, 80)) 0"]
  by (simp add: freshState_simps)

lemma fresh_center_height:
  "targetHeightForPosition zone3 (targets (freshState (- 40, 80)) 0) (- 40) 80 = 3"
  unfolding targetHeightForPosition_def fresh_center_distance
  by (simp add: targetHeightAtDistance_center freshState_simps)

lemma fresh_column_center:
  "world S = flatWorld (- 40, 2, 80) \<Longrightarrow>
   terraformColumn zone3 (targets (freshState (- 40, 80)) 0) (Finite 0) (- 40, 80) (S, m, c)
     = (setBlock S (- 40) 3 80 4, m + 1, False)"
  by (simp add: terraformColumn_def isWithinBounds_iff zone3_simps fresh_center_distance
      fresh_center_height getCurrentHeight_flat)

lemma fresh_column_other:
  "(x, z) \<noteq> (- 40, 80) \<Longrightarrow> isWithinBounds zone3 x z \<Longrightarrow>
   terraformColumn zone3 (targets (freshState (- 40, 80)) 0) (Finite 0) (x, z) (S, m, c)
     = (S, m, False)"
  by (simp add: terraformColumn_def distanceFromCenter_gt0 freshState_simps)

lemma fresh_window:
  "terraformWindow zone3 (targets (freshState (- 40, 80)) 0) =
     List.product [- 44 .. - 37] [76 .. 83]"
  by (simp add: terraformWindow_def freshState_simps zone3_simps)

lemma fresh_loop:
  "terraformLoop zone3 (targets (freshState (- 40, 80)) 0) 0 (freshState (- 40, 80))
     = (setBlock (freshState (- 40, 80)) (- 40) 3 80 4, 1, False)"
  unfolding terraformLoop_def fresh_window fresh_radius
  by (simp add: fresh_column_center fresh_column_other isWithinBounds_iff zone3_simps
      freshState_simps(1))

section \<open>Claims about the growth step\<close>

lemma hill_marker_column:
  "getCurrentHeight zone3 (world (hillState (- 40, 80))) (- 34) 80 = 3 \<and>
   getCurrentHeight zone3 (world (terraformStep zone3 rndEast 21000 (hillState (- 40, 80)))) (- 34) 80 = 5"
proof -
  let ?H = "hillState (- 40, 80)"
  have step: "terraformStep zone3 rndEast 21000 ?H =
     selectNewTarget zone3 rndEast 21000 (?H\<lparr>completedTargets := completedTargets ?H @ [0]\<rparr>)"
    using terraformStep_growth[OF _ _ hill_not_destroyed[of "(- 40, 80)"] hill_loop_complete, of rndEast]
    by (simp add: hillState_simps)
  have w: "world (terraformStep zone3 rndEast 21000 ?H) =
           (plateauWorld (- 40, 2, 80))\<lparr>blocks :=
              (blocks (plateauWorld (- 40, 2, 80)))((- 34, 5, 80) := Inr (Id 19))\<rparr>"
    unfolding step by (rule select_east) (simp_all add: hillState_simps)
  have "getCurrentHeight zone3 (world (terraformStep zone3 rndEast 21000 ?H)) (- 34) 80 = 5"
    unfolding w getCurrentHeight_def
    by (rule height_from_eqI) (auto simp: hasBlockAt_write hasBlockAt_plateau zone3_simps)
  then show ?thesis by (simp add: hillState_simps getCurrentHeight_plateau)
qed

text \<open>C3, as stated, fails for the step as a whole: a step that finds the hill complete
  selects a new target and places its spawner block two levels above the ground of the
  new site. Here the column \<open>(-34, 80)\<close> stands at level \<open>3\<close> before the step and at level \<open>5\<close>
  after it, and its parabolic target height for the target of the step is \<open>0\<close>.\<close>

theorem step_marker_rise_exceeds_cap:
  "column (world (terraformStep zone3 rndEast 21000 (hillState (- 40, 80)))) (- 34) 80
     \<noteq> column (world (hillState (- 40, 80))) (- 34) 80 \<and>
   getCurrentHeight zone3 (world (hillState (- 40, 80))) (- 34) 80 = 3 \<and>
   getCurrentHeight zone3 (world (terraformStep zone3 rndEast 21000 (hillState (- 40, 80)))) (- 34) 80 = 5 \<and>
   targetHeightForPosition zone3 (targets (hillState (- 40, 80)) 0) (- 34) 80 = 0"
proof -
  let ?H = "hillState (- 40, 80)"
  note h = hill_marker_column
  have "column (world (terraformStep zone3 rndEast 21000 ?H)) (- 34) 80
          = column (world ?H) (- 34) 80 \<Longrightarrow> False"
    using getCurrentHeight_column[of "world (terraformStep zone3 rndEast 21000 ?H)" "- 34" 80
        "world ?H" zone3] h by simp
  moreover have "targetHeightForPosition zone3 (targets ?H 0) (- 34) 80 = 0"
  proof -
    have "4 \<le> distanceFromCenter (targets ?H 0) (- 34) 80"
      by (simp add: distanceFromCenter_ge hillState_simps)
    then have "real_of_int (terraformSize zone3 div 2) \<le> distanceFromCenter (targets ?H 0) (- 34) 80"
      by (simp add: zone3_simps)
    then show ?thesis
      unfolding targetHeightForPosition_def
      by (intro targetHeightAtDistance_outside) (simp_all add: zone3_simps)
  qed
  ultimately show ?thesis using h by blast
qed

text \<open>C3, amended. For every column modified by the growth loop of one terraform step
  (the loop over the terraform window, at whatever wave radius), the column's highest
  occupied level after the loop is at most its level before plus \<open>1\<close> and at most the
  column's parabolic target height, and the column belongs to the terraform window; a
  column whose height is already at or above its target height is not modified by the
  loop. (The spawner block that target selection places in the same step is not subject
  to this cap.)\<close>

theorem growth_rise_cap:
  assumes "fold (terraformColumn cfg t r) (terraformWindow cfg t) (s, 0, True)
             = (s1, blocksModified, targetComplete)"
  shows "getCurrentHeight cfg (world s1) x z \<le> getCurrentHeight cfg (world s) x z + 1 \<and>
         (column (world s1) x z \<noteq> column (world s) x z \<longrightarrow>
            getCurrentHeight cfg (world s1) x z \<le> targetHeightForPosition cfg t x z \<and>
            (x, z) \<in> set (terraformWindow cfg t)) \<and>
         (targetHeightForPosition cfg t x z \<le> getCurrentHeight cfg (world s) x z \<longrightarrow>
            column (world s1) x z = column (world s) x z)"
proof -
  let ?r = "r"
  let ?h = "getCurrentHeight cfg (world s) x z"
  have s1: "s1 = fst (fold (terraformColumn cfg t ?r) (terraformWindow cfg t) (s, 0, True))"
    using assms by simp
  have cases: "column (world s1) x z = column (world s) x z \<or>
               raisedColumn cfg t ?r (world s) (world s1) x z"
    unfolding s1
    by (rule fold_terraformColumn_columns[OF distinct_terraformWindow]) simp_all
  have win: "(x, z) \<in> set (terraformWindow cfg t)"
    if "column (world s1) x z \<noteq> column (world s) x z"
    using that fold_terraformColumn_untouched[of x z "terraformWindow cfg t" cfg t ?r s 0 True]
    unfolding s1 by blast
  from cases show ?thesis
  proof
    assume same: "column (world s1) x z = column (world s) x z"
    then have "getCurrentHeight cfg (world s1) x z = ?h" by (rule getCurrentHeight_column)
    with same show ?thesis by simp
  next
    assume r: "raisedColumn cfg t ?r (world s) (world s1) x z"
    let ?w' = "(world s)\<lparr>blocks := (blocks (world s))((x, ?h + 1, z) := Inr (Id (blockTypeId cfg)))\<rparr>"
    from r have below: "?h < targetHeightForPosition cfg t x z"
      and col: "column (world s1) x z = column ?w' x z"
      by (simp_all add: raisedColumn_def column_write_same)
    have "getCurrentHeight cfg (world s1) x z = getCurrentHeight cfg ?w' x z"
      by (rule getCurrentHeight_column[OF col])
    also have "\<dots> = (if blockTypeId cfg \<noteq> 0 \<and> ?h + 1 \<le> targetHeight cfg + 10 then ?h + 1 else ?h)"
      by (rule getCurrentHeight_raise) simp
    finally have "getCurrentHeight cfg (world s1) x z \<le> ?h + 1" by simp
    with below win show ?thesis by auto
  qed
qed

theorem growth_rise_cap_witness:
  "fold (terraformColumn zone3 (targets (freshState (- 40, 80)) 0)
           (currentWaveRadius zone3 (targets (freshState (- 40, 80)) 0) 0))
        (terraformWindow zone3 (targets (freshState (- 40, 80)) 0)) (freshState (- 40, 80), 0, True)
     = (setBlock (freshState (- 40, 80)) (- 40) 3 80 4, 1, False) \<and>
   getCurrentHeight zone3 (world (freshState (- 40, 80))) (- 40) 80 = 2 \<and>
   targetHeightForPosition zone3 (targets (freshState (- 40, 80)) 0) (- 40) 80 = 3 \<and>
   column (world (setBlock (freshState (- 40, 80)) (- 40) 3 80 4)) (- 40) 80
     \<noteq> column (world (freshState (- 40, 80))) (- 40) 80 \<and>
   getCurrentHeight zone3 (world (setBlock (freshState (- 40, 80)) (- 40) 3 80 4)) (- 40) 80 \<le> 3 \<and>
   (- 40, 80) \<in> set (terraformWindow zone3 (targets (freshState (- 40, 80)) 0))"
proof -
  let ?F = "freshState (- 40, 80)"
  let ?S = "setBlock ?F (- 40) 3 80 4"
  have h: "getCurrentHeight zone3 (world ?F) (- 40) 80 = 2"
    by (simp add: freshState_simps getCurrentHeight_flat)
  note th = fresh_center_height
  have ne: "column (world ?S) (- 40) 80 \<noteq> column (world ?F) (- 40) 80"
    by (simp add: setBlock_def chunkLattice_setBlock_def freshState_simps writeFails_flat
        column_def fun_eq_iff flatWorld_def)
  note loop = fresh_loop[unfolded terraformLoop_def]
  from growth_rise_cap[OF loop, of "- 40" 80] ne h th loop show ?thesis by simp
qed

lemma terraformColumn_in_bounds:
  assumes "isWithinBounds cfg x z"
  shows "terraformColumn cfg t r (x, z) (s, m, c) =
           (if number_greater (distanceFromCenter t x z) r then (s, m, False)
            else if targetHeightForPosition cfg t x z < 1 then (s, m, c)
            else if getCurrentHeight cfg (world s) x z < targetHeightForPosition cfg t x z
            then (setBlock s x (getCurrentHeight cfg (world s) x z + 1) z (blockTypeId cfg),
                  m + 1, False)
            else (s, m, c))"
  using assms by (simp add: terraformColumn_def Let_def min_def)

lemma terraformColumn_out_of_bounds:
  "\<not> isWithinBounds cfg x z \<Longrightarrow> terraformColumn cfg t r (x, z) st = st"
  by (cases st) (simp add: terraformColumn_def)

lemma corner_radius:
  "currentWaveRadius zone3 (targets (hillState (- 55, 65)) 0) 17500 = Finite 5"
  by (simp add: currentWaveRadius_finite hillState_simps zone3_simps)

lemma corner_loop_complete:
  "terraformLoop zone3 (targets (hillState (- 55, 65)) 0) 17500 (hillState (- 55, 65))
     = (hillState (- 55, 65), 0, True)"
proof (rule terraformLoop_completeI, clarify)
  fix x z
  let ?t = "targets (hillState (- 55, 65)) 0"
  assume "(x, z) \<in> set (terraformWindow zone3 ?t)" and "isWithinBounds zone3 x z"
  then have x: "- 4 \<le> x + 55" "x + 55 \<le> 3" "0 \<le> x + 55"
    and z: "- 4 \<le> z - 65" "z - 65 \<le> 3" "0 \<le> z - 65"
    by (auto simp: terraformWindow_def hillState_simps zone3_simps isWithinBounds_iff)
  have "(x + 55) * (x + 55) \<le> 3 * 3" "(z - 65) * (z - 65) \<le> 3 * 3"
    using square_bound[of 3 "x + 55"] square_bound[of 3 "z - 65"] x z by simp_all
  then have le: "(x + 55) * (x + 55) + (z - 65) * (z - 65) \<le> 25" by simp
  have d: "\<not> number_greater (distanceFromCenter ?t x z) (currentWaveRadius zone3 ?t 17500)"
    using le unfolding corner_radius by (simp add: distanceFromCenter_gt hillState_simps)
  have "targetHeightForPosition zone3 ?t x z \<le> 3"
    using targetHeightAtDistance_le[of ?t zone3 "distanceFromCenter ?t x z"]
    by (simp add: targetHeightForPosition_def hillState_simps)
  then have "targetHeightForPosition zone3 ?t x z
               \<le> getCurrentHeight zone3 (world (hillState (- 55, 65))) x z"
    by (simp add: hillState_simps getCurrentHeight_plateau)
  with d show "\<not> number_greater (distanceFromCenter ?t x z) (currentWaveRadius zone3 ?t 17500) \<and>
       (targetHeightForPosition zone3 ?t x z < 1 \<or>
        targetHeightForPosition zone3 ?t x z \<le> getCurrentHeight zone3 (world (hillState (- 55, 65))) x z)"
    by simp
qed

text \<open>C1, as stated, fails for a column of the window that is outside the zone: the loop
  skips it before it looks at the wave radius, so it does not mark the step incomplete.
  With the target in the corner \<open>(-55, 65)\<close> of zone 3 and a wave radius of \<open>5\<close>, the window
  column \<open>(-59, 61)\<close> lies beyond the wave, yet visiting it leaves \<open>targetComplete\<close> true and
  the whole loop ends with \<open>targetComplete\<close> true.\<close>

theorem window_column_beyond_wave_not_marked:
  "(- 59, 61) \<in> set (terraformWindow zone3 (targets (hillState (- 55, 65)) 0)) \<and>
   currentWaveRadius zone3 (targets (hillState (- 55, 65)) 0) 17500 = Finite 5 \<and>
   distanceFromCenter (targets (hillState (- 55, 65)) 0) (- 59) 61 > 5 \<and>
   terraformColumn zone3 (targets (hillState (- 55, 65)) 0) (Finite 5) (- 59, 61)
       (hillState (- 55, 65), 0, True)
     = (hillState (- 55, 65), 0, True) \<and>
   terraformLoop zone3 (targets (hillState (- 55, 65)) 0) 17500 (hillState (- 55, 65))
     = (hillState (- 55, 65), 0, True)"
proof -
  let ?t = "targets (hillState (- 55, 65)) 0"
  have "(- 59, 61) \<in> set (terraformWindow zone3 ?t)"
    by (simp add: terraformWindow_def hillState_simps zone3_simps)
  moreover have "distanceFromCenter ?t (- 59) 61 > 5"
    by (simp add: distanceFromCenter_gt hillState_simps)
  moreover have "\<not> isWithinBounds zone3 (- 59) 61"
    by (simp add: isWithinBounds_iff zone3_simps)
  ultimately show ?thesis
    using corner_loop_complete corner_radius by (simp add: terraformColumn_out_of_bounds)
qed

text \<open>The height formula is evaluated in doubles. With the defaults of the constructor
  (\<^verbatim>\<open>targetHeight\<close> \<open>5\<close>, \<^verbatim>\<open>terraformSize\<close> \<open>10\<close>) the column at offset \<open>(1, 2)\<close> from the target gets
  the height \<open>3\<close>: the rounded distance, quotient, square and difference give the multiplier
  \<open>0.7999999999999999\<close> and the product \<open>3.9999999999999996\<close>, whereas the formula over the
  reals gives \<open>\<lfloor>5 * (1 - 5 / 25)\<rfloor> = 4\<close>.\<close>

lemma default_sqrt: "Math_sqrt 5 = 5035177455121576 / 2 ^ 51"
proof -
  have a: "2 powi 1 \<le> \<bar>sqrt 5\<bar>" by (simp add: real_le_rsqrt)
  have b: "\<bar>sqrt 5\<bar> < 2 powi (1 + 1)" by (simp add: real_less_lsqrt)
  have c: "(real_of_int 5035177455121576 - 1 / 2) * 2 powi (1 - 52) < sqrt 5"
    by (rule real_less_rsqrt) (simp add: power2_eq_square)
  have d: "sqrt 5 < (real_of_int 5035177455121576 + 1 / 2) * 2 powi (1 - 52)"
    by (rule real_less_lsqrt) (simp_all add: power2_eq_square)
  from to_double_eqI2[OF a b c d] show ?thesis by (simp add: Math_sqrt_def)
qed

lemma default_normalized:
  "double_divide (5035177455121576 / 2 ^ 51) 5 = 8056283928194522 / 2 ^ 54"
proof -
  let ?x = "5035177455121576 / 2 ^ 51 / (5::real)"
  have a: "2 powi (- 2) \<le> \<bar>?x\<bar>" by simp
  have b: "\<bar>?x\<bar> < 2 powi (- 2 + 1)" by simp
  have c: "(real_of_int 8056283928194522 - 1 / 2) * 2 powi (- 2 - 52) < ?x" by simp
  have d: "?x < (real_of_int 8056283928194522 + 1 / 2) * 2 powi (- 2 - 52)" by simp
  from to_double_eqI2[OF a b c d] show ?thesis by (simp add: double_divide_def)
qed

lemma default_square:
  "double_times (8056283928194522 / 2 ^ 54) (8056283928194522 / 2 ^ 54)
     = 7205759403792795 / 2 ^ 55"
proof -
  let ?x = "(8056283928194522 / 2 ^ 54) * (8056283928194522 / 2 ^ 54 :: real)"
  have a: "2 powi (- 3) \<le> \<bar>?x\<bar>" by simp
  have b: "\<bar>?x\<bar> < 2 powi (- 3 + 1)" by simp
  have c: "(real_of_int 7205759403792795 - 1 / 2) * 2 powi (- 3 - 52) < ?x" by simp
  have d: "?x < (real_of_int 7205759403792795 + 1 / 2) * 2 powi (- 3 - 52)" by simp
  from to_double_eqI2[OF a b c d] show ?thesis by (simp add: double_times_def)
qed

lemma default_multiplier:
  "double_minus 1 (7205759403792795 / 2 ^ 55) = 7205759403792793 / 2 ^ 53"
proof -
  let ?x = "1 - (7205759403792795 / 2 ^ 55 :: real)"
  have a: "2 powi (- 1) \<le> \<bar>?x\<bar>" by simp
  have b: "\<bar>?x\<bar> < 2 powi (- 1 + 1)" by simp
  have c: "(real_of_int 7205759403792793 - 1 / 2) * 2 powi (- 1 - 52) < ?x" by simp
  have d: "?x < (real_of_int 7205759403792793 + 1 / 2) * 2 powi (- 1 - 52)" by simp
  from to_double_eqI2[OF a b c d] show ?thesis by (simp add: double_minus_def)
qed

lemma default_product:
  "double_times 5 (7205759403792793 / 2 ^ 53) = 9007199254740991 / 2 ^ 51"
proof -
  let ?x = "5 * (7205759403792793 / 2 ^ 53 :: real)"
  have a: "2 powi 1 \<le> \<bar>?x\<bar>" by simp
  have b: "\<bar>?x\<bar> < 2 powi (1 + 1)" by simp
  have c: "(real_of_int 9007199254740991 - 1 / 2) * 2 powi (1 - 52) < ?x" by simp
  have d: "?x < (real_of_int 9007199254740991 + 1 / 2) * 2 powi (1 - 52)" by simp
  from to_double_eqI2[OF a b c d] show ?thesis by (simp add: double_times_def)
qed

lemma default_height_rounding:
  "targetHeightForPosition defaultZone defaultTarget 1 2 = 3 \<and>
   \<lfloor>real_of_int (t_y defaultTarget) *
      max 0 (1 - (sqrt 5 / real_of_int (terraformSize defaultZone div 2))\<^sup>2)\<rfloor> = 4"
proof -
  define d nd q hm p :: real
    where "d = 5035177455121576 / 2 ^ 51" and "nd = 8056283928194522 / 2 ^ 54"
      and "q = 7205759403792795 / 2 ^ 55" and "hm = 7205759403792793 / 2 ^ 53"
      and "p = 9007199254740991 / 2 ^ 51"
  have 1: "Math_sqrt 5 = d" unfolding d_def by (rule default_sqrt)
  have 2: "double_divide d 5 = nd" unfolding d_def nd_def by (rule default_normalized)
  have 3: "double_times nd nd = q" unfolding nd_def q_def by (rule default_square)
  have 4: "double_minus 1 q = hm" unfolding q_def hm_def by (rule default_multiplier)
  have 5: "double_times 5 hm = p" unfolding hm_def p_def by (rule default_product)
  have 6: "max 0 hm = hm" unfolding hm_def by simp
  have 7: "\<lfloor>p\<rfloor> = 3" unfolding p_def by (simp add: floor_eq_iff)
  have "targetHeightForPosition defaultZone defaultTarget 1 2 =
          \<lfloor>double_times 5 (max 0 (double_minus 1
             (double_times (double_divide (Math_sqrt 5) 5) (double_divide (Math_sqrt 5) 5))))\<rfloor>"
    by (simp add: targetHeightForPosition_def targetHeightAtDistance_def distanceFromCenter_def
        defaultZone_def defaultTarget_def Let_def)
  also have "\<dots> = 3" by (simp only: 1 2 3 4 5 6 7)
  finally have a: "targetHeightForPosition defaultZone defaultTarget 1 2 = 3" .
  have b: "\<lfloor>real_of_int (t_y defaultTarget) *
      max 0 (1 - (sqrt 5 / real_of_int (terraformSize defaultZone div 2))\<^sup>2)\<rfloor> = 4"
    by (simp add: defaultZone_def defaultTarget_def power_divide)
  from a b show ?thesis ..
qed

lemma terraformWindow_half:
  "(x, z) \<in> set (terraformWindow cfg t) \<Longrightarrow> 1 \<le> terraformSize cfg div 2"
  by (auto simp: terraformWindow_def Let_def)

text \<open>C1, amended. For every target and every in-bounds column \<open>(x, z)\<close> of its terraform
  window, one step computes \<open>currentWaveRadius = stepsElapsed * elevationSpeed\<close> with
  \<open>stepsElapsed = Math.floor((now - startTime) / intervalMs)\<close>, a finite number when the step
  interval is not \<open>0\<close>; with an interval of \<open>0\<close>, a positive speed and time not running
  backwards it is \<^verbatim>\<open>Infinity\<close> or \<^verbatim>\<open>NaN\<close> and no column is beyond the wave. If the distance from
  the column to the target, as the code computes it, exceeds the radius, the column is
  skipped and \<open>targetComplete\<close> is set to false, with no height computed. Otherwise the
  column's target height is \<open>\<lfloor>target.y * max 0 (1 - (distance / halfTerraform)\<^sup>2)\<rfloor>\<close> evaluated
  in doubles, each operation rounded; \<open>halfTerraform\<close> is at least \<open>1\<close> for a column of the
  window, the height is \<open>target.y\<close> at distance \<open>0\<close> (\<open>target.y\<close> an integer below \<open>2\<^sup>5\<^sup>3\<close> in
  magnitude) and below \<open>1\<close> at every distance of at least \<open>halfTerraform\<close>; a column with a
  target height below \<open>1\<close> is left alone and leaves \<open>targetComplete\<close> as it is.\<close>

theorem growth_wave_column:
  assumes "(x, z) \<in> set (terraformWindow cfg t)" and "isWithinBounds cfg x z"
  shows "stepsElapsed cfg t now =
           Math_floor (number_divide (real_of_int (now - startTime t))
                                     (real_of_int (intervalMs cfg))) \<and>
         currentWaveRadius cfg t now =
           number_times (stepsElapsed cfg t now) (elevationSpeed cfg) \<and>
         (intervalMs cfg \<noteq> 0 \<longrightarrow>
            currentWaveRadius cfg t now =
              Finite (to_double (real_of_int
                 \<lfloor>to_double (real_of_int (now - startTime t) / real_of_int (intervalMs cfg))\<rfloor>
                   * elevationSpeed cfg))) \<and>
         (intervalMs cfg = 0 \<and> startTime t \<le> now \<and> 0 < elevationSpeed cfg \<longrightarrow>
            \<not> number_greater (distanceFromCenter t x z) (currentWaveRadius cfg t now)) \<and>
         terraformLoop cfg t now s =
           fold (terraformColumn cfg t (currentWaveRadius cfg t now)) (terraformWindow cfg t)
             (s, 0, True) \<and>
         distanceFromCenter t x z = Math_sqrt (real_of_int ((x - t_x t)\<^sup>2 + (z - t_z t)\<^sup>2)) \<and>
         (number_greater (distanceFromCenter t x z) r \<longrightarrow>
            terraformColumn cfg t r (x, z) (s, m, c) = (s, m, False)) \<and>
         targetHeightForPosition cfg t x z =
           \<lfloor>double_times (real_of_int (t_y t))
              (max 0 (double_minus 1
                 (double_times
                    (double_divide (distanceFromCenter t x z)
                       (real_of_int (terraformSize cfg div 2)))
                    (double_divide (distanceFromCenter t x z)
                       (real_of_int (terraformSize cfg div 2))))))\<rfloor> \<and>
         (\<not> number_greater (distanceFromCenter t x z) r \<longrightarrow>
            terraformColumn cfg t r (x, z) (s, m, c) =
              (if targetHeightForPosition cfg t x z < 1 then (s, m, c)
               else if getCurrentHeight cfg (world s) x z < targetHeightForPosition cfg t x z
               then (setBlock s x (getCurrentHeight cfg (world s) x z + 1) z (blockTypeId cfg),
                     m + 1, False)
               else (s, m, c))) \<and>
         1 \<le> terraformSize cfg div 2 \<and>
         (distanceFromCenter t x z = 0 \<and> \<bar>t_y t\<bar> < 2 ^ 53 \<longrightarrow>
            targetHeightForPosition cfg t x z = t_y t) \<and>
         (real_of_int (terraformSize cfg div 2) \<le> distanceFromCenter t x z \<longrightarrow>
            targetHeightForPosition cfg t x z < 1 \<and>
            (\<not> number_greater (distanceFromCenter t x z) r \<longrightarrow>
               terraformColumn cfg t r (x, z) (s, m, c) = (s, m, c)))"
proof -
  note col = terraformColumn_in_bounds[OF assms(2), of t r s m c]
  note half = terraformWindow_half[OF assms(1)]
  have a1: "stepsElapsed cfg t now =
           Math_floor (number_divide (real_of_int (now - startTime t))
                                     (real_of_int (intervalMs cfg)))"
    by (simp add: stepsElapsed_def Let_def)
  have a2: "currentWaveRadius cfg t now =
           number_times (stepsElapsed cfg t now) (elevationSpeed cfg)"
    by (simp add: currentWaveRadius_def)
  have a3: "currentWaveRadius cfg t now =
              Finite (to_double (real_of_int
                 \<lfloor>to_double (real_of_int (now - startTime t) / real_of_int (intervalMs cfg))\<rfloor>
                   * elevationSpeed cfg))" if "intervalMs cfg \<noteq> 0"
    using that by (rule currentWaveRadius_finite)
  have a4: "\<not> number_greater (distanceFromCenter t x z) (currentWaveRadius cfg t now)"
    if "intervalMs cfg = 0" "startTime t \<le> now" "0 < elevationSpeed cfg"
    using that
    by (simp add: currentWaveRadius_def stepsElapsed_def number_divide_def Math_floor_def
        number_times_def Let_def)
  have b: "terraformLoop cfg t now s =
           fold (terraformColumn cfg t (currentWaveRadius cfg t now)) (terraformWindow cfg t)
             (s, 0, True)"
    by (simp add: terraformLoop_def)
  have d: "distanceFromCenter t x z = Math_sqrt (real_of_int ((x - t_x t)\<^sup>2 + (z - t_z t)\<^sup>2))"
    by (simp add: distanceFromCenter_def Let_def power2_eq_square)
  have th: "targetHeightForPosition cfg t x z =
           \<lfloor>double_times (real_of_int (t_y t))
              (max 0 (double_minus 1
                 (double_times
                    (double_divide (distanceFromCenter t x z)
                       (real_of_int (terraformSize cfg div 2)))
                    (double_divide (distanceFromCenter t x z)
                       (real_of_int (terraformSize cfg div 2))))))\<rfloor>"
    by (simp add: targetHeightForPosition_def targetHeightAtDistance_def Let_def)
  have e: "number_greater (distanceFromCenter t x z) r \<longrightarrow>
            terraformColumn cfg t r (x, z) (s, m, c) = (s, m, False)"
    using col by simp
  have f: "\<not> number_greater (distanceFromCenter t x z) r \<longrightarrow>
            terraformColumn cfg t r (x, z) (s, m, c) =
              (if targetHeightForPosition cfg t x z < 1 then (s, m, c)
               else if getCurrentHeight cfg (world s) x z < targetHeightForPosition cfg t x z
               then (setBlock s x (getCurrentHeight cfg (world s) x z + 1) z (blockTypeId cfg),
                     m + 1, False)
               else (s, m, c))"
    using col by simp
  have g: "targetHeightForPosition cfg t x z = t_y t"
    if "distanceFromCenter t x z = 0" "\<bar>t_y t\<bar> < 2 ^ 53"
    using targetHeightAtDistance_center[OF that(2), of cfg] that(1)
    by (simp add: targetHeightForPosition_def)
  have h: "targetHeightForPosition cfg t x z < 1"
    if "real_of_int (terraformSize cfg div 2) \<le> distanceFromCenter t x z"
    using targetHeightAtDistance_outside[OF half that, of t]
    by (simp add: targetHeightForPosition_def)
  have i: "terraformColumn cfg t r (x, z) (s, m, c) = (s, m, c)"
    if "real_of_int (terraformSize cfg div 2) \<le> distanceFromCenter t x z"
       "\<not> number_greater (distanceFromCenter t x z) r"
    using h[OF that(1)] that(2) col by simp
  show ?thesis
    using a1 a2 a3 a4 b d th e f half g h i by blast
qed

theorem growth_wave_column_witness:
  "(- 40, 80) \<in> set (terraformWindow zone3 (targets (freshState (- 40, 80)) 0)) \<and>
   (- 39, 80) \<in> set (terraformWindow zone3 (targets (freshState (- 40, 80)) 0)) \<and>
   (- 44, 80) \<in> set (terraformWindow zone3 (targets (freshState (- 40, 80)) 0)) \<and>
   isWithinBounds zone3 (- 40) 80 \<and>
   intervalMs zone3 \<noteq> 0 \<and>
   currentWaveRadius zone3 (targets (freshState (- 40, 80)) 0) 0 = Finite 0 \<and>
   distanceFromCenter (targets (freshState (- 40, 80)) 0) (- 40) 80 = 0 \<and>
   \<bar>t_y (targets (freshState (- 40, 80)) 0)\<bar> < 2 ^ 53 \<and>
   targetHeightForPosition zone3 (targets (freshState (- 40, 80)) 0) (- 40) 80 = 3 \<and>
   terraformColumn zone3 (targets (freshState (- 40, 80)) 0) (Finite 0) (- 40, 80)
       (freshState (- 40, 80), 0, True)
     = (setBlock (freshState (- 40, 80)) (- 40) 3 80 4, 1, False) \<and>
   isWithinBounds zone3 (- 39) 80 \<and>
   number_greater (distanceFromCenter (targets (freshState (- 40, 80)) 0) (- 39) 80) (Finite 0) \<and>
   terraformColumn zone3 (targets (freshState (- 40, 80)) 0) (Finite 0) (- 39, 80)
       (freshState (- 40, 80), 0, True)
     = (freshState (- 40, 80), 0, False) \<and>
   1 \<le> terraformSize zone3 div 2 \<and>
   isWithinBounds zone3 (- 44) 80 \<and>
   real_of_int (terraformSize zone3 div 2)
     \<le> distanceFromCenter (targets (freshState (- 40, 80)) 0) (- 44) 80 \<and>
   \<not> number_greater (distanceFromCenter (targets (freshState (- 40, 80)) 0) (- 44) 80) (Finite 4) \<and>
   targetHeightForPosition zone3 (targets (freshState (- 40, 80)) 0) (- 44) 80 < 1 \<and>
   terraformColumn zone3 (targets (freshState (- 40, 80)) 0) (Finite 4) (- 44, 80)
       (freshState (- 40, 80), 0, True)
     = (freshState (- 40, 80), 0, True) \<and>
   intervalMs (zone3\<lparr>intervalMs := 0\<rparr>) = 0 \<and>
   startTime (targets (freshState (- 40, 80)) 0) \<le> 3500 \<and>
   0 < elevationSpeed (zone3\<lparr>intervalMs := 0\<rparr>) \<and>
   currentWaveRadius (zone3\<lparr>intervalMs := 0\<rparr>) (targets (freshState (- 40, 80)) 0) 3500
     = PosInfinity \<and>
   \<not> number_greater (distanceFromCenter (targets (freshState (- 40, 80)) 0) (- 44) 80)
       (currentWaveRadius (zone3\<lparr>intervalMs := 0\<rparr>) (targets (freshState (- 40, 80)) 0) 3500)"
proof -
  let ?F = "freshState (- 40, 80)"
  let ?t = "targets ?F 0"
  let ?z = "zone3\<lparr>intervalMs := 0\<rparr>"
  have b1: "isWithinBounds zone3 (- 40) 80" and b2: "isWithinBounds zone3 (- 39) 80"
    and b3: "isWithinBounds zone3 (- 44) 80"
    by (simp_all add: isWithinBounds_iff zone3_simps)
  have iv: "intervalMs zone3 \<noteq> 0" by (simp add: zone3_simps)
  note d1 = fresh_center_distance
  have ty: "\<bar>t_y ?t\<bar> < 2 ^ 53" "t_y ?t = 3" "blockTypeId zone3 = 4"
    by (simp_all add: freshState_simps zone3_simps)
  have d2: "number_greater (distanceFromCenter ?t (- 39) 80) (Finite 0)"
    by (simp add: distanceFromCenter_gt0 freshState_simps)
  have d3: "real_of_int (terraformSize zone3 div 2) \<le> distanceFromCenter ?t (- 44) 80"
    by (simp add: distanceFromCenter_ge freshState_simps zone3_simps)
  have d4: "\<not> number_greater (distanceFromCenter ?t (- 44) 80) (Finite 4)"
    by (simp add: distanceFromCenter_gt freshState_simps)
  have h: "getCurrentHeight zone3 (world ?F) (- 40) 80 = 2"
    by (simp add: freshState_simps getCurrentHeight_flat)
  have w1: "(- 40, 80) \<in> set (terraformWindow zone3 ?t)"
    and w2: "(- 39, 80) \<in> set (terraformWindow zone3 ?t)"
    and w3: "(- 44, 80) \<in> set (terraformWindow zone3 ?t)"
    by (simp_all add: terraformWindow_def freshState_simps zone3_simps)
  have z0: "intervalMs ?z = 0" and z1: "startTime ?t \<le> 3500" and z2: "0 < elevationSpeed ?z"
    by (simp_all add: freshState_simps zone3_simps)
  have zw: "(- 44, 80) \<in> set (terraformWindow ?z ?t)" and zb: "isWithinBounds ?z (- 44) 80"
    by (simp_all add: terraformWindow_def isWithinBounds_iff freshState_simps zone3_simps)
  have zr: "currentWaveRadius ?z ?t 3500 = PosInfinity"
    by (simp add: currentWaveRadius_def stepsElapsed_def number_divide_def Math_floor_def
        number_times_def Let_def freshState_simps zone3_simps)
  note t1 = growth_wave_column[OF w1 b1, where now=0 and s="?F" and r="Finite 0" and m=0 and c=True]
  note t2 = growth_wave_column[OF w2 b2, where now=0 and s="?F" and r="Finite 0" and m=0 and c=True]
  note t3 = growth_wave_column[OF w3 b3, where now=0 and s="?F" and r="Finite 4" and m=0 and c=True]
  note t4 = growth_wave_column[OF zw zb, where now=3500 and s="?F" and r="Finite 4" and m=0 and c=True]
  from t1 iv have "currentWaveRadius zone3 ?t 0 =
      Finite (to_double (real_of_int
         \<lfloor>to_double (real_of_int (0 - startTime ?t) / real_of_int (intervalMs zone3))\<rfloor>
           * elevationSpeed zone3))"
    by blast
  then have r0: "currentWaveRadius zone3 ?t 0 = Finite 0"
    by (simp add: freshState_simps zone3_simps)
  from t1 d1 ty(1) have "targetHeightForPosition zone3 ?t (- 40) 80 = t_y ?t" by blast
  with ty(2) have c1a: "targetHeightForPosition zone3 ?t (- 40) 80 = 3" by simp
  have n1: "\<not> number_greater (distanceFromCenter ?t (- 40) 80) (Finite 0)"
    by (simp add: d1)
  from t1 n1 have "terraformColumn zone3 ?t (Finite 0) (- 40, 80) (?F, 0, True) =
      (if targetHeightForPosition zone3 ?t (- 40) 80 < 1 then (?F, 0, True)
       else if getCurrentHeight zone3 (world ?F) (- 40) 80 < targetHeightForPosition zone3 ?t (- 40) 80
       then (setBlock ?F (- 40) (getCurrentHeight zone3 (world ?F) (- 40) 80 + 1) 80 (blockTypeId zone3),
             0 + 1, False)
       else (?F, 0, True))"
    by blast
  then have c1b: "terraformColumn zone3 ?t (Finite 0) (- 40, 80) (?F, 0, True)
               = (setBlock ?F (- 40) 3 80 4, 1, False)"
    by (simp add: c1a h ty(3))
  from t2 d2 have c2: "terraformColumn zone3 ?t (Finite 0) (- 39, 80) (?F, 0, True) = (?F, 0, False)"
    by blast
  from t3 have half: "1 \<le> terraformSize zone3 div 2" by blast
  from t3 d3 d4 have c3a: "targetHeightForPosition zone3 ?t (- 44) 80 < 1"
    and c3b: "terraformColumn zone3 ?t (Finite 4) (- 44, 80) (?F, 0, True) = (?F, 0, True)"
    by blast+
  from t4 z0 z1 z2
  have c4: "\<not> number_greater (distanceFromCenter ?t (- 44) 80) (currentWaveRadius ?z ?t 3500)"
    by blast
  show ?thesis
    by (intro conjI)
       (rule w1 w2 w3 b1 iv r0 d1 ty(1) c1a c1b b2 d2 c2 half b3 d3 d4 c3a c3b z0 z1 z2 zr c4)+
qed

section \<open>The spreading search\<close>

lemma isValidSpawnerPosition_iff:
  "isValidSpawnerPosition cfg s x z \<longleftrightarrow>
     isWithinBounds cfg x z \<and>
     (\<forall>spawner \<in> set (getActiveSpawnerPositions cfg s). 5 \<le> spawnerDistance x z spawner) \<and>
     (\<exists>spawner \<in> set (getActiveSpawnerPositions cfg s).
        spawnerDistance x z spawner \<le> spawnerSpreadRadius cfg)"
  by (simp add: isValidSpawnerPosition_def Let_def list_ex_iff) (meson not_less)

lemma findValidSpawnerPosition_loop_result:
  "findValidSpawnerPosition_loop cfg rnd s activeSpawners a i = (site, attempts, i') \<Longrightarrow>
     a \<le> 50 \<Longrightarrow>
     a \<le> attempts \<and> attempts \<le> 50 \<and> i \<le> i' \<and> i' \<le> i + 3 * (attempts - a) \<and>
     (site = None \<longrightarrow> attempts = 50) \<and>
     (\<forall>x z. site = Some (x, z) \<longrightarrow> isValidSpawnerPosition cfg s x z \<and> a < attempts)"
proof (induction cfg rnd s activeSpawners a i rule: findValidSpawnerPosition_loop.induct)
  case (1 cfg rnd s activeSpawners attempts0 i)
  show ?case
  proof (cases "attempts0 < 50")
    case False
    with "1.prems" show ?thesis
      by (simp add: findValidSpawnerPosition_loop.simps[of cfg rnd s activeSpawners attempts0 i])
  next
    case True
    let ?k = "\<lfloor>rnd i * real (length activeSpawners)\<rfloor>"
    show ?thesis
    proof (cases "?k < 0 \<or> int (length activeSpawners) \<le> ?k")
      case skip: True
      from "1.prems"(1) True skip
      have rec: "findValidSpawnerPosition_loop cfg rnd s activeSpawners (attempts0 + 1) (i + 1)
                   = (site, attempts, i')"
        by (simp add: findValidSpawnerPosition_loop.simps[of cfg rnd s activeSpawners attempts0 i])
      from "1.IH"(1)[OF True refl skip rec] True show ?thesis by auto
    next
      case pick: False
      let ?src = "activeSpawners ! nat ?k"
      let ?angle = "rnd (i + 1) * pi * 2"
      let ?dist = "rnd (i + 2) * spawnerSpreadRadius cfg"
      let ?newX = "Math_round (real_of_int (fst ?src) + cos ?angle * ?dist)"
      let ?newZ = "Math_round (real_of_int (snd (snd ?src)) + sin ?angle * ?dist)"
      show ?thesis
      proof (cases "isValidSpawnerPosition cfg s ?newX ?newZ")
        case valid: True
        from "1.prems"(1) True pick valid
        have "(site, attempts, i') = (Some (?newX, ?newZ), attempts0 + 1, i + 3)"
          by (simp add: findValidSpawnerPosition_loop.simps[of cfg rnd s activeSpawners attempts0 i]
              Let_def)
        with valid True show ?thesis by auto
      next
        case invalid: False
        from "1.prems"(1) True pick invalid
        have rec: "findValidSpawnerPosition_loop cfg rnd s activeSpawners (attempts0 + 1) (i + 3)
                     = (site, attempts, i')"
          by (simp add: findValidSpawnerPosition_loop.simps[of cfg rnd s activeSpawners attempts0 i]
              Let_def)
        from "1.IH"(2)[OF True refl pick refl refl refl refl refl invalid rec] True
        show ?thesis by auto
      qed
    qed
  qed
qed

lemma loop_rndZero_fails:
  assumes "\<not> isValidSpawnerPosition cfg s (fst sp) (snd (snd sp))"
  shows "findValidSpawnerPosition_loop cfg rndZero s [sp] a i = (None, max a 50, i + 3 * (50 - a))"
proof (induction "50 - a" arbitrary: a i)
  case 0
  then show ?case
    by (simp add: findValidSpawnerPosition_loop.simps[of cfg rndZero s "[sp]" a i] max_def)
next
  case (Suc n)
  then have lt: "a < 50" and n: "n = 50 - (a + 1)" by simp_all
  have rec: "findValidSpawnerPosition_loop cfg rndZero s [sp] (a + 1) (i + 3)
               = (None, max (a + 1) 50, i + 3 + 3 * (50 - (a + 1)))"
    by (rule Suc.hyps(1)[OF n])
  have "findValidSpawnerPosition_loop cfg rndZero s [sp] a i
          = findValidSpawnerPosition_loop cfg rndZero s [sp] (a + 1) (i + 3)"
    using lt assms
    by (subst findValidSpawnerPosition_loop.simps)
       (simp add: rndZero_def Let_def Math_round_of_int)
  with rec lt show ?case by (simp add: max_def)
qed

lemma loop_zeros_fail:
  assumes "\<not> isValidSpawnerPosition cfg s (fst sp) (snd (snd sp))"
      and "\<forall>j. i \<le> j \<and> j < i + 3 * (50 - a) \<longrightarrow> rnd j = 0"
  shows "findValidSpawnerPosition_loop cfg rnd s [sp] a i = (None, max a 50, i + 3 * (50 - a))"
  using assms(2)
proof (induction "50 - a" arbitrary: a i)
  case 0
  then show ?case
    by (simp add: findValidSpawnerPosition_loop.simps[of cfg rnd s "[sp]" a i] max_def)
next
  case (Suc n)
  then have lt: "a < 50" and n: "n = 50 - (a + 1)" by simp_all
  have z: "rnd i = 0" "rnd (Suc i) = 0" "rnd (Suc (Suc i)) = 0"
    using Suc.prems lt by simp_all
  have "\<forall>j. i + 3 \<le> j \<and> j < i + 3 + 3 * (50 - (a + 1)) \<longrightarrow> rnd j = 0"
    using Suc.prems lt by auto
  from Suc.hyps(1)[OF n this]
  have rec: "findValidSpawnerPosition_loop cfg rnd s [sp] (a + 1) (i + 3)
               = (None, max (a + 1) 50, i + 3 + 3 * (50 - (a + 1)))" .
  have "findValidSpawnerPosition_loop cfg rnd s [sp] a i
          = findValidSpawnerPosition_loop cfg rnd s [sp] (a + 1) (i + 3)"
    using lt assms(1)
    by (subst findValidSpawnerPosition_loop.simps)
       (simp add: z Let_def Math_round_of_int)
  with rec lt show ?case by (simp add: max_def)
qed

lemma select_no_site:
  assumes "hasInitialSpawners s" and "fst (findValidSpawnerPosition cfg rnd s) = None"
  shows "currentTarget (selectNewTarget cfg rnd now s) = currentTarget s \<and>
         targets (selectNewTarget cfg rnd now s) = targets s \<and>
         nextRef (selectNewTarget cfg rnd now s) = nextRef s \<and>
         completedTargets (selectNewTarget cfg rnd now s) = completedTargets s \<and>
         spawnerPositions (selectNewTarget cfg rnd now s) = spawnerPositions s \<and>
         world (selectNewTarget cfg rnd now s) = world s"
proof -
  obtain s1 where f: "findValidSpawnerPosition cfg rnd s = (None, s1)"
    using assms(2) by (cases "findValidSpawnerPosition cfg rnd s") auto
  then have "s1 = s\<lparr>console := console s @ [WarnNoActiveSpawners]\<rparr> \<or>
             (\<exists>i. s1 = s\<lparr>randomCalls := i\<rparr>)"
    by (auto simp: findValidSpawnerPosition_def Let_def split: if_splits prod.splits)
  moreover have "selectNewTarget cfg rnd now s = s1"
    using assms(1) f by (simp add: selectNewTarget_def)
  ultimately show ?thesis by auto
qed


section \<open>Initial spawner placement\<close>

lemma setBlock_frame:
  "spawnerPositions (setBlock s x y z b) = spawnerPositions s"
  "currentTarget (setBlock s x y z b) = currentTarget s"
  "targets (setBlock s x y z b) = targets s"
  "nextRef (setBlock s x y z b) = nextRef s"
  "completedTargets (setBlock s x y z b) = completedTargets s"
  "hasInitialSpawners (setBlock s x y z b) = hasInitialSpawners s"
  "randomCalls (setBlock s x y z b) = randomCalls s"
  by (simp_all add: setBlock_def split: sum.splits)

lemma set_Set_add: "set (Set_add k ks) = insert k (set ks)"
  by (auto simp: Set_add_def)

lemma createInitialSpawner_out:
  "\<not> isWithinBounds cfg x z \<Longrightarrow>
     createInitialSpawner cfg (x, z) s = s\<lparr>console := console s @ [WarnOutsideBounds x z]\<rparr>"
  by (simp add: createInitialSpawner_def)

lemma createInitialSpawner_in:
  "isWithinBounds cfg x z \<Longrightarrow>
     createInitialSpawner cfg (x, z) s =
       (setBlock s x (max (getCurrentHeight cfg (world s) x z + 2) 2) z (spawnerBlockId cfg))
         \<lparr>spawnerPositions :=
            Set_add (x, max (getCurrentHeight cfg (world s) x z + 2) 2, z) (spawnerPositions s)\<rparr>"
  by (simp add: createInitialSpawner_def Let_def setBlock_frame)

lemma createInitialSpawner_registry_mono:
  "set (spawnerPositions s) \<subseteq> set (spawnerPositions (createInitialSpawner cfg p s))"
  by (cases p) (auto simp: createInitialSpawner_def Let_def set_Set_add setBlock_frame)

lemma createInitialSpawner_console_mono:
  "set (console s) \<subseteq> set (console (createInitialSpawner cfg p s))"
  by (cases p) (auto simp: createInitialSpawner_def Let_def setBlock_def split: sum.splits)

lemma fold_createInitialSpawner_mono:
  "set (spawnerPositions s) \<subseteq> set (spawnerPositions (fold (createInitialSpawner cfg) ps s)) \<and>
   set (console s) \<subseteq> set (console (fold (createInitialSpawner cfg) ps s))"
proof (induction ps arbitrary: s)
  case Nil
  show ?case by simp
next
  case (Cons p ps)
  from Cons.IH[of "createInitialSpawner cfg p s"]
    createInitialSpawner_registry_mono[of s cfg p] createInitialSpawner_console_mono[of s cfg p]
  show ?case by auto
qed

lemma fold_createInitialSpawner_points:
  "(x, z) \<in> set ps \<Longrightarrow>
     (if isWithinBounds cfg x z
      then \<exists>y. (x, y, z) \<in> set (spawnerPositions (fold (createInitialSpawner cfg) ps s))
      else WarnOutsideBounds x z \<in> set (console (fold (createInitialSpawner cfg) ps s)))"
proof (induction ps arbitrary: s)
  case Nil
  then show ?case by simp
next
  case (Cons p ps)
  let ?s1 = "createInitialSpawner cfg p s"
  show ?case
  proof (cases "(x, z) \<in> set ps")
    case True
    from Cons.IH[OF True, of ?s1] show ?thesis by simp
  next
    case False
    with Cons.prems have p: "p = (x, z)" by simp
    show ?thesis
    proof (cases "isWithinBounds cfg x z")
      case True
      then have "(x, max (getCurrentHeight cfg (world s) x z + 2) 2, z) \<in> set (spawnerPositions ?s1)"
        by (simp add: p createInitialSpawner_in set_Set_add)
      with fold_createInitialSpawner_mono[of ?s1 cfg ps] True show ?thesis by auto
    next
      case False
      then have "WarnOutsideBounds x z \<in> set (console ?s1)"
        by (simp add: p createInitialSpawner_out)
      with fold_createInitialSpawner_mono[of ?s1 cfg ps] False show ?thesis by auto
    qed
  qed
qed

lemma createInitialSpawners_unfold:
  "createInitialSpawners cfg now s =
     (let s2 = (fold (createInitialSpawner cfg) (initialSpawnPoints cfg) s)\<lparr>hasInitialSpawners := True\<rparr>
      in case initialSpawnPoints cfg of
           [] \<Rightarrow> s2
         | (fx, fz) # rest \<Rightarrow>
             if isWithinBounds cfg fx fz
             then s2\<lparr>targets := (targets s2)(nextRef s2 :=
                        \<lparr>t_x = fx, t_y = targetHeight cfg, t_z = fz, startTime = now,
                         spawnerPosition = findSpawnerPositionAt cfg s2 fx fz, isActive = True\<rparr>),
                     currentTarget := Some (nextRef s2), nextRef := Suc (nextRef s2)\<rparr>
             else s2)"
  by (simp add: createInitialSpawners_def newCurrentTarget_def Let_def split: list.splits prod.splits)

lemma createInitialSpawners_single:
  assumes pts: "initialSpawnPoints cfg = [(x, z)]" and inb: "isWithinBounds cfg x z"
      and reg: "spawnerPositions s = []"
      and ok: "\<not> writeFails (world s) (x, max (getCurrentHeight cfg (world s) x z + 2) 2, z)"
  shows "currentTarget (createInitialSpawners cfg now s) = Some (nextRef s) \<and>
         targets (createInitialSpawners cfg now s) (nextRef s) =
           \<lparr>t_x = x, t_y = targetHeight cfg, t_z = z, startTime = now,
            spawnerPosition = Some (x, max (getCurrentHeight cfg (world s) x z + 2) 2, z),
            isActive = True\<rparr> \<and>
         spawnerPositions (createInitialSpawners cfg now s)
           = [(x, max (getCurrentHeight cfg (world s) x z + 2) 2, z)] \<and>
         world (createInitialSpawners cfg now s) =
           (world s)\<lparr>blocks := (blocks (world s))
              ((x, max (getCurrentHeight cfg (world s) x z + 2) 2, z) := Inr (Id (spawnerBlockId cfg)))\<rparr>"
  using inb ok
  by (simp add: createInitialSpawners_unfold pts createInitialSpawner_in reg Set_add_def
      setBlock_def chunkLattice_setBlock_def findSpawnerPositionAt_def getActiveSpawnerPositions_def
      getSpawnerPositions_def isSpawnerBlockPresent_def chunkLattice_getBlockId_def Let_def)

lemma hasBlockAt_ground: "hasBlockAt groundWorld x y z \<longleftrightarrow> y = 0"
  by (simp add: hasBlockAt_def chunkLattice_getBlockId_def groundWorld_def)

lemma getCurrentHeight_ground: "getCurrentHeight zone3 groundWorld x z = 0"
  unfolding getCurrentHeight_def
  by (rule height_from_eqI) (auto simp: hasBlockAt_ground zone3_simps)

lemma initialState_simps:
  "world (initialState w) = w" "nextRef (initialState w) = 0"
  "currentTarget (initialState w) = None" "completedTargets (initialState w) = []"
  "spawnerPositions (initialState w) = []" "\<not> hasInitialSpawners (initialState w)"
  "randomCalls (initialState w) = 0" "console (initialState w) = []"
  by (simp_all add: initialState_def)

lemma zone3TwoPoints_simps:
  "centerX zone3TwoPoints = - 40" "centerZ zone3TwoPoints = 80" "size_opt zone3TwoPoints = 30"
  "targetHeight zone3TwoPoints = 3" "spawnerBlockId zone3TwoPoints = 19"
  "initialSpawnPoints zone3TwoPoints = [(100, 100), (- 40, 80)]"
  by (simp_all add: zone3TwoPoints_def zone3_def)

lemma getCurrentHeight_targetHeight:
  "targetHeight cfg' = targetHeight cfg \<Longrightarrow> getCurrentHeight cfg' w x z = getCurrentHeight cfg w x z"
  by (simp add: getCurrentHeight_def)

text \<open>C5, as stated, fails in its last part when the first configured point is outside the
  zone: the pass binds a target only from the point at index \<open>0\<close>. With the points
  \<open>[(100, 100), (-40, 80)]\<close> the marker of the first valid point \<open>(-40, 80)\<close> is placed and
  registered, but no current target is bound.\<close>

theorem first_valid_point_not_bound:
  "\<not> isWithinBounds zone3TwoPoints 100 100 \<and> isWithinBounds zone3TwoPoints (- 40) 80 \<and>
   spawnerPositions (createInitialSpawners zone3TwoPoints 0 (initialState groundWorld))
     = [(- 40, 2, 80)] \<and>
   isSpawnerBlockPresent zone3TwoPoints
     (world (createInitialSpawners zone3TwoPoints 0 (initialState groundWorld))) (- 40, 2, 80) \<and>
   console (createInitialSpawners zone3TwoPoints 0 (initialState groundWorld))
     = [WarnOutsideBounds 100 100] \<and>
   hasInitialSpawners (createInitialSpawners zone3TwoPoints 0 (initialState groundWorld)) \<and>
   currentTarget (createInitialSpawners zone3TwoPoints 0 (initialState groundWorld)) = None \<and>
   terraformStep zone3TwoPoints rndEast 0 (initialState groundWorld)
     = createInitialSpawners zone3TwoPoints 0 (initialState groundWorld)"
proof -
  have out: "\<not> isWithinBounds zone3TwoPoints 100 100"
    and inb: "isWithinBounds zone3TwoPoints (- 40) 80"
    by (simp_all add: isWithinBounds_iff zone3TwoPoints_simps)
  have h: "getCurrentHeight zone3TwoPoints groundWorld (- 40) 80 = 0"
    using getCurrentHeight_targetHeight[of zone3TwoPoints zone3] getCurrentHeight_ground
    by (simp add: zone3TwoPoints_simps zone3_simps)
  have wf: "\<not> writeFails groundWorld p" for p by (simp add: groundWorld_def)
  have st: "terraformStep zone3TwoPoints rndEast 0 (initialState groundWorld)
     = createInitialSpawners zone3TwoPoints 0 (initialState groundWorld)"
    by (simp add: terraformStep_def selectNewTarget_def initialState_simps)
  show ?thesis
    using out inb st
    by (simp add: createInitialSpawners_unfold zone3TwoPoints_simps createInitialSpawner_out
        createInitialSpawner_in initialState_simps h setBlock_def chunkLattice_setBlock_def wf
        Set_add_def isSpawnerBlockPresent_def chunkLattice_getBlockId_def)
qed

text \<open>C5, amended. During initial spawner placement every configured point that is out of
  bounds is skipped with a warning; every in-bounds point has \<^verbatim>\<open>setBlock\<close> called for the
  spawner block at \<open>(x, max (groundHeight + 2) 2, z)\<close>, with \<open>groundHeight\<close> the column's current
  highest occupied level, and its key registered; and after all points are processed, the
  first configured point (index \<open>0\<close>), if it is in bounds, becomes the current target with
  the configured target elevation, bound to the live registered spawner of its column (for
  a single in-bounds point on an empty registry whose write succeeds: the marker just
  placed). If the first configured point is out of bounds, the pass binds no target.\<close>

theorem initial_spawner_placement:
  "(\<forall>(x, z) \<in> set (initialSpawnPoints cfg).
      if isWithinBounds cfg x z
      then \<exists>y. (x, y, z) \<in> set (spawnerPositions (createInitialSpawners cfg now s))
      else WarnOutsideBounds x z \<in> set (console (createInitialSpawners cfg now s))) \<and>
   (\<not> isWithinBounds cfg x z \<longrightarrow>
      createInitialSpawner cfg (x, z) s = s\<lparr>console := console s @ [WarnOutsideBounds x z]\<rparr>) \<and>
   (isWithinBounds cfg x z \<longrightarrow>
      createInitialSpawner cfg (x, z) s =
        (setBlock s x (max (getCurrentHeight cfg (world s) x z + 2) 2) z (spawnerBlockId cfg))
          \<lparr>spawnerPositions :=
             Set_add (x, max (getCurrentHeight cfg (world s) x z + 2) 2, z) (spawnerPositions s)\<rparr>) \<and>
   createInitialSpawners cfg now s =
     (let s2 = (fold (createInitialSpawner cfg) (initialSpawnPoints cfg) s)\<lparr>hasInitialSpawners := True\<rparr>
      in case initialSpawnPoints cfg of
           [] \<Rightarrow> s2
         | (fx, fz) # rest \<Rightarrow>
             if isWithinBounds cfg fx fz
             then s2\<lparr>targets := (targets s2)(nextRef s2 :=
                        \<lparr>t_x = fx, t_y = targetHeight cfg, t_z = fz, startTime = now,
                         spawnerPosition = findSpawnerPositionAt cfg s2 fx fz, isActive = True\<rparr>),
                     currentTarget := Some (nextRef s2), nextRef := Suc (nextRef s2)\<rparr>
             else s2) \<and>
   (initialSpawnPoints cfg = [(x, z)] \<and> isWithinBounds cfg x z \<and> spawnerPositions s = [] \<and>
    \<not> writeFails (world s) (x, max (getCurrentHeight cfg (world s) x z + 2) 2, z) \<longrightarrow>
      currentTarget (createInitialSpawners cfg now s) = Some (nextRef s) \<and>
      targets (createInitialSpawners cfg now s) (nextRef s) =
        \<lparr>t_x = x, t_y = targetHeight cfg, t_z = z, startTime = now,
         spawnerPosition = Some (x, max (getCurrentHeight cfg (world s) x z + 2) 2, z),
         isActive = True\<rparr> \<and>
      spawnerPositions (createInitialSpawners cfg now s)
        = [(x, max (getCurrentHeight cfg (world s) x z + 2) 2, z)] \<and>
      world (createInitialSpawners cfg now s) =
        (world s)\<lparr>blocks := (blocks (world s))
           ((x, max (getCurrentHeight cfg (world s) x z + 2) 2, z) := Inr (Id (spawnerBlockId cfg)))\<rparr>)"
proof -
  let ?s1 = "fold (createInitialSpawner cfg) (initialSpawnPoints cfg) s"
  have reg: "spawnerPositions (createInitialSpawners cfg now s) = spawnerPositions ?s1"
    and con: "console (createInitialSpawners cfg now s) = console ?s1"
    by (simp_all add: createInitialSpawners_unfold Let_def split: list.splits prod.splits)
  have a: "\<forall>(x, z) \<in> set (initialSpawnPoints cfg).
      if isWithinBounds cfg x z
      then \<exists>y. (x, y, z) \<in> set (spawnerPositions (createInitialSpawners cfg now s))
      else WarnOutsideBounds x z \<in> set (console (createInitialSpawners cfg now s))"
    unfolding reg con
    using fold_createInitialSpawner_points[of _ _ "initialSpawnPoints cfg" cfg s] by blast
  have b: "\<not> isWithinBounds cfg x z \<longrightarrow>
      createInitialSpawner cfg (x, z) s = s\<lparr>console := console s @ [WarnOutsideBounds x z]\<rparr>"
    by (simp add: createInitialSpawner_out)
  have c: "isWithinBounds cfg x z \<longrightarrow>
      createInitialSpawner cfg (x, z) s =
        (setBlock s x (max (getCurrentHeight cfg (world s) x z + 2) 2) z (spawnerBlockId cfg))
          \<lparr>spawnerPositions :=
             Set_add (x, max (getCurrentHeight cfg (world s) x z + 2) 2, z) (spawnerPositions s)\<rparr>"
    by (simp add: createInitialSpawner_in)
  note d = createInitialSpawners_unfold[of cfg now s]
  note e = createInitialSpawners_single[of cfg x z s now]
  show ?thesis
    by (rule conjI[OF a conjI[OF b conjI[OF c conjI[OF d]]]]) (use e in blast)
qed

theorem initial_spawner_placement_witness:
  "isWithinBounds zone3 (- 40) 80 \<and> \<not> isWithinBounds zone3 100 100 \<and>
   initialSpawnPoints zone3 = [(- 40, 80)] \<and>
   spawnerPositions (initialState groundWorld) = [] \<and>
   getCurrentHeight zone3 (world (initialState groundWorld)) (- 40) 80 = 0 \<and>
   \<not> writeFails (world (initialState groundWorld)) (- 40, 2, 80) \<and>
   createInitialSpawner zone3 (100, 100) (initialState groundWorld)
     = (initialState groundWorld)\<lparr>console := [WarnOutsideBounds 100 100]\<rparr> \<and>
   currentTarget (createInitialSpawners zone3 7 (initialState groundWorld)) = Some 0 \<and>
   targets (createInitialSpawners zone3 7 (initialState groundWorld)) 0 =
     \<lparr>t_x = - 40, t_y = 3, t_z = 80, startTime = 7,
      spawnerPosition = Some (- 40, 2, 80), isActive = True\<rparr> \<and>
   spawnerPositions (createInitialSpawners zone3 7 (initialState groundWorld)) = [(- 40, 2, 80)] \<and>
   world (createInitialSpawners zone3 7 (initialState groundWorld)) =
     groundWorld\<lparr>blocks := (blocks groundWorld)((- 40, 2, 80) := Inr (Id 19))\<rparr>"
proof -
  let ?s = "initialState groundWorld"
  have inb: "isWithinBounds zone3 (- 40) 80" and out: "\<not> isWithinBounds zone3 100 100"
    by (simp_all add: isWithinBounds_iff zone3_simps)
  have h: "getCurrentHeight zone3 (world ?s) (- 40) 80 = 0"
    by (simp add: initialState_simps getCurrentHeight_ground)
  have wf: "\<not> writeFails (world ?s) (- 40, 2, 80)"
    by (simp add: initialState_simps groundWorld_def)
  note t1 = initial_spawner_placement[where cfg=zone3 and x="- 40" and z=80 and s="?s" and now=7,
      THEN conjunct2, THEN conjunct2, THEN conjunct2, THEN conjunct2]
  note t2 = initial_spawner_placement[where cfg=zone3 and x=100 and z=100 and s="?s" and now=7,
      THEN conjunct2, THEN conjunct1]
  from t1 inb h wf have p1:
    "currentTarget (createInitialSpawners zone3 7 ?s) = Some 0 \<and>
     targets (createInitialSpawners zone3 7 ?s) 0 =
       \<lparr>t_x = - 40, t_y = 3, t_z = 80, startTime = 7,
        spawnerPosition = Some (- 40, 2, 80), isActive = True\<rparr> \<and>
     spawnerPositions (createInitialSpawners zone3 7 ?s) = [(- 40, 2, 80)] \<and>
     world (createInitialSpawners zone3 7 ?s) =
       groundWorld\<lparr>blocks := (blocks groundWorld)((- 40, 2, 80) := Inr (Id 19))\<rparr>"
    by (simp add: zone3_simps initialState_simps)
  from t2 out have p2: "createInitialSpawner zone3 (100, 100) ?s
     = ?s\<lparr>console := [WarnOutsideBounds 100 100]\<rparr>"
    by (simp add: initialState_simps)
  from inb out h wf p1 p2 show ?thesis by (simp add: zone3_simps initialState_simps)
qed

section \<open>Target selection leaves the older objects alone\<close>

lemma createInitialSpawner_frame:
  "\<exists>w l ps. createInitialSpawner cfg p s = s\<lparr>world := w, console := l, spawnerPositions := ps\<rparr>"
proof -
  obtain x z where p: "p = (x, z)" by (cases p)
  show ?thesis
  proof (cases "isWithinBounds cfg x z")
    case False
    then have "createInitialSpawner cfg p s =
        s\<lparr>world := world s, console := console s @ [WarnOutsideBounds x z],
          spawnerPositions := spawnerPositions s\<rparr>"
      by (simp add: p createInitialSpawner_out)
    then show ?thesis by blast
  next
    case True
    let ?y = "max (getCurrentHeight cfg (world s) x z + 2) 2"
    have "createInitialSpawner cfg p s =
        s\<lparr>world := world (setBlock s x ?y z (spawnerBlockId cfg)),
          console := console (setBlock s x ?y z (spawnerBlockId cfg)),
          spawnerPositions := Set_add (x, ?y, z) (spawnerPositions s)\<rparr>"
      using True by (simp add: p createInitialSpawner_in setBlock_def split: sum.splits)
    then show ?thesis by blast
  qed
qed

lemma fold_createInitialSpawner_frame:
  "\<exists>w l ps. fold (createInitialSpawner cfg) pts s
     = s\<lparr>world := w, console := l, spawnerPositions := ps\<rparr>"
proof (induction pts arbitrary: s)
  case Nil
  have "s = s\<lparr>world := world s, console := console s, spawnerPositions := spawnerPositions s\<rparr>"
    by simp
  then show ?case by (simp only: fold_Nil id_apply) blast
next
  case (Cons p pts)
  obtain w1 l1 ps1 where
    s1: "createInitialSpawner cfg p s = s\<lparr>world := w1, console := l1, spawnerPositions := ps1\<rparr>"
    using createInitialSpawner_frame by blast
  obtain w l ps where
    "fold (createInitialSpawner cfg) pts (createInitialSpawner cfg p s)
       = (createInitialSpawner cfg p s)\<lparr>world := w, console := l, spawnerPositions := ps\<rparr>"
    using Cons.IH by blast
  then have "fold (createInitialSpawner cfg) (p # pts) s
       = s\<lparr>world := w, console := l, spawnerPositions := ps\<rparr>"
    by (simp add: s1)
  then show ?case by blast
qed

lemma createInitialSpawners_frame:
  "completedTargets (createInitialSpawners cfg now s) = completedTargets s"
  "nextRef s \<le> nextRef (createInitialSpawners cfg now s)"
  "r' < nextRef s \<Longrightarrow> targets (createInitialSpawners cfg now s) r' = targets s r'"
  "set (spawnerPositions s) \<subseteq> set (spawnerPositions (createInitialSpawners cfg now s))"
proof -
  obtain w l ps where
    f: "fold (createInitialSpawner cfg) (initialSpawnPoints cfg) s
          = s\<lparr>world := w, console := l, spawnerPositions := ps\<rparr>"
    using fold_createInitialSpawner_frame by blast
  show "completedTargets (createInitialSpawners cfg now s) = completedTargets s"
    by (simp add: createInitialSpawners_unfold f Let_def split: list.splits)
  show "nextRef s \<le> nextRef (createInitialSpawners cfg now s)"
    by (simp add: createInitialSpawners_unfold f Let_def split: list.splits)
  show "targets (createInitialSpawners cfg now s) r' = targets s r'" if "r' < nextRef s"
    using that by (simp add: createInitialSpawners_unfold f Let_def split: list.splits)
  have "spawnerPositions (createInitialSpawners cfg now s)
          = spawnerPositions (fold (createInitialSpawner cfg) (initialSpawnPoints cfg) s)"
    by (simp add: createInitialSpawners_unfold Let_def split: list.splits prod.splits)
  then show "set (spawnerPositions s) \<subseteq> set (spawnerPositions (createInitialSpawners cfg now s))"
    using fold_createInitialSpawner_mono[of s cfg "initialSpawnPoints cfg"] by simp
qed

lemma findValidSpawnerPosition_frame:
  "\<exists>l i. snd (findValidSpawnerPosition cfg rnd s) = s\<lparr>console := l, randomCalls := i\<rparr>"
proof (cases "length (getActiveSpawnerPositions cfg s) = 0")
  case True
  then have "snd (findValidSpawnerPosition cfg rnd s)
      = s\<lparr>console := console s @ [WarnNoActiveSpawners], randomCalls := randomCalls s\<rparr>"
    by (simp add: findValidSpawnerPosition_def)
  then show ?thesis by blast
next
  case False
  obtain site attempts i where
    "findValidSpawnerPosition_loop cfg rnd s (getActiveSpawnerPositions cfg s) 0 (randomCalls s)
       = (site, attempts, i)"
    by (cases "findValidSpawnerPosition_loop cfg rnd s (getActiveSpawnerPositions cfg s) 0 (randomCalls s)")
  with False have "snd (findValidSpawnerPosition cfg rnd s)
      = s\<lparr>console := console s, randomCalls := i\<rparr>"
    by (simp add: findValidSpawnerPosition_def)
  then show ?thesis by blast
qed

lemma createSpawnerBlock_new:
  assumes "currentTarget s = Some r"
  shows "createSpawnerBlock cfg s =
     (let y = max (getCurrentHeight cfg (world s) (t_x (targets s r)) (t_z (targets s r)) + 2) 2;
          position = (t_x (targets s r), y, t_z (targets s r));
          s1 = setBlock s (t_x (targets s r)) y (t_z (targets s r)) (spawnerBlockId cfg)
      in s1\<lparr>spawnerPositions := Set_add position (spawnerPositions s),
             targets := (targets s)(r := (targets s r)\<lparr>spawnerPosition := Some position,
                                                      isActive := True\<rparr>)\<rparr>)"
  using assms by (simp add: createSpawnerBlock_def Let_def setBlock_frame)

text \<open>A successful selection, spelled out.\<close>

lemma selectNewTarget_site:
  assumes "hasInitialSpawners s" and "findValidSpawnerPosition cfg rnd s = (Some (x, z), s1)"
  shows "selectNewTarget cfg rnd now s =
     (let y = max (getCurrentHeight cfg (world s) x z + 2) 2;
          s2 = setBlock s1 x y z (spawnerBlockId cfg)
      in s2\<lparr>spawnerPositions := Set_add (x, y, z) (spawnerPositions s),
             targets := (targets s)(nextRef s :=
                \<lparr>t_x = x, t_y = targetHeight cfg, t_z = z, startTime = now,
                 spawnerPosition = Some (x, y, z), isActive = True\<rparr>),
             currentTarget := Some (nextRef s),
             nextRef := Suc (nextRef s)\<rparr>)"
proof -
  from findValidSpawnerPosition_frame[of cfg rnd s] assms(2)
  obtain l i where s1: "s1 = s\<lparr>console := l, randomCalls := i\<rparr>" by auto
  let ?n = "newCurrentTarget \<lparr>t_x = x, t_y = targetHeight cfg, t_z = z, startTime = now,
                 spawnerPosition = None, isActive = True\<rparr> s1"
  have cur: "currentTarget ?n = Some (nextRef s)" by (simp add: newCurrentTarget_def s1)
  have sel: "selectNewTarget cfg rnd now s = createSpawnerBlock cfg ?n"
    using assms by (simp add: selectNewTarget_def)
  show ?thesis
    unfolding sel createSpawnerBlock_new[OF cur]
    by (simp add: newCurrentTarget_def s1 Let_def setBlock_def split: sum.splits)
qed

lemma selectNewTarget_frame:
  "completedTargets (selectNewTarget cfg rnd now s) = completedTargets s"
  "nextRef s \<le> nextRef (selectNewTarget cfg rnd now s)"
  "r' < nextRef s \<Longrightarrow> targets (selectNewTarget cfg rnd now s) r' = targets s r'"
  "set (spawnerPositions s) \<subseteq> set (spawnerPositions (selectNewTarget cfg rnd now s))"
proof -
  obtain site s1 where f: "findValidSpawnerPosition cfg rnd s = (site, s1)"
    by (cases "findValidSpawnerPosition cfg rnd s")
  from findValidSpawnerPosition_frame[of cfg rnd s] f
  obtain l i where s1: "s1 = s\<lparr>console := l, randomCalls := i\<rparr>" by auto
  have all: "completedTargets (selectNewTarget cfg rnd now s) = completedTargets s \<and>
        nextRef s \<le> nextRef (selectNewTarget cfg rnd now s) \<and>
        (r' < nextRef s \<longrightarrow> targets (selectNewTarget cfg rnd now s) r' = targets s r') \<and>
        set (spawnerPositions s) \<subseteq> set (spawnerPositions (selectNewTarget cfg rnd now s))"
  proof (cases "hasInitialSpawners s")
    case False
    then have "selectNewTarget cfg rnd now s = createInitialSpawners cfg now s"
      by (simp add: selectNewTarget_def)
    then show ?thesis using createInitialSpawners_frame[where cfg=cfg and now=now and s=s] by simp
  next
    case True
    show ?thesis
    proof (cases site)
      case None
      with True f have "selectNewTarget cfg rnd now s = s1" by (simp add: selectNewTarget_def)
      then show ?thesis by (simp add: s1)
    next
      case (Some xz)
      obtain x z where xz: "xz = (x, z)" by (cases xz)
      from selectNewTarget_site[OF True f[unfolded Some xz], where now=now]
      show ?thesis
        by (auto simp: Let_def s1 setBlock_def set_Set_add split: sum.splits)
    qed
  qed
  from all show "completedTargets (selectNewTarget cfg rnd now s) = completedTargets s"
    "nextRef s \<le> nextRef (selectNewTarget cfg rnd now s)"
    "r' < nextRef s \<Longrightarrow> targets (selectNewTarget cfg rnd now s) r' = targets s r'"
    "set (spawnerPositions s) \<subseteq> set (spawnerPositions (selectNewTarget cfg rnd now s))"
    by simp_all
qed

section \<open>Spawner destruction\<close>

lemma set_Set_delete: "set (Set_delete k ks) = set ks - {k}"
  by (auto simp: Set_delete_def)

lemma destroyedSpawner_Some:
  "destroyedSpawner cfg s r = Some p \<longleftrightarrow>
     spawnerPosition (targets s r) = Some p \<and> \<not> isSpawnerBlockPresent cfg (world s) p"
  by (auto simp: destroyedSpawner_def split: option.splits if_splits)

lemma onSpawnerDestroyed_current:
  assumes "currentTarget s = Some r" and "spawnerPosition (targets s r) = Some p"
  shows "onSpawnerDestroyed cfg rnd now
           (s\<lparr>targets := (targets s)(r := (targets s r)\<lparr>isActive := False\<rparr>)\<rparr>) p =
         (selectNewTarget cfg rnd now (deactivated s r))
           \<lparr>spawnerPositions :=
              Set_delete p (spawnerPositions (selectNewTarget cfg rnd now (deactivated s r)))\<rparr>"
  using assms
  by (simp add: onSpawnerDestroyed_def findTargetByPosition_def deactivated_def Let_def)

lemma terraformStep_destroyed:
  assumes "currentTarget s = Some r" and "isActive (targets s r)"
      and "destroyedSpawner cfg s r = Some p"
  shows "terraformStep cfg rnd now s =
           selectNewTarget cfg rnd now
             (onSpawnerDestroyed cfg rnd now
                (s\<lparr>targets := (targets s)(r := (targets s r)\<lparr>isActive := False\<rparr>)\<rparr>) p)"
  using assms by (simp add: terraformStep_def Let_def)

lemma terraformStep_destroyed_twice:
  assumes "currentTarget s = Some r" and "isActive (targets s r)"
      and "destroyedSpawner cfg s r = Some p"
  shows "terraformStep cfg rnd now s =
           selectNewTarget cfg rnd now
             ((selectNewTarget cfg rnd now (deactivated s r))
                \<lparr>spawnerPositions :=
                   Set_delete p (spawnerPositions (selectNewTarget cfg rnd now (deactivated s r)))\<rparr>)"
  using terraformStep_destroyed[OF assms] onSpawnerDestroyed_current[OF assms(1)] assms(3)
  by (simp add: destroyedSpawner_Some)

text \<open>C6. When the step finds the block of the current target's bound marker gone from the
  grid (the target being active and its object allocated), it marks that target inactive,
  runs the destruction handling, after which the marker's key is no longer registered, and
  then runs \<^verbatim>\<open>selectNewTarget\<close> in the same step. After the step that target is inactive and
  has no marker binding; every other existing target object, the history and every other
  registered marker key are as before.\<close>

theorem spawner_destruction:
  assumes cur: "currentTarget s = Some r" and act: "isActive (targets s r)"
      and gone: "destroyedSpawner cfg s r = Some p" and alloc: "r < nextRef s"
  shows "spawnerPosition (targets s r) = Some p \<and> \<not> isSpawnerBlockPresent cfg (world s) p \<and>
         terraformStep cfg rnd now s =
           selectNewTarget cfg rnd now
             (onSpawnerDestroyed cfg rnd now
                (s\<lparr>targets := (targets s)(r := (targets s r)\<lparr>isActive := False\<rparr>)\<rparr>) p) \<and>
         p \<notin> set (spawnerPositions
                  (onSpawnerDestroyed cfg rnd now
                     (s\<lparr>targets := (targets s)(r := (targets s r)\<lparr>isActive := False\<rparr>)\<rparr>) p)) \<and>
         \<not> isActive (targets (terraformStep cfg rnd now s) r) \<and>
         spawnerPosition (targets (terraformStep cfg rnd now s) r) = None \<and>
         (\<forall>r'. r' < nextRef s \<and> r' \<noteq> r \<longrightarrow>
               targets (terraformStep cfg rnd now s) r' = targets s r') \<and>
         completedTargets (terraformStep cfg rnd now s) = completedTargets s \<and>
         (\<forall>q \<in> set (spawnerPositions s). q \<noteq> p \<longrightarrow>
               q \<in> set (spawnerPositions (terraformStep cfg rnd now s)))"
proof -
  let ?d = "deactivated s r"
  let ?sA = "selectNewTarget cfg rnd now ?d"
  let ?s2 = "?sA\<lparr>spawnerPositions := Set_delete p (spawnerPositions ?sA)\<rparr>"
  let ?s' = "terraformStep cfg rnd now s"
  from gone have bound: "spawnerPosition (targets s r) = Some p"
    and absent: "\<not> isSpawnerBlockPresent cfg (world s) p"
    by (simp_all add: destroyedSpawner_Some)
  note step = terraformStep_destroyed[OF cur act gone, of rnd now]
  have s2: "onSpawnerDestroyed cfg rnd now
              (s\<lparr>targets := (targets s)(r := (targets s r)\<lparr>isActive := False\<rparr>)\<rparr>) p = ?s2"
    by (rule onSpawnerDestroyed_current[OF cur bound])
  have s': "?s' = selectNewTarget cfg rnd now ?s2" using step s2 by simp
  have key: "p \<notin> set (spawnerPositions ?s2)" by (simp add: set_Set_delete)
  have nd: "nextRef ?d = nextRef s" by (simp add: deactivated_def)
  have nA: "nextRef s \<le> nextRef ?sA" using selectNewTarget_frame(2)[of ?d cfg rnd now] nd by simp
  have old: "targets ?s' r' = targets ?d r'" if "r' < nextRef s" for r'
  proof -
    have "targets ?s' r' = targets ?s2 r'"
      unfolding s' by (rule selectNewTarget_frame(3)) (use that nA in simp)
    also have "\<dots> = targets ?sA r'" by simp
    also have "\<dots> = targets ?d r'"
      by (rule selectNewTarget_frame(3)) (use that nd in simp)
    finally show ?thesis .
  qed
  have tr: "\<not> isActive (targets ?s' r)" "spawnerPosition (targets ?s' r) = None"
    using old[OF alloc] by (simp_all add: deactivated_def)
  have others: "\<forall>r'. r' < nextRef s \<and> r' \<noteq> r \<longrightarrow> targets ?s' r' = targets s r'"
    using old by (simp add: deactivated_def)
  have hist: "completedTargets ?s' = completedTargets s"
    unfolding s' by (simp add: selectNewTarget_frame(1) deactivated_def)
  have reg: "\<forall>q \<in> set (spawnerPositions s). q \<noteq> p \<longrightarrow> q \<in> set (spawnerPositions ?s')"
  proof (intro ballI impI)
    fix q assume q: "q \<in> set (spawnerPositions s)" "q \<noteq> p"
    then have "q \<in> set (spawnerPositions ?d)" by (simp add: deactivated_def)
    then have "q \<in> set (spawnerPositions ?sA)"
      using selectNewTarget_frame(4)[of ?d cfg rnd now] by blast
    with q(2) have "q \<in> set (spawnerPositions ?s2)" by (simp add: set_Set_delete)
    then show "q \<in> set (spawnerPositions ?s')"
      unfolding s' using selectNewTarget_frame(4)[of ?s2 cfg rnd now] by blast
  qed
  show ?thesis
    using bound absent step key[folded s2] tr others hist reg by blast
qed

lemma findValidSpawnerPosition_first_attempt:
  assumes act: "getActiveSpawnerPositions cfg S = activeSpawners" and ne: "activeSpawners \<noteq> []"
      and k: "\<lfloor>rnd (randomCalls S) * real (length activeSpawners)\<rfloor> = k"
      and k0: "0 \<le> k" and k1: "k < int (length activeSpawners)"
      and src: "activeSpawners ! nat k = (sx, sy, sz)"
      and x: "Math_round (real_of_int sx + cos (rnd (randomCalls S + 1) * pi * 2)
                * (rnd (randomCalls S + 2) * spawnerSpreadRadius cfg)) = x"
      and z: "Math_round (real_of_int sz + sin (rnd (randomCalls S + 1) * pi * 2)
                * (rnd (randomCalls S + 2) * spawnerSpreadRadius cfg)) = z"
      and valid: "isValidSpawnerPosition cfg S x z"
  shows "findValidSpawnerPosition cfg rnd S = (Some (x, z), S\<lparr>randomCalls := randomCalls S + 3\<rparr>)"
proof -
  have "findValidSpawnerPosition_loop cfg rnd S activeSpawners 0 (randomCalls S)
          = (Some (x, z), 1, randomCalls S + 3)"
    using k k0 k1 src x z valid
    by (subst findValidSpawnerPosition_loop.simps) (simp add: Let_def)
  then show ?thesis using ne by (simp add: findValidSpawnerPosition_def act)
qed

lemma isSpawnerBlockPresent_flat:
  "isSpawnerBlockPresent zone3 (flatWorld mk) p \<longleftrightarrow> p = mk"
  by (cases p) (simp add: isSpawnerBlockPresent_def chunkLattice_getBlockId_def flatWorld_def zone3_simps)

lemma isSpawnerBlockPresent_write:
  "isSpawnerBlockPresent cfg (w\<lparr>blocks := (blocks w)(q := Inr (Id b))\<rparr>) p
     = (if p = q then b = spawnerBlockId cfg else isSpawnerBlockPresent cfg w p)"
  by (simp add: isSpawnerBlockPresent_def chunkLattice_getBlockId_def)

lemma writeFails_write: "writeFails (w\<lparr>blocks := f\<rparr>) = writeFails w"
  by simp

lemma setBlock_ok:
  "\<not> writeFails (world s) (x, y, z) \<Longrightarrow>
     setBlock s x y z b = s\<lparr>world := (world s)\<lparr>blocks := (blocks (world s))((x, y, z) := Inr (Id b))\<rparr>\<rparr>"
  by (simp add: setBlock_def chunkLattice_setBlock_def)

lemma destroyedState_simps:
  "world destroyedState = flatWorld (- 40, 2, 80)"
  "targets destroyedState 0 = \<lparr>t_x = - 40, t_y = 3, t_z = 80, startTime = 0,
                       spawnerPosition = Some (- 40, 2, 80), isActive = True\<rparr>"
  "targets destroyedState 2 = \<lparr>t_x = - 34, t_y = 3, t_z = 80, startTime = 0,
                       spawnerPosition = Some (- 34, 2, 80), isActive = True\<rparr>"
  "nextRef destroyedState = 3" "currentTarget destroyedState = Some 2"
  "completedTargets destroyedState = [0]"
  "spawnerPositions destroyedState = [(- 40, 2, 80), (- 34, 2, 80)]"
  "hasInitialSpawners destroyedState" "randomCalls destroyedState = 0"
  "console destroyedState = []"
  by (simp_all add: destroyedState_def)

lemma deactivated_simps:
  "world (deactivated s r) = world s" "nextRef (deactivated s r) = nextRef s"
  "currentTarget (deactivated s r) = currentTarget s"
  "completedTargets (deactivated s r) = completedTargets s"
  "spawnerPositions (deactivated s r) = spawnerPositions s"
  "hasInitialSpawners (deactivated s r) = hasInitialSpawners s"
  "randomCalls (deactivated s r) = randomCalls s" "console (deactivated s r) = console s"
  by (simp_all add: deactivated_def)

lemma destroyed_gone: "destroyedSpawner zone3 destroyedState 2 = Some (- 34, 2, 80)"
  by (simp add: destroyedSpawner_Some destroyedState_simps isSpawnerBlockPresent_flat)

lemma rndEast_more: "rndEast (Suc (Suc (Suc 0))) = 0" "rndEast (3 + 1) = 0" "rndEast (3 + 2) = 6 / 10"
  by (simp_all add: rndEast_def)

text \<open>Both selections of the destruction tick go six blocks east of \<open>(-40, 80)\<close>.\<close>

lemma east_first_search:
  "findValidSpawnerPosition zone3 rndEast (deactivated destroyedState 2)
     = (Some (- 34, 80), (deactivated destroyedState 2)\<lparr>randomCalls := 3\<rparr>)"
proof -
  let ?d = "deactivated destroyedState 2"
  have act: "getActiveSpawnerPositions zone3 ?d = [(- 40, 2, 80)]"
    by (simp add: getActiveSpawnerPositions_def getSpawnerPositions_def deactivated_simps
        destroyedState_simps isSpawnerBlockPresent_flat)
  have valid: "isValidSpawnerPosition zone3 ?d (- 34) 80"
    by (simp add: isValidSpawnerPosition_def act isWithinBounds_iff spawnerDistance_less
        spawnerDistance_le zone3_simps)
  have "findValidSpawnerPosition zone3 rndEast ?d
          = (Some (- 34, 80), ?d\<lparr>randomCalls := randomCalls ?d + 3\<rparr>)"
    by (rule findValidSpawnerPosition_first_attempt[OF act _ _ _ _ _ _ _ valid,
          where k=0 and sx="- 40" and sy=2 and sz=80])
       (simp_all add: deactivated_simps destroyedState_simps rndEast_simps zone3_simps
          Math_round_def)
  then show ?thesis by (simp add: deactivated_simps destroyedState_simps)
qed

section \<open>The spreading search in a step\<close>

lemma rndLateEast_simps:
  "j < 150 \<Longrightarrow> rndLateEast j = 0" "rndLateEast 150 = 0" "rndLateEast 151 = 0"
  "rndLateEast 152 = 6 / 10"
  by (simp_all add: rndLateEast_def)

lemma late_first_search:
  "findValidSpawnerPosition_loop zone3 rndLateEast (deactivated destroyedState 2)
       [(- 40, 2, 80)] 0 0 = (None, 50, 150)"
  "findValidSpawnerPosition zone3 rndLateEast (deactivated destroyedState 2)
     = (None, (deactivated destroyedState 2)\<lparr>randomCalls := 150\<rparr>)"
proof -
  let ?d = "deactivated destroyedState 2"
  have act: "getActiveSpawnerPositions zone3 ?d = [(- 40, 2, 80)]"
    by (simp add: getActiveSpawnerPositions_def getSpawnerPositions_def deactivated_simps
        destroyedState_simps isSpawnerBlockPresent_flat)
  have inv: "\<not> isValidSpawnerPosition zone3 ?d (fst (- 40, 2, 80)) (snd (snd (- 40, 2 :: int, 80)))"
    by (simp add: isValidSpawnerPosition_def act spawnerDistance_less Let_def)
  have "\<forall>j. 0 \<le> j \<and> j < 0 + 3 * (50 - 0) \<longrightarrow> rndLateEast j = 0"
    by (simp add: rndLateEast_def)
  from loop_zeros_fail[OF inv this]
  show l: "findValidSpawnerPosition_loop zone3 rndLateEast ?d [(- 40, 2, 80)] 0 0 = (None, 50, 150)"
    by simp
  then show "findValidSpawnerPosition zone3 rndLateEast ?d = (None, ?d\<lparr>randomCalls := 150\<rparr>)"
    by (simp add: findValidSpawnerPosition_def act deactivated_simps destroyedState_simps)
qed

lemma late_second_search:
  defines "s2 \<equiv> (deactivated destroyedState 2)
                    \<lparr>randomCalls := 150, spawnerPositions := [(- 40, 2, 80)]\<rparr>"
  shows "findValidSpawnerPosition zone3 rndLateEast s2 = (Some (- 34, 80), s2\<lparr>randomCalls := 153\<rparr>)"
proof -
  have act: "getActiveSpawnerPositions zone3 s2 = [(- 40, 2, 80)]"
    by (simp add: getActiveSpawnerPositions_def getSpawnerPositions_def s2_def deactivated_simps
        destroyedState_simps isSpawnerBlockPresent_flat)
  have rc: "randomCalls s2 = 150" by (simp add: s2_def)
  have valid: "isValidSpawnerPosition zone3 s2 (- 34) 80"
    by (simp add: isValidSpawnerPosition_def act isWithinBounds_iff spawnerDistance_less
        spawnerDistance_le zone3_simps)
  have "findValidSpawnerPosition zone3 rndLateEast s2
          = (Some (- 34, 80), s2\<lparr>randomCalls := randomCalls s2 + 3\<rparr>)"
    by (rule findValidSpawnerPosition_first_attempt[OF act _ _ _ _ _ _ _ valid,
          where k=0 and sx="- 40" and sy=2 and sz=80])
       (simp_all add: rc rndLateEast_simps zone3_simps Math_round_def)
  then show ?thesis by (simp add: rc)
qed

text \<open>C4, as stated, fails in its last part on a tick that finds the spawner block of the
  current target gone: such a tick runs two selections, each with a search of its own. Here
  the search of the first selection makes \<open>50\<close> attempts, every one proposing the site of the
  live spawner itself, and returns no site; the search of the second selection succeeds at
  its first attempt, and the tick ends with a new target object (reference \<open>3\<close>, the next
  free one before the step) bound to a new spawner block at \<open>(-34, 2, 80)\<close>.\<close>

theorem failed_search_new_target_same_tick:
  "currentTarget destroyedState = Some 2 \<and> isActive (targets destroyedState 2) \<and>
   destroyedSpawner zone3 destroyedState 2 = Some (- 34, 2, 80) \<and>
   terraformStep zone3 rndLateEast 0 destroyedState =
     selectNewTarget zone3 rndLateEast 0
       ((selectNewTarget zone3 rndLateEast 0 (deactivated destroyedState 2))
          \<lparr>spawnerPositions := Set_delete (- 34, 2, 80)
             (spawnerPositions (selectNewTarget zone3 rndLateEast 0 (deactivated destroyedState 2)))\<rparr>) \<and>
   getActiveSpawnerPositions zone3 (deactivated destroyedState 2) = [(- 40, 2, 80)] \<and>
   findValidSpawnerPosition_loop zone3 rndLateEast (deactivated destroyedState 2)
       [(- 40, 2, 80)] 0 0 = (None, 50, 150) \<and>
   findValidSpawnerPosition zone3 rndLateEast (deactivated destroyedState 2)
     = (None, (deactivated destroyedState 2)\<lparr>randomCalls := 150\<rparr>) \<and>
   nextRef destroyedState = 3 \<and>
   currentTarget (terraformStep zone3 rndLateEast 0 destroyedState) = Some 3 \<and>
   targets (terraformStep zone3 rndLateEast 0 destroyedState) 3 =
     \<lparr>t_x = - 34, t_y = 3, t_z = 80, startTime = 0,
      spawnerPosition = Some (- 34, 2, 80), isActive = True\<rparr> \<and>
   \<not> isSpawnerBlockPresent zone3 (world destroyedState) (- 34, 2, 80) \<and>
   isSpawnerBlockPresent zone3 (world (terraformStep zone3 rndLateEast 0 destroyedState))
     (- 34, 2, 80) \<and>
   spawnerPositions (terraformStep zone3 rndLateEast 0 destroyedState)
     = [(- 40, 2, 80), (- 34, 2, 80)]"
proof -
  let ?D = "destroyedState"
  let ?d = "deactivated ?D 2"
  let ?sA = "selectNewTarget zone3 rndLateEast 0 ?d"
  let ?s2 = "?d\<lparr>randomCalls := 150, spawnerPositions := [(- 40, 2, 80)]\<rparr>"
  have cur: "currentTarget ?D = Some 2" and act: "isActive (targets ?D 2)"
    and nr: "nextRef ?D = 3"
    by (simp_all add: destroyedState_simps)
  note step = terraformStep_destroyed_twice[OF cur act destroyed_gone, of rndLateEast 0]
  have live: "getActiveSpawnerPositions zone3 ?d = [(- 40, 2, 80)]"
    by (simp add: getActiveSpawnerPositions_def getSpawnerPositions_def deactivated_simps
        destroyedState_simps isSpawnerBlockPresent_flat)
  have ini: "hasInitialSpawners ?d" by (simp add: deactivated_simps destroyedState_simps)
  have sA: "?sA = ?d\<lparr>randomCalls := 150\<rparr>"
    using ini by (simp add: selectNewTarget_def late_first_search(2))
  have s2: "?sA\<lparr>spawnerPositions := Set_delete (- 34, 2, 80) (spawnerPositions ?sA)\<rparr> = ?s2"
    by (simp add: sA deactivated_simps destroyedState_simps Set_delete_def)
  have step': "terraformStep zone3 rndLateEast 0 ?D = selectNewTarget zone3 rndLateEast 0 ?s2"
    using step by (simp only: s2)
  have ini2: "hasInitialSpawners ?s2" by (simp add: deactivated_simps destroyedState_simps)
  note site = selectNewTarget_site[OF ini2 late_second_search, where now=0, folded step']
  have h: "getCurrentHeight zone3 (flatWorld (- 40, 2, 80)) (- 34) 80 = 0"
    by (simp add: getCurrentHeight_flat)
  have sb: "setBlock S (- 34) 2 80 19 =
      S\<lparr>world := (flatWorld (- 40, 2, 80))\<lparr>blocks :=
            (blocks (flatWorld (- 40, 2, 80)))((- 34, 2, 80) := Inr (Id 19))\<rparr>\<rparr>"
    if "world S = flatWorld (- 40, 2, 80)" for S
    using that by (simp add: setBlock_ok writeFails_flat)
  have fin: "currentTarget (terraformStep zone3 rndLateEast 0 ?D) = Some 3"
    "targets (terraformStep zone3 rndLateEast 0 ?D) 3 =
       \<lparr>t_x = - 34, t_y = 3, t_z = 80, startTime = 0,
        spawnerPosition = Some (- 34, 2, 80), isActive = True\<rparr>"
    "spawnerPositions (terraformStep zone3 rndLateEast 0 ?D) = [(- 40, 2, 80), (- 34, 2, 80)]"
    "world (terraformStep zone3 rndLateEast 0 ?D) = (flatWorld (- 40, 2, 80))\<lparr>blocks :=
            (blocks (flatWorld (- 40, 2, 80)))((- 34, 2, 80) := Inr (Id 19))\<rparr>"
    by (simp_all add: site h zone3_simps sb Let_def deactivated_simps destroyedState_simps
        Set_add_def)
  have p0: "\<not> isSpawnerBlockPresent zone3 (world ?D) (- 34, 2, 80)"
    by (simp add: destroyedState_simps isSpawnerBlockPresent_flat)
  have p1: "isSpawnerBlockPresent zone3 (world (terraformStep zone3 rndLateEast 0 ?D)) (- 34, 2, 80)"
    by (simp add: fin(4) isSpawnerBlockPresent_write zone3_simps)
  show ?thesis
    by (intro conjI)
       (rule cur act destroyed_gone step live late_first_search nr fin(1) fin(2) p0 p1 fin(3))+
qed

text \<open>C4, amended. Every site returned by the randomized spreading search is within the
  zone's bounds, at distance at least \<open>5\<close> from every live marker and at distance at most
  \<^verbatim>\<open>spawnerSpreadRadius\<close> from at least one live marker. A live marker is a registered position
  whose grid block is the spawner block, and the distance is the one the code computes;
  for the minimum spacing that is the same as the exact Euclidean distance (the squared
  distance is at least \<open>25\<close>). The search makes at most \<open>50\<close> attempts (each consuming at most
  three random numbers), and it returns no site only after all \<open>50\<close> have failed. When the
  search returns no site, the selection that ran it creates no target and no marker: the
  current target, the target objects, the history, the registry and the grid are
  unchanged. A step without an active current target is exactly one such selection.\<close>

theorem spreading_search:
  "(findValidSpawnerPosition cfg rnd s = (Some (x, z), s1) \<longrightarrow>
      isWithinBounds cfg x z \<and>
      (\<forall>(sx, sy, sz) \<in> set (getActiveSpawnerPositions cfg s).
          5 \<le> spawnerDistance x z (sx, sy, sz) \<and> 25 \<le> (x - sx)\<^sup>2 + (z - sz)\<^sup>2) \<and>
      (\<exists>spawner \<in> set (getActiveSpawnerPositions cfg s).
          spawnerDistance x z spawner \<le> spawnerSpreadRadius cfg)) \<and>
   set (getActiveSpawnerPositions cfg s)
     = {p \<in> set (spawnerPositions s). isSpawnerBlockPresent cfg (world s) p} \<and>
   (findValidSpawnerPosition_loop cfg rnd s activeSpawners 0 i = (site, attempts, i') \<longrightarrow>
      attempts \<le> 50 \<and> i' \<le> i + 3 * attempts \<and> (site = None \<longrightarrow> attempts = 50)) \<and>
   (hasInitialSpawners s \<and> fst (findValidSpawnerPosition cfg rnd s) = None \<longrightarrow>
      currentTarget (selectNewTarget cfg rnd now s) = currentTarget s \<and>
      targets (selectNewTarget cfg rnd now s) = targets s \<and>
      nextRef (selectNewTarget cfg rnd now s) = nextRef s \<and>
      completedTargets (selectNewTarget cfg rnd now s) = completedTargets s \<and>
      spawnerPositions (selectNewTarget cfg rnd now s) = spawnerPositions s \<and>
      world (selectNewTarget cfg rnd now s) = world s) \<and>
   (currentTarget s = None \<or> (\<exists>r. currentTarget s = Some r \<and> \<not> isActive (targets s r)) \<longrightarrow>
      terraformStep cfg rnd now s = selectNewTarget cfg rnd now s)"
proof -
  have a: "isWithinBounds cfg x z \<and>
      (\<forall>(sx, sy, sz) \<in> set (getActiveSpawnerPositions cfg s).
          5 \<le> spawnerDistance x z (sx, sy, sz) \<and> 25 \<le> (x - sx)\<^sup>2 + (z - sz)\<^sup>2) \<and>
      (\<exists>spawner \<in> set (getActiveSpawnerPositions cfg s).
          spawnerDistance x z spawner \<le> spawnerSpreadRadius cfg)"
    if f: "findValidSpawnerPosition cfg rnd s = (Some (x, z), s1)"
  proof -
    from f obtain attempts i' where
      l: "findValidSpawnerPosition_loop cfg rnd s (getActiveSpawnerPositions cfg s) 0 (randomCalls s)
            = (Some (x, z), attempts, i')"
      by (auto simp: findValidSpawnerPosition_def Let_def split: if_splits prod.splits)
    from findValidSpawnerPosition_loop_result[OF l] have v: "isValidSpawnerPosition cfg s x z"
      by simp
    have "25 \<le> (x - sx)\<^sup>2 + (z - sz)\<^sup>2" if "5 \<le> spawnerDistance x z (sx, sy, sz)" for sx sy sz
    proof -
      have "Math_sqrt (real_of_int ((x - sx)\<^sup>2 + (z - sz)\<^sup>2)) < real_of_int 5 \<longleftrightarrow>
              (x - sx)\<^sup>2 + (z - sz)\<^sup>2 < 5 * 5"
        by (rule Math_sqrt_less_int) simp_all
      with that show ?thesis by (simp add: spawnerDistance_def)
    qed
    with v show ?thesis by (auto simp: isValidSpawnerPosition_iff)
  qed
  have b: "set (getActiveSpawnerPositions cfg s)
     = {p \<in> set (spawnerPositions s). isSpawnerBlockPresent cfg (world s) p}"
    by (auto simp: getActiveSpawnerPositions_def getSpawnerPositions_def)
  have c: "attempts \<le> 50 \<and> i' \<le> i + 3 * attempts \<and> (site = None \<longrightarrow> attempts = 50)"
    if l: "findValidSpawnerPosition_loop cfg rnd s activeSpawners 0 i = (site, attempts, i')"
    using findValidSpawnerPosition_loop_result[OF l] by simp
  have d: "currentTarget s = None \<or> (\<exists>r. currentTarget s = Some r \<and> \<not> isActive (targets s r)) \<longrightarrow>
      terraformStep cfg rnd now s = selectNewTarget cfg rnd now s"
    by (auto simp: terraformStep_def)
  show ?thesis
    using a b c d select_no_site[of s cfg rnd now] by blast
qed

theorem spreading_search_witness:
  "findValidSpawnerPosition zone3 rndEast (hillState (- 40, 80))
     = (Some (- 34, 80), (hillState (- 40, 80))\<lparr>randomCalls := 3\<rparr>) \<and>
   isWithinBounds zone3 (- 34) 80 \<and>
   getActiveSpawnerPositions zone3 (hillState (- 40, 80)) = [(- 40, 2, 80)] \<and>
   5 \<le> spawnerDistance (- 34) 80 (- 40, 2, 80) \<and>
   spawnerDistance (- 34) 80 (- 40, 2, 80) \<le> spawnerSpreadRadius zone3 \<and>
   findValidSpawnerPosition_loop zone3 rndZero ((hillState (- 40, 80))\<lparr>currentTarget := None\<rparr>)
       [(- 40, 2, 80)] 0 0 = (None, 50, 150) \<and>
   hasInitialSpawners ((hillState (- 40, 80))\<lparr>currentTarget := None\<rparr>) \<and>
   fst (findValidSpawnerPosition zone3 rndZero ((hillState (- 40, 80))\<lparr>currentTarget := None\<rparr>))
     = None \<and>
   currentTarget ((hillState (- 40, 80))\<lparr>currentTarget := None\<rparr>) = None \<and>
   terraformStep zone3 rndZero 0 ((hillState (- 40, 80))\<lparr>currentTarget := None\<rparr>) =
     selectNewTarget zone3 rndZero 0 ((hillState (- 40, 80))\<lparr>currentTarget := None\<rparr>) \<and>
   currentTarget (terraformStep zone3 rndZero 0 ((hillState (- 40, 80))\<lparr>currentTarget := None\<rparr>))
     = None \<and>
   nextRef (terraformStep zone3 rndZero 0 ((hillState (- 40, 80))\<lparr>currentTarget := None\<rparr>)) = 1 \<and>
   spawnerPositions (terraformStep zone3 rndZero 0 ((hillState (- 40, 80))\<lparr>currentTarget := None\<rparr>))
     = [(- 40, 2, 80)] \<and>
   world (terraformStep zone3 rndZero 0 ((hillState (- 40, 80))\<lparr>currentTarget := None\<rparr>))
     = plateauWorld (- 40, 2, 80)"
proof -
  let ?H = "hillState (- 40, 80)"
  let ?N = "?H\<lparr>currentTarget := None\<rparr>"
  have act: "getActiveSpawnerPositions zone3 ?H = [(- 40, 2, 80)]"
    by (simp add: getActiveSpawnerPositions_def getSpawnerPositions_def hillState_simps
        isSpawnerBlockPresent_plateau)
  have actN: "getActiveSpawnerPositions zone3 ?N = [(- 40, 2, 80)]"
    by (simp add: getActiveSpawnerPositions_def getSpawnerPositions_def hillState_simps
        isSpawnerBlockPresent_plateau)
  have east: "findValidSpawnerPosition zone3 rndEast ?H = (Some (- 34, 80), ?H\<lparr>randomCalls := 3\<rparr>)"
    by (rule findValid_east) (simp_all add: hillState_simps)
  have inv: "\<not> isValidSpawnerPosition zone3 ?N (fst (- 40, 2, 80)) (snd (snd (- 40, 2 :: int, 80)))"
    by (simp add: isValidSpawnerPosition_def actN spawnerDistance_less Let_def)
  have zero: "findValidSpawnerPosition_loop zone3 rndZero ?N [(- 40, 2, 80)] 0 0 = (None, 50, 150)"
    using loop_rndZero_fails[OF inv, of 0 0] by simp
  then have none: "fst (findValidSpawnerPosition zone3 rndZero ?N) = None"
    by (simp add: findValidSpawnerPosition_def actN hillState_simps)
  have ini: "hasInitialSpawners ?N" by (simp add: hillState_simps)
  have cur: "currentTarget ?N = None" by simp
  note w1 = spreading_search[where cfg=zone3 and rnd=rndEast and s="?H" and x="- 34" and z=80
      and ?s1.0="?H\<lparr>randomCalls := 3\<rparr>" and activeSpawners="[(- 40, 2, 80)]" and i=0
      and site="Some (- 34, 80)" and attempts=1 and i'=3 and now=0]
  note w2 = spreading_search[where cfg=zone3 and rnd=rndZero and s="?N" and x="- 34" and z=80
      and ?s1.0="?N" and activeSpawners="[(- 40, 2, 80)]" and i=0
      and site=None and attempts=50 and i'=150 and now=0]
  from w1 east act have p1: "isWithinBounds zone3 (- 34) 80 \<and>
      5 \<le> spawnerDistance (- 34) 80 (- 40, 2, 80) \<and>
      spawnerDistance (- 34) 80 (- 40, 2, 80) \<le> spawnerSpreadRadius zone3"
    by simp
  from w2 cur have st: "terraformStep zone3 rndZero 0 ?N = selectNewTarget zone3 rndZero 0 ?N"
    by blast
  from w2 ini none have "currentTarget (selectNewTarget zone3 rndZero 0 ?N) = currentTarget ?N \<and>
      nextRef (selectNewTarget zone3 rndZero 0 ?N) = nextRef ?N \<and>
      spawnerPositions (selectNewTarget zone3 rndZero 0 ?N) = spawnerPositions ?N \<and>
      world (selectNewTarget zone3 rndZero 0 ?N) = world ?N"
    by blast
  then have p2: "currentTarget (terraformStep zone3 rndZero 0 ?N) = None"
    "nextRef (terraformStep zone3 rndZero 0 ?N) = 1"
    "spawnerPositions (terraformStep zone3 rndZero 0 ?N) = [(- 40, 2, 80)]"
    "world (terraformStep zone3 rndZero 0 ?N) = plateauWorld (- 40, 2, 80)"
    unfolding st by (simp_all add: hillState_simps)
  show ?thesis
    by (intro conjI)
       (rule east p1[THEN conjunct1] act p1[THEN conjunct2, THEN conjunct1]
          p1[THEN conjunct2, THEN conjunct2] zero ini none cur st p2)+
qed

lemma east_first_selection:
  defines "sA \<equiv> selectNewTarget zone3 rndEast 0 (deactivated destroyedState 2)"
  shows "world sA = (flatWorld (- 40, 2, 80))\<lparr>blocks :=
            (blocks (flatWorld (- 40, 2, 80)))((- 34, 2, 80) := Inr (Id 19))\<rparr>"
    and "spawnerPositions sA = [(- 40, 2, 80), (- 34, 2, 80)]"
    and "randomCalls sA = 3" and "hasInitialSpawners sA" and "nextRef sA = 4"
    and "currentTarget sA = Some 3" and "completedTargets sA = [0]"
    and "targets sA 3 = \<lparr>t_x = - 34, t_y = 3, t_z = 80, startTime = 0,
                          spawnerPosition = Some (- 34, 2, 80), isActive = True\<rparr>"
proof -
  let ?d = "deactivated destroyedState 2"
  have ini: "hasInitialSpawners ?d" by (simp add: deactivated_simps destroyedState_simps)
  note site = selectNewTarget_site[OF ini east_first_search, where now=0, folded sA_def]
  have h: "getCurrentHeight zone3 (flatWorld (- 40, 2, 80)) (- 34) 80 = 0"
    by (simp add: getCurrentHeight_flat)
  have sb: "setBlock (?d\<lparr>randomCalls := 3\<rparr>) (- 34) 2 80 19 =
      ?d\<lparr>randomCalls := 3, world := (flatWorld (- 40, 2, 80))\<lparr>blocks :=
            (blocks (flatWorld (- 40, 2, 80)))((- 34, 2, 80) := Inr (Id 19))\<rparr>\<rparr>"
    by (simp add: setBlock_ok deactivated_simps destroyedState_simps writeFails_flat)
  show "world sA = (flatWorld (- 40, 2, 80))\<lparr>blocks :=
            (blocks (flatWorld (- 40, 2, 80)))((- 34, 2, 80) := Inr (Id 19))\<rparr>"
    and "spawnerPositions sA = [(- 40, 2, 80), (- 34, 2, 80)]"
    and "randomCalls sA = 3" and "hasInitialSpawners sA" and "nextRef sA = 4"
    and "currentTarget sA = Some 3" and "completedTargets sA = [0]"
    and "targets sA 3 = \<lparr>t_x = - 34, t_y = 3, t_z = 80, startTime = 0,
                          spawnerPosition = Some (- 34, 2, 80), isActive = True\<rparr>"
    by (simp_all add: site h zone3_simps sb Let_def deactivated_simps destroyedState_simps
        Set_add_def)
qed

lemma east_second_search:
  defines "sA \<equiv> selectNewTarget zone3 rndEast 0 (deactivated destroyedState 2)"
  defines "s2 \<equiv> sA\<lparr>spawnerPositions := Set_delete (- 34, 2, 80) (spawnerPositions sA)\<rparr>"
  shows "findValidSpawnerPosition zone3 rndEast s2 = (Some (- 34, 80), s2\<lparr>randomCalls := 6\<rparr>)"
    and "spawnerPositions s2 = [(- 40, 2, 80)]"
proof -
  note A = east_first_selection[folded sA_def]
  show reg: "spawnerPositions s2 = [(- 40, 2, 80)]"
    by (simp add: s2_def A Set_delete_def)
  have act: "getActiveSpawnerPositions zone3 s2 = [(- 40, 2, 80)]"
    by (simp add: getActiveSpawnerPositions_def getSpawnerPositions_def reg)
       (simp add: s2_def A isSpawnerBlockPresent_write isSpawnerBlockPresent_flat)
  have rc: "randomCalls s2 = 3" by (simp add: s2_def A)
  have valid: "isValidSpawnerPosition zone3 s2 (- 34) 80"
    by (simp add: isValidSpawnerPosition_def act isWithinBounds_iff spawnerDistance_less
        spawnerDistance_le zone3_simps)
  have "findValidSpawnerPosition zone3 rndEast s2
          = (Some (- 34, 80), s2\<lparr>randomCalls := randomCalls s2 + 3\<rparr>)"
    by (rule findValidSpawnerPosition_first_attempt[OF act _ _ _ _ _ _ _ valid,
          where k=0 and sx="- 40" and sy=2 and sz=80])
       (simp_all add: rc rndEast_more rndEast_simps zone3_simps Math_round_def)
  then show "findValidSpawnerPosition zone3 rndEast s2 = (Some (- 34, 80), s2\<lparr>randomCalls := 6\<rparr>)"
    by (simp add: rc)
qed

text \<open>C10. On a tick that finds the spawner block of the current target gone, selection runs
  twice, and the marker placed by the first selection is meant to stay registered. The
  code removes the key of the destroyed marker only after the first selection has run
  (\<^verbatim>\<open>onSpawnerDestroyed\<close> calls \<^verbatim>\<open>selectNewTarget\<close> before \<^verbatim>\<open>spawnerPositions.delete\<close>), and the
  destroyed marker, being no longer live, does not keep the first selection away from its
  column. Here both selections go six blocks east of \<open>(-40, 80)\<close>: the first puts a spawner
  block at \<open>(-34, 2, 80)\<close>, the coordinate of the destroyed one, and registers its key; the
  key removal then unregisters it; the second selection, which no longer sees that block
  as a marker, stacks a spawner at \<open>(-34, 4, 80)\<close> in the same column. After the step the
  first block is in the grid and its key is not in the registry.\<close>

theorem first_new_marker_unregistered:
  "currentTarget destroyedState = Some 2 \<and> isActive (targets destroyedState 2) \<and>
   destroyedSpawner zone3 destroyedState 2 = Some (- 34, 2, 80) \<and>
   currentTarget (selectNewTarget zone3 rndEast 0 (deactivated destroyedState 2)) = Some 3 \<and>
   spawnerPosition (targets (selectNewTarget zone3 rndEast 0 (deactivated destroyedState 2)) 3)
     = Some (- 34, 2, 80) \<and>
   isSpawnerBlockPresent zone3
     (world (selectNewTarget zone3 rndEast 0 (deactivated destroyedState 2))) (- 34, 2, 80) \<and>
   currentTarget (terraformStep zone3 rndEast 0 destroyedState) = Some 4 \<and>
   spawnerPosition (targets (terraformStep zone3 rndEast 0 destroyedState) 4) = Some (- 34, 4, 80) \<and>
   spawnerPositions (terraformStep zone3 rndEast 0 destroyedState)
     = [(- 40, 2, 80), (- 34, 4, 80)] \<and>
   isSpawnerBlockPresent zone3 (world (terraformStep zone3 rndEast 0 destroyedState)) (- 34, 2, 80) \<and>
   (- 34, 2, 80) \<notin> set (spawnerPositions (terraformStep zone3 rndEast 0 destroyedState))"
proof -
  let ?D = "destroyedState"
  let ?sA = "selectNewTarget zone3 rndEast 0 (deactivated ?D 2)"
  let ?s2 = "?sA\<lparr>spawnerPositions := Set_delete (- 34, 2, 80) (spawnerPositions ?sA)\<rparr>"
  let ?W1 = "(flatWorld (- 40, 2, 80))\<lparr>blocks :=
            (blocks (flatWorld (- 40, 2, 80)))((- 34, 2, 80) := Inr (Id 19))\<rparr>"
  note A = east_first_selection
  have cur: "currentTarget ?D = Some 2" and act: "isActive (targets ?D 2)"
    by (simp_all add: destroyedState_simps)
  have step: "terraformStep zone3 rndEast 0 ?D = selectNewTarget zone3 rndEast 0 ?s2"
    by (rule terraformStep_destroyed_twice[OF cur act destroyed_gone])
  have s2_eq: "?s2 = ?sA\<lparr>spawnerPositions := [(- 40, 2, 80)]\<rparr>"
    by (simp add: A Set_delete_def)
  let ?n2 = "?sA\<lparr>spawnerPositions := [(- 40, 2, 80)]\<rparr>"
  have ini2: "hasInitialSpawners ?n2" by (simp add: A)
  note site = selectNewTarget_site[OF ini2 east_second_search(1)[unfolded s2_eq], where now=0,
      folded s2_eq, folded step, unfolded s2_eq]
  have h: "getCurrentHeight zone3 ?W1 (- 34) 80 = 2"
    unfolding getCurrentHeight_def
    by (rule height_from_eqI) (auto simp: hasBlockAt_write hasBlockAt_flat zone3_simps)
  have sb: "setBlock (?sA\<lparr>spawnerPositions := [(- 40, 2, 80)], randomCalls := 6\<rparr>) (- 34) 4 80 19 =
      ?sA\<lparr>spawnerPositions := [(- 40, 2, 80)], randomCalls := 6,
           world := ?W1\<lparr>blocks := (blocks ?W1)((- 34, 4, 80) := Inr (Id 19))\<rparr>\<rparr>"
    by (simp add: setBlock_ok A writeFails_flat)
  have fin: "currentTarget (terraformStep zone3 rndEast 0 ?D) = Some 4"
    "spawnerPosition (targets (terraformStep zone3 rndEast 0 ?D) 4) = Some (- 34, 4, 80)"
    "spawnerPositions (terraformStep zone3 rndEast 0 ?D) = [(- 40, 2, 80), (- 34, 4, 80)]"
    "world (terraformStep zone3 rndEast 0 ?D) = ?W1\<lparr>blocks := (blocks ?W1)((- 34, 4, 80) := Inr (Id 19))\<rparr>"
    by (simp_all add: site A h zone3_simps sb Let_def Set_add_def)
  have p1: "isSpawnerBlockPresent zone3 (world ?sA) (- 34, 2, 80)"
    by (simp add: A isSpawnerBlockPresent_write zone3_simps)
  have p2: "isSpawnerBlockPresent zone3 (world (terraformStep zone3 rndEast 0 ?D)) (- 34, 2, 80)"
    by (simp add: fin isSpawnerBlockPresent_def chunkLattice_getBlockId_def zone3_simps)
  have nin: "(- 34, 2, 80) \<notin> set (spawnerPositions (terraformStep zone3 rndEast 0 ?D))"
    by (simp add: fin(3))
  have sp: "spawnerPosition (targets ?sA 3) = Some (- 34, 2, 80)" by (simp add: A(8))
  show ?thesis
    by (intro conjI) (rule cur act destroyed_gone A(6) sp p1 fin(1) fin(2) fin(3) p2 nin)+
qed

theorem spawner_destruction_witness:
  "currentTarget destroyedState = Some 2 \<and> isActive (targets destroyedState 2) \<and>
   destroyedSpawner zone3 destroyedState 2 = Some (- 34, 2, 80) \<and>
   2 < nextRef destroyedState \<and>
   (- 34, 2, 80) \<notin> set (spawnerPositions
       (onSpawnerDestroyed zone3 rndWestNorth 0
          (destroyedState\<lparr>targets := (targets destroyedState)
              (2 := (targets destroyedState 2)\<lparr>isActive := False\<rparr>)\<rparr>) (- 34, 2, 80))) \<and>
   \<not> isActive (targets (terraformStep zone3 rndWestNorth 0 destroyedState) 2) \<and>
   spawnerPosition (targets (terraformStep zone3 rndWestNorth 0 destroyedState) 2) = None \<and>
   targets (terraformStep zone3 rndWestNorth 0 destroyedState) 0 =
     \<lparr>t_x = - 40, t_y = 3, t_z = 80, startTime = 0,
      spawnerPosition = Some (- 40, 2, 80), isActive = True\<rparr> \<and>
   completedTargets (terraformStep zone3 rndWestNorth 0 destroyedState) = [0] \<and>
   (- 40, 2, 80) \<in> set (spawnerPositions (terraformStep zone3 rndWestNorth 0 destroyedState))"
proof -
  let ?D = "destroyedState"
  have cur: "currentTarget ?D = Some 2" and act: "isActive (targets ?D 2)"
    and alloc: "2 < nextRef ?D"
    by (simp_all add: destroyedState_simps)
  let ?s' = "terraformStep zone3 rndWestNorth 0 ?D"
  note t = spawner_destruction[OF cur act destroyed_gone alloc, where rnd=rndWestNorth and now=0]
  from t have key: "(- 34, 2, 80) \<notin> set (spawnerPositions
       (onSpawnerDestroyed zone3 rndWestNorth 0
          (?D\<lparr>targets := (targets ?D)(2 := (targets ?D 2)\<lparr>isActive := False\<rparr>)\<rparr>) (- 34, 2, 80)))"
    by blast
  from t have off: "\<not> isActive (targets ?s' 2)" "spawnerPosition (targets ?s' 2) = None"
    by blast+
  from t have "\<forall>r'. r' < nextRef ?D \<and> r' \<noteq> 2 \<longrightarrow> targets ?s' r' = targets ?D r'"
    by blast
  then have old: "targets ?s' 0 = \<lparr>t_x = - 40, t_y = 3, t_z = 80, startTime = 0,
      spawnerPosition = Some (- 40, 2, 80), isActive = True\<rparr>"
    by (simp add: destroyedState_simps)
  from t have "completedTargets ?s' = completedTargets ?D" by blast
  then have hist: "completedTargets ?s' = [0]" by (simp add: destroyedState_simps)
  from t have "\<forall>q \<in> set (spawnerPositions ?D). q \<noteq> (- 34, 2, 80) \<longrightarrow>
                 q \<in> set (spawnerPositions ?s')"
    by blast
  then have reg: "(- 40, 2, 80) \<in> set (spawnerPositions ?s')"
    by (simp add: destroyedState_simps)
  show ?thesis
    by (intro conjI) (rule cur act destroyed_gone alloc key off old hist reg)+
qed

section \<open>Completion of a target\<close>

lemma terraformStep_destroyed_history:
  assumes "currentTarget s = Some r" and "isActive (targets s r)"
      and "destroyedSpawner cfg s r = Some p"
  shows "completedTargets (terraformStep cfg rnd now s) = completedTargets s"
  unfolding terraformStep_destroyed_twice[OF assms]
  by (simp add: selectNewTarget_frame(1) deactivated_def)

text \<open>C2. In a step on an active current target,
  completion is declared only in the growth branch, that is when the bound spawner block,
  if any, is still present; there \<open>targetComplete\<close> holds after the loop exactly when every
  in-bounds column of the window
  \<open>[target.x - half, target.x + half) \<times> [target.z - half, target.z + half)\<close> is not beyond
  the current wave radius and either has a computed target height below \<open>1\<close> or already
  stands at its computed target height or above. When it holds, the step appends the target to
  \<open>completedTargets\<close> and runs \<^verbatim>\<open>selectNewTarget\<close>; otherwise the step ends with the loop.
  When the spawner block is gone, the history is left as it is.\<close>

theorem terraformStep_completion:
  assumes "currentTarget s = Some r" and "isActive (targets s r)"
      and "terraformLoop cfg (targets s r) now s = (s1, blocksModified, targetComplete)"
  shows "(destroyedSpawner cfg s r = None \<longrightarrow>
           targetComplete =
             (\<forall>(x, z) \<in> set (terraformWindow cfg (targets s r)). isWithinBounds cfg x z \<longrightarrow>
                 \<not> number_greater (distanceFromCenter (targets s r) x z)
                      (currentWaveRadius cfg (targets s r) now) \<and>
                 (targetHeightForPosition cfg (targets s r) x z < 1 \<or>
                  targetHeightForPosition cfg (targets s r) x z
                    \<le> getCurrentHeight cfg (world s) x z))
           \<and> set (terraformWindow cfg (targets s r)) =
               {t_x (targets s r) - terraformSize cfg div 2 ..<
                  t_x (targets s r) + terraformSize cfg div 2} \<times>
               {t_z (targets s r) - terraformSize cfg div 2 ..<
                  t_z (targets s r) + terraformSize cfg div 2}
           \<and> terraformStep cfg rnd now s =
               (if targetComplete
                then selectNewTarget cfg rnd now
                       (s1\<lparr>completedTargets := completedTargets s @ [r]\<rparr>)
                else s1)
           \<and> completedTargets (terraformStep cfg rnd now s) =
               (if targetComplete then completedTargets s @ [r] else completedTargets s))
         \<and> (destroyedSpawner cfg s r \<noteq> None \<longrightarrow>
               completedTargets (terraformStep cfg rnd now s) = completedTargets s)"
proof (intro conjI impI)
  assume none: "destroyedSpawner cfg s r = None"
  note loop = assms(3)
  from terraformLoop_frame[OF loop] have h: "completedTargets s1 = completedTargets s"
    by auto
  show "targetComplete =
             (\<forall>(x, z) \<in> set (terraformWindow cfg (targets s r)). isWithinBounds cfg x z \<longrightarrow>
                 \<not> number_greater (distanceFromCenter (targets s r) x z)
                      (currentWaveRadius cfg (targets s r) now) \<and>
                 (targetHeightForPosition cfg (targets s r) x z < 1 \<or>
                  targetHeightForPosition cfg (targets s r) x z
                    \<le> getCurrentHeight cfg (world s) x z))"
    by (rule terraformLoop_complete_iff[OF loop])
  show "set (terraformWindow cfg (targets s r)) =
               {t_x (targets s r) - terraformSize cfg div 2 ..<
                  t_x (targets s r) + terraformSize cfg div 2} \<times>
               {t_z (targets s r) - terraformSize cfg div 2 ..<
                  t_z (targets s r) + terraformSize cfg div 2}"
    by (auto simp: terraformWindow_def Let_def)
  show st: "terraformStep cfg rnd now s =
               (if targetComplete
                then selectNewTarget cfg rnd now
                       (s1\<lparr>completedTargets := completedTargets s @ [r]\<rparr>)
                else s1)"
    using terraformStep_growth[OF assms(1,2) none loop, of rnd] h by simp
  show "completedTargets (terraformStep cfg rnd now s) =
               (if targetComplete then completedTargets s @ [r] else completedTargets s)"
    unfolding st by (simp add: selectNewTarget_frame(1) h)
next
  assume "destroyedSpawner cfg s r \<noteq> None"
  then obtain p where "destroyedSpawner cfg s r = Some p" by auto
  from terraformStep_destroyed_history[OF assms(1,2) this]
  show "completedTargets (terraformStep cfg rnd now s) = completedTargets s" .
qed

theorem terraformStep_completion_witness:
  "currentTarget (hillState (- 40, 80)) = Some 0 \<and> isActive (targets (hillState (- 40, 80)) 0) \<and>
   destroyedSpawner zone3 (hillState (- 40, 80)) 0 = None \<and>
   terraformLoop zone3 (targets (hillState (- 40, 80)) 0) 21000 (hillState (- 40, 80))
     = (hillState (- 40, 80), 0, True) \<and>
   terraformStep zone3 rndEast 21000 (hillState (- 40, 80)) =
     selectNewTarget zone3 rndEast 21000 ((hillState (- 40, 80))\<lparr>completedTargets := [0]\<rparr>) \<and>
   completedTargets (terraformStep zone3 rndEast 21000 (hillState (- 40, 80))) = [0] \<and>
   currentTarget (freshState (- 40, 80)) = Some 0 \<and> isActive (targets (freshState (- 40, 80)) 0) \<and>
   destroyedSpawner zone3 (freshState (- 40, 80)) 0 = None \<and>
   terraformLoop zone3 (targets (freshState (- 40, 80)) 0) 0 (freshState (- 40, 80))
     = (setBlock (freshState (- 40, 80)) (- 40) 3 80 4, 1, False) \<and>
   terraformStep zone3 rndEast 0 (freshState (- 40, 80))
     = setBlock (freshState (- 40, 80)) (- 40) 3 80 4 \<and>
   completedTargets (terraformStep zone3 rndEast 0 (freshState (- 40, 80))) = []"
proof -
  let ?H = "hillState (- 40, 80)"
  let ?F = "freshState (- 40, 80)"
  have a: "currentTarget ?H = Some 0" and b: "isActive (targets ?H 0)"
    by (simp_all add: hillState_simps)
  note c = hill_not_destroyed[of "(- 40, 80)"]
  note t1 = terraformStep_completion[OF a b hill_loop_complete, where rnd=rndEast,
      THEN conjunct1, rule_format, OF c]
  from t1[THEN conjunct2, THEN conjunct2, THEN conjunct1]
  have h1: "terraformStep zone3 rndEast 21000 ?H =
     selectNewTarget zone3 rndEast 21000 (?H\<lparr>completedTargets := [0]\<rparr>)"
    by (simp add: hillState_simps)
  from t1[THEN conjunct2, THEN conjunct2, THEN conjunct2]
  have h2: "completedTargets (terraformStep zone3 rndEast 21000 ?H) = [0]"
    by (simp add: hillState_simps)
  have a': "currentTarget ?F = Some 0" and b': "isActive (targets ?F 0)"
    by (simp_all add: freshState_simps)
  have c': "destroyedSpawner zone3 ?F 0 = None"
    by (simp add: destroyedSpawner_def freshState_simps isSpawnerBlockPresent_flat)
  note t2 = terraformStep_completion[OF a' b' fresh_loop, where rnd=rndEast,
      THEN conjunct1, rule_format, OF c']
  from t2[THEN conjunct2, THEN conjunct2, THEN conjunct1]
  have f1: "terraformStep zone3 rndEast 0 ?F = setBlock ?F (- 40) 3 80 4"
    by simp
  from t2[THEN conjunct2, THEN conjunct2, THEN conjunct2]
  have f2: "completedTargets (terraformStep zone3 rndEast 0 ?F) = []"
    by (simp add: freshState_simps)
  show ?thesis
    by (intro conjI) (rule a b c hill_loop_complete h1 h2 a' b' c' fresh_loop f1 f2)+
qed

section \<open>Grid failures\<close>

lemma setBlock_throws:
  "chunkLattice_setBlock (world s) (x, y, z) b = Inl e
     \<Longrightarrow> setBlock s x y z b = s\<lparr>console := console s @ [ErrorSetBlock x y z]\<rparr>"
  by (simp add: setBlock_def)

lemma fold_terraformColumn_incomplete:
  "\<not> snd (snd (fold (terraformColumn cfg t r) cols (s, m, False)))"
  using fold_terraformColumn_mono[of cfg t r cols s m False] by blast

lemma terraformLoop_failed_write:
  assumes win: "terraformWindow cfg t = before @ (x, z) # cols"
      and bef: "fold (terraformColumn cfg t (currentWaveRadius cfg t now)) before (s0, 0, True) = (s, m, c)"
      and inb: "isWithinBounds cfg x z"
      and wave: "\<not> number_greater (distanceFromCenter t x z) (currentWaveRadius cfg t now)"
      and h1: "1 \<le> targetHeightForPosition cfg t x z"
      and low: "getCurrentHeight cfg (world s) x z < targetHeightForPosition cfg t x z"
      and thr: "chunkLattice_setBlock (world s) (x, getCurrentHeight cfg (world s) x z + 1, z)
                  (blockTypeId cfg) = Inl e"
  shows "terraformLoop cfg t now s0 =
           fold (terraformColumn cfg t (currentWaveRadius cfg t now)) cols
             (s\<lparr>console := console s @ [ErrorSetBlock x (getCurrentHeight cfg (world s) x z + 1) z]\<rparr>,
              m + 1, False)"
  using bef wave h1 low
  by (simp add: terraformLoop_def win terraformColumn_in_bounds[OF inb] setBlock_throws[OF thr])

lemma faultyState_simps:
  "world faultyState = faultyWorld"
  "targets faultyState r = \<lparr>t_x = - 40, t_y = 3, t_z = 80, startTime = 0,
                       spawnerPosition = Some (- 40, 2, 80), isActive = True\<rparr>"
  "console faultyState = []" "currentTarget faultyState = Some 0"
  by (simp_all add: faultyState_def hillState_def)

lemma hasBlockAt_faulty:
  "hasBlockAt faultyWorld x y z \<longleftrightarrow> (x, y, z) = (- 40, 2, 80) \<or> y = 0"
  by (auto simp: hasBlockAt_def chunkLattice_getBlockId_def faultyWorld_def)

lemma getCurrentHeight_faulty:
  "getCurrentHeight zone3 faultyWorld x z = (if (x, z) = (- 40, 80) then 2 else 0)"
  unfolding getCurrentHeight_def
  by (rule height_from_eqI) (auto simp: hasBlockAt_faulty zone3_simps split: if_splits)

lemma isSpawnerBlockPresent_faulty:
  "isSpawnerBlockPresent zone3 faultyWorld p \<longleftrightarrow> p = (- 40, 2, 80)"
  by (cases p) (auto simp: isSpawnerBlockPresent_def chunkLattice_getBlockId_def faultyWorld_def
      zone3_simps)

lemma faulty_not_destroyed: "destroyedSpawner zone3 faultyState 0 = None"
  by (simp add: destroyedSpawner_def faultyState_simps isSpawnerBlockPresent_faulty)

lemma faulty_radius: "currentWaveRadius zone3 (targets faultyState 0) 3500 = Finite 1"
  by (simp add: currentWaveRadius_finite faultyState_simps zone3_simps)

lemma to_double_quarter: "to_double (1 / 4) = 1 / 4"
  using to_double_dyadic_nat[of 1 2] by simp

lemma to_double_sixteenth: "to_double (1 / 16) = 1 / 16"
  using to_double_dyadic_nat[of 1 4] by simp

lemma to_double_15_16: "to_double (15 / 16) = 15 / 16"
  using to_double_dyadic_nat[of 15 4] by simp

lemma to_double_45_16: "to_double (45 / 16) = 45 / 16"
  using to_double_dyadic_nat[of 45 4] by simp

lemma zone3_height_near:
  assumes "(x + 40) * (x + 40) + (z - 80) * (z - 80) = 1"
  shows "targetHeightForPosition zone3 (targets faultyState 0) x z = 2"
proof -
  have "distanceFromCenter (targets faultyState 0) x z =
          Math_sqrt (real_of_int ((x + 40) * (x + 40) + (z - 80) * (z - 80)))"
    by (simp add: distanceFromCenter_def Let_def faultyState_simps
        del: of_int_add of_int_mult of_int_diff)
  also have "\<dots> = 1" unfolding assms by (simp add: Math_sqrt_def)
  finally have d: "distanceFromCenter (targets faultyState 0) x z = 1" .
  have "\<lfloor>45 / 16 :: real\<rfloor> = 2" by (simp add: floor_eq_iff)
  then show ?thesis
    unfolding targetHeightForPosition_def d
    by (simp add: targetHeightAtDistance_def Let_def zone3_simps faultyState_simps
        double_divide_def double_times_def double_minus_def to_double_quarter
        to_double_sixteenth to_double_15_16 to_double_45_16)
qed

lemma faulty_distance_gt_1:
  "1 < distanceFromCenter (targets faultyState 0) x z \<longleftrightarrow>
     1 < (x + 40) * (x + 40) + (z - 80) * (z - 80)"
  by (simp add: distanceFromCenter_gt_1 faultyState_simps)

lemma faulty_column_far:
  "1 < (x + 40) * (x + 40) + (z - 80) * (z - 80) \<Longrightarrow> isWithinBounds zone3 x z \<Longrightarrow>
   terraformColumn zone3 (targets faultyState 0) (Finite 1) (x, z) (S, m, c) = (S, m, False)"
  by (simp add: terraformColumn_def faulty_distance_gt_1)

lemma faulty_column_near:
  "(x + 40) * (x + 40) + (z - 80) * (z - 80) = 1 \<Longrightarrow> isWithinBounds zone3 x z \<Longrightarrow>
   getCurrentHeight zone3 (world S) x z = 0 \<Longrightarrow>
   terraformColumn zone3 (targets faultyState 0) (Finite 1) (x, z) (S, m, c)
     = (setBlock S x 1 z 4, m + 1, False)"
  by (simp add: terraformColumn_in_bounds zone3_height_near faulty_distance_gt_1 zone3_simps)

lemma faulty_height_center:
  "targetHeightForPosition zone3 (targets faultyState 0) (- 40) 80 = 3"
proof -
  have "distanceFromCenter (targets faultyState 0) (- 40) 80 = 0"
    using distanceFromCenter_center[of "targets faultyState 0"] by (simp add: faultyState_simps)
  then show ?thesis
    unfolding targetHeightForPosition_def
    by (simp add: targetHeightAtDistance_center faultyState_simps)
qed

lemma faulty_column_center:
  "getCurrentHeight zone3 (world S) (- 40) 80 = 2 \<Longrightarrow>
   terraformColumn zone3 (targets faultyState 0) (Finite 1) (- 40, 80) (S, m, c)
     = (setBlock S (- 40) 3 80 4, m + 1, False)"
  by (simp add: terraformColumn_in_bounds faulty_height_center faulty_distance_gt_1
      zone3_simps isWithinBounds_iff)

lemma getCurrentHeight_setBlock_other:
  "(x', z') \<noteq> (x, z) \<Longrightarrow>
     getCurrentHeight cfg (world (setBlock S x' y' z' b)) x z = getCurrentHeight cfg (world S) x z"
  using setBlock_world[of S x' y' z' b]
  by (auto intro!: getCurrentHeight_column simp: column_write_other)

lemma faulty_window:
  "terraformWindow zone3 (targets faultyState 0) =
     (List.product [- 44 .. - 42] [76 .. 83] @ map (Pair (- 41)) [76 .. 79])
       @ (- 41, 80) # (map (Pair (- 41)) [81 .. 83] @ List.product [- 40 .. - 37] [76 .. 83])"
  by (simp add: terraformWindow_def faultyState_simps zone3_simps)

lemma faulty_before:
  "fold (terraformColumn zone3 (targets faultyState 0) (Finite 1))
     (List.product [- 44 .. - 42] [76 .. 83] @ map (Pair (- 41)) [76 .. 79]) (faultyState, 0, True)
     = (faultyState, 0, False)"
  by (simp add: faulty_column_far isWithinBounds_iff zone3_simps)

lemma faulty_after:
  "fold (terraformColumn zone3 (targets faultyState 0) (Finite 1))
     (map (Pair (- 41)) [81 .. 83] @ List.product [- 40 .. - 37] [76 .. 83])
     (faultyState\<lparr>console := [ErrorSetBlock (- 41) 1 80]\<rparr>, 1, False)
     = (setBlock (setBlock (setBlock (setBlock
          (faultyState\<lparr>console := [ErrorSetBlock (- 41) 1 80]\<rparr>)
            (- 40) 1 79 4) (- 40) 3 80 4) (- 40) 1 81 4) (- 39) 1 80 4,
        5, False)"
  by (simp add: faulty_column_far faulty_column_near faulty_column_center isWithinBounds_iff
      zone3_simps getCurrentHeight_setBlock_other faultyState_simps(1) getCurrentHeight_faulty)

lemma writeFails_setBlock: "writeFails (world (setBlock S x y z b)) = writeFails (world S)"
  using setBlock_world[of S x y z b] by auto

lemma console_setBlock_ok:
  "\<not> writeFails (world S) (x, y, z) \<Longrightarrow> console (setBlock S x y z b) = console S"
  by (simp add: setBlock_ok)

lemma getCurrentHeight_setBlock_same:
  assumes "\<not> writeFails (world S) (x, getCurrentHeight cfg (world S) x z + 1, z)"
      and "b \<noteq> 0" and "getCurrentHeight cfg (world S) x z + 1 \<le> targetHeight cfg + 10"
  shows "getCurrentHeight cfg (world (setBlock S x (getCurrentHeight cfg (world S) x z + 1) z b)) x z
           = getCurrentHeight cfg (world S) x z + 1"
  using getCurrentHeight_raise[OF refl, of cfg "world S" x z b] assms
  by (simp add: setBlock_ok)

text \<open>C9. No grid failure leaves a step: the grid is reached only through \<^verbatim>\<open>hasBlockAt\<close>,
  \<^verbatim>\<open>isSpawnerBlockPresent\<close> and \<^verbatim>\<open>setBlock\<close>, each of which turns an exception of the grid
  into a value, so that \<^verbatim>\<open>terraformStep\<close> always returns a state. If a read throws,
  \<^verbatim>\<open>hasBlockAt\<close> reports no block and \<^verbatim>\<open>isSpawnerBlockPresent\<close> reports the marker gone, and a
  step whose current target is bound to such a marker goes on with the destruction
  handling and a new selection; a marker is live exactly when the grid returns the
  configured spawner block id at its coordinate; if a write throws, \<^verbatim>\<open>setBlock\<close> logs the
  error and changes nothing else, and when that happens at a column of the terraform
  window during a growth step, the step is the loop carried on over the remaining columns
  (the column counted as modified, the step incomplete).\<close>

theorem grid_failures_contained:
  "(chunkLattice_getBlockId w (x, y, z) = Inl e \<longrightarrow> \<not> hasBlockAt w x y z) \<and>
   (chunkLattice_getBlockId w p = Inl e \<longrightarrow> \<not> isSpawnerBlockPresent cfg w p) \<and>
   (isSpawnerBlockPresent cfg w p \<longleftrightarrow>
      chunkLattice_getBlockId w p = Inr (Id (spawnerBlockId cfg))) \<and>
   (chunkLattice_setBlock (world s) (x, y, z) b = Inl e \<longrightarrow>
      setBlock s x y z b = s\<lparr>console := console s @ [ErrorSetBlock x y z]\<rparr>) \<and>
   (currentTarget s0 = Some r \<and> isActive (targets s0 r) \<and>
    spawnerPosition (targets s0 r) = Some p \<and> chunkLattice_getBlockId (world s0) p = Inl e \<longrightarrow>
      terraformStep cfg rnd now s0 =
        selectNewTarget cfg rnd now
          (onSpawnerDestroyed cfg rnd now
             (s0\<lparr>targets := (targets s0)(r := (targets s0 r)\<lparr>isActive := False\<rparr>)\<rparr>) p)) \<and>
   (currentTarget s0 = Some r \<and> isActive (targets s0 r) \<and> destroyedSpawner cfg s0 r = None \<and>
    terraformWindow cfg (targets s0 r) = before @ (x, z) # cols \<and>
    fold (terraformColumn cfg (targets s0 r) (currentWaveRadius cfg (targets s0 r) now)) before
      (s0, 0, True) = (s, m, c) \<and>
    isWithinBounds cfg x z \<and>
    \<not> number_greater (distanceFromCenter (targets s0 r) x z)
         (currentWaveRadius cfg (targets s0 r) now) \<and>
    1 \<le> targetHeightForPosition cfg (targets s0 r) x z \<and>
    getCurrentHeight cfg (world s) x z < targetHeightForPosition cfg (targets s0 r) x z \<and>
    chunkLattice_setBlock (world s) (x, getCurrentHeight cfg (world s) x z + 1, z) (blockTypeId cfg)
      = Inl e \<longrightarrow>
      terraformStep cfg rnd now s0 =
        fst (fold (terraformColumn cfg (targets s0 r) (currentWaveRadius cfg (targets s0 r) now)) cols
               (s\<lparr>console := console s @
                    [ErrorSetBlock x (getCurrentHeight cfg (world s) x z + 1) z]\<rparr>,
                m + 1, False)))"
proof -
  have a: "chunkLattice_getBlockId w (x, y, z) = Inl e \<longrightarrow> \<not> hasBlockAt w x y z"
    by (simp add: hasBlockAt_def)
  have b: "chunkLattice_getBlockId w p = Inl e \<longrightarrow> \<not> isSpawnerBlockPresent cfg w p"
    by (simp add: isSpawnerBlockPresent_def)
  have c: "isSpawnerBlockPresent cfg w p \<longleftrightarrow>
      chunkLattice_getBlockId w p = Inr (Id (spawnerBlockId cfg))"
    by (simp add: isSpawnerBlockPresent_def split: sum.splits)
  have d: "chunkLattice_setBlock (world s) (x, y, z) b = Inl e \<longrightarrow>
      setBlock s x y z b = s\<lparr>console := console s @ [ErrorSetBlock x y z]\<rparr>"
    by (simp add: setBlock_throws)
  have e: "terraformStep cfg rnd now s0 =
        selectNewTarget cfg rnd now
          (onSpawnerDestroyed cfg rnd now
             (s0\<lparr>targets := (targets s0)(r := (targets s0 r)\<lparr>isActive := False\<rparr>)\<rparr>) p)"
    if "currentTarget s0 = Some r" "isActive (targets s0 r)"
       "spawnerPosition (targets s0 r) = Some p" "chunkLattice_getBlockId (world s0) p = Inl e"
  proof -
    have "destroyedSpawner cfg s0 r = Some p"
      using that(3,4) by (simp add: destroyedSpawner_Some isSpawnerBlockPresent_def)
    from terraformStep_destroyed[OF that(1,2) this] show ?thesis .
  qed
  have f: "terraformStep cfg rnd now s0 =
        fst (fold (terraformColumn cfg (targets s0 r) (currentWaveRadius cfg (targets s0 r) now)) cols
               (s\<lparr>console := console s @
                    [ErrorSetBlock x (getCurrentHeight cfg (world s) x z + 1) z]\<rparr>,
                m + 1, False))"
    if cur: "currentTarget s0 = Some r" and act: "isActive (targets s0 r)"
      and live: "destroyedSpawner cfg s0 r = None"
      and win: "terraformWindow cfg (targets s0 r) = before @ (x, z) # cols"
      and bef: "fold (terraformColumn cfg (targets s0 r) (currentWaveRadius cfg (targets s0 r) now))
                  before (s0, 0, True) = (s, m, c)"
      and inb: "isWithinBounds cfg x z"
      and wave: "\<not> number_greater (distanceFromCenter (targets s0 r) x z)
                    (currentWaveRadius cfg (targets s0 r) now)"
      and h1: "1 \<le> targetHeightForPosition cfg (targets s0 r) x z"
      and low: "getCurrentHeight cfg (world s) x z < targetHeightForPosition cfg (targets s0 r) x z"
      and thr: "chunkLattice_setBlock (world s) (x, getCurrentHeight cfg (world s) x z + 1, z)
                  (blockTypeId cfg) = Inl e"
  proof -
    let ?rest = "fold (terraformColumn cfg (targets s0 r) (currentWaveRadius cfg (targets s0 r) now))
        cols (s\<lparr>console := console s @
                    [ErrorSetBlock x (getCurrentHeight cfg (world s) x z + 1) z]\<rparr>, m + 1, False)"
    obtain s1 m1 c1 where rest: "?rest = (s1, m1, c1)" by (cases ?rest)
    have "\<not> snd (snd ?rest)" by (rule fold_terraformColumn_incomplete)
    with rest have c1: "\<not> c1" by simp
    have "terraformLoop cfg (targets s0 r) now s0 = ?rest"
      by (rule terraformLoop_failed_write[OF win bef inb wave h1 low thr])
    with rest have "terraformLoop cfg (targets s0 r) now s0 = (s1, m1, c1)" by simp
    from terraformStep_growth[OF cur act live this, of rnd] c1 rest show ?thesis by simp
  qed
  from a b c d e f show ?thesis by blast
qed

lemma unreadableState_simps:
  "world unreadableState = faultyWorld" "currentTarget unreadableState = Some 0"
  "targets unreadableState r = \<lparr>t_x = - 41, t_y = 3, t_z = 80, startTime = 0,
                       spawnerPosition = Some (- 41, 1, 80), isActive = True\<rparr>"
  "spawnerPositions unreadableState = [(- 41, 1, 80)]" "hasInitialSpawners unreadableState"
  "console unreadableState = []"
  by (simp_all add: unreadableState_def faultyState_def hillState_def)

lemma unreadable_step:
  "console (selectNewTarget zone3 rndZero 0
      (onSpawnerDestroyed zone3 rndZero 0
         (unreadableState\<lparr>targets := (targets unreadableState)
             (0 := (targets unreadableState 0)\<lparr>isActive := False\<rparr>)\<rparr>) (- 41, 1, 80)))
     = [WarnNoActiveSpawners, WarnNoActiveSpawners]"
  by (simp add: selectNewTarget_def onSpawnerDestroyed_def findTargetByPosition_def
      findValidSpawnerPosition_def getActiveSpawnerPositions_def getSpawnerPositions_def
      unreadableState_simps isSpawnerBlockPresent_faulty Set_delete_def Let_def)

theorem grid_failures_contained_witness:
  "chunkLattice_getBlockId faultyWorld (- 41, 1, 80) = Inl GridError \<and>
   \<not> hasBlockAt faultyWorld (- 41) 1 80 \<and>
   \<not> isSpawnerBlockPresent zone3 faultyWorld (- 41, 1, 80) \<and>
   currentTarget unreadableState = Some 0 \<and> isActive (targets unreadableState 0) \<and>
   spawnerPosition (targets unreadableState 0) = Some (- 41, 1, 80) \<and>
   chunkLattice_getBlockId (world unreadableState) (- 41, 1, 80) = Inl GridError \<and>
   console (terraformStep zone3 rndZero 0 unreadableState)
     = [WarnNoActiveSpawners, WarnNoActiveSpawners] \<and>
   currentTarget faultyState = Some 0 \<and> isActive (targets faultyState 0) \<and>
   destroyedSpawner zone3 faultyState 0 = None \<and>
   getCurrentHeight zone3 (world faultyState) (- 41) 80 = 0 \<and>
   chunkLattice_setBlock (world faultyState) (- 41, 1, 80) 4 = Inl GridError \<and>
   setBlock faultyState (- 41) 1 80 4 = faultyState\<lparr>console := [ErrorSetBlock (- 41) 1 80]\<rparr> \<and>
   terraformStep zone3 rndZero 3500 faultyState =
     setBlock (setBlock (setBlock (setBlock
        (faultyState\<lparr>console := [ErrorSetBlock (- 41) 1 80]\<rparr>)
          (- 40) 1 79 4) (- 40) 3 80 4) (- 40) 1 81 4) (- 39) 1 80 4 \<and>
   console (terraformStep zone3 rndZero 3500 faultyState) = [ErrorSetBlock (- 41) 1 80] \<and>
   getCurrentHeight zone3 (world (terraformStep zone3 rndZero 3500 faultyState)) (- 41) 80 = 0 \<and>
   getCurrentHeight zone3 (world (terraformStep zone3 rndZero 3500 faultyState)) (- 39) 80 = 1"
proof -
  let ?S = "faultyState"
  let ?U = "unreadableState"
  let ?t = "targets ?S 0"
  let ?S1 = "?S\<lparr>console := [ErrorSetBlock (- 41) 1 80]\<rparr>"
  let ?R = "setBlock (setBlock (setBlock (setBlock ?S1 (- 40) 1 79 4) (- 40) 3 80 4)
              (- 40) 1 81 4) (- 39) 1 80 4"
  have rd: "chunkLattice_getBlockId faultyWorld (- 41, 1, 80) = Inl GridError"
    by (simp add: chunkLattice_getBlockId_def faultyWorld_def)
  have u1: "currentTarget ?U = Some 0" and u2: "isActive (targets ?U 0)"
    and u3: "spawnerPosition (targets ?U 0) = Some (- 41, 1, 80)"
    and u4: "chunkLattice_getBlockId (world ?U) (- 41, 1, 80) = Inl GridError"
    by (simp_all add: unreadableState_simps rd)
  have cur: "currentTarget ?S = Some 0" and act: "isActive (targets ?S 0)"
    by (simp_all add: faultyState_simps)
  have h: "getCurrentHeight zone3 (world ?S) (- 41) 80 = 0"
    by (simp add: faultyState_simps getCurrentHeight_faulty)
  have wr: "chunkLattice_setBlock (world ?S) (- 41, 1, 80) 4 = Inl GridError"
    by (simp add: chunkLattice_setBlock_def faultyState_simps faultyWorld_def)
  have inb: "isWithinBounds zone3 (- 41) 80"
    by (simp add: isWithinBounds_iff zone3_simps)
  have wave: "\<not> number_greater (distanceFromCenter ?t (- 41) 80) (currentWaveRadius zone3 ?t 3500)"
    unfolding faulty_radius by (simp add: faulty_distance_gt_1)
  have th: "targetHeightForPosition zone3 ?t (- 41) 80 = 2"
    by (rule zone3_height_near) simp
  have p3: "1 \<le> targetHeightForPosition zone3 ?t (- 41) 80"
    and p4: "getCurrentHeight zone3 (world ?S) (- 41) 80 < targetHeightForPosition zone3 ?t (- 41) 80"
    by (simp_all add: th h)
  have wr': "chunkLattice_setBlock (world ?S) (- 41, getCurrentHeight zone3 (world ?S) (- 41) 80 + 1, 80)
              (blockTypeId zone3) = Inl GridError"
    using wr by (simp add: h zone3_simps)
  note g1 = grid_failures_contained[where w=faultyWorld and x="- 41" and y=1 and z=80
      and e=GridError and p="(- 41, 1, 80)" and cfg=zone3 and s="?S" and b=4 and ?s0.0="?U"
      and r=0 and rnd=rndZero and now=0]
  note g2 = grid_failures_contained[where w=faultyWorld and x="- 41" and y=1 and z=80
      and e=GridError and p="(- 41, 1, 80)" and cfg=zone3 and s="?S" and b=4 and ?s0.0="?S"
      and r=0 and rnd=rndZero and now=3500 and m=0 and c=False
      and before="List.product [- 44 .. - 42] [76 .. 83] @ map (Pair (- 41)) [76 .. 79]"
      and cols="map (Pair (- 41)) [81 .. 83] @ List.product [- 40 .. - 37] [76 .. 83]"]
  from g1 rd have r1: "\<not> hasBlockAt faultyWorld (- 41) 1 80"
    and r2: "\<not> isSpawnerBlockPresent zone3 faultyWorld (- 41, 1, 80)" by blast+
  from g1 u1 u2 u3 u4 have "terraformStep zone3 rndZero 0 ?U =
      selectNewTarget zone3 rndZero 0
        (onSpawnerDestroyed zone3 rndZero 0
           (?U\<lparr>targets := (targets ?U)(0 := (targets ?U 0)\<lparr>isActive := False\<rparr>)\<rparr>) (- 41, 1, 80))"
    by blast
  then have us: "console (terraformStep zone3 rndZero 0 ?U)
                   = [WarnNoActiveSpawners, WarnNoActiveSpawners]"
    by (simp only: unreadable_step)
  from g2 wr have "setBlock ?S (- 41) 1 80 4 = ?S\<lparr>console := console ?S @ [ErrorSetBlock (- 41) 1 80]\<rparr>"
    by blast
  then have w1: "setBlock ?S (- 41) 1 80 4 = ?S1" by (simp add: faultyState_simps)
  from g2 cur act faulty_not_destroyed faulty_window faulty_before[folded faulty_radius]
    inb wave p3 p4 wr'
  have "terraformStep zone3 rndZero 3500 ?S =
        fst (fold (terraformColumn zone3 ?t (currentWaveRadius zone3 ?t 3500))
          (map (Pair (- 41)) [81 .. 83] @ List.product [- 40 .. - 37] [76 .. 83])
          (?S\<lparr>console := console ?S @
              [ErrorSetBlock (- 41) (getCurrentHeight zone3 (world ?S) (- 41) 80 + 1) 80]\<rparr>,
           0 + 1, False))"
    by blast
  also have "?S\<lparr>console := console ?S @
              [ErrorSetBlock (- 41) (getCurrentHeight zone3 (world ?S) (- 41) 80 + 1) 80]\<rparr> = ?S1"
    by (simp add: faultyState_simps getCurrentHeight_faulty)
  finally have "terraformStep zone3 rndZero 3500 ?S =
        fst (fold (terraformColumn zone3 ?t (currentWaveRadius zone3 ?t 3500))
          (map (Pair (- 41)) [81 .. 83] @ List.product [- 40 .. - 37] [76 .. 83])
          (?S1, 0 + 1, False))" .
  then have st: "terraformStep zone3 rndZero 3500 ?S = ?R"
    by (simp only: faulty_radius add_0 faulty_after fst_conv)
  have ok: "writeFails faultyWorld (x, y, z) \<longleftrightarrow> (x, z) = (- 41, 80)" for x y z
    by (simp add: faultyWorld_def)
  have con: "console ?R = [ErrorSetBlock (- 41) 1 80]"
    by (simp add: console_setBlock_ok writeFails_setBlock faultyState_simps(1) ok)
  have h1: "getCurrentHeight zone3 (world ?R) (- 41) 80 = 0"
    by (simp add: getCurrentHeight_setBlock_other faultyState_simps(1) getCurrentHeight_faulty)
  have h0: "getCurrentHeight zone3 (world (setBlock (setBlock (setBlock ?S1 (- 40) 1 79 4)
              (- 40) 3 80 4) (- 40) 1 81 4)) (- 39) 80 = 0"
    by (simp add: getCurrentHeight_setBlock_other faultyState_simps(1) getCurrentHeight_faulty)
  have h2: "getCurrentHeight zone3 (world ?R) (- 39) 80 = 1"
    using getCurrentHeight_setBlock_same[of "setBlock (setBlock (setBlock ?S1 (- 40) 1 79 4)
              (- 40) 3 80 4) (- 40) 1 81 4" "- 39" zone3 80 4]
    by (simp add: h0 writeFails_setBlock faultyState_simps(1) ok zone3_simps)
  show ?thesis
    unfolding st
    by (intro conjI)
       (rule rd r1 r2 u1 u2 u3 u4 us cur act faulty_not_destroyed h wr w1 refl con h1 h2)+
qed

end
